(* ===== verification/Prelude.thy ===== *)
theory Prelude
  imports Main
begin

text \<open>
  Shared vocabulary of the development: the collections of rules the component
  theories register their facts in, the machine bounds of the MySQL column types the
  schema of \<open>src/app.py\<close> uses, the rows of the complaint listing, and generic lemmas
  on lists and on the keyed row updates every table operation is built from.
\<close>

named_theorems db_defs "unfolding rules of the modelled SQL statements and data-access calls"
named_theorems wf_simps "rules that decide the well-formedness invariant of the database"

section \<open>Machine bounds\<close>

text \<open>
  \<open>INT\<close> columns (the \<open>AUTO_INCREMENT\<close> keys of both tables) are signed 32-bit
  integers: the largest key MySQL can hand out is \<open>2^31 - 1\<close>.  \<open>TIMESTAMP\<close> columns
  hold seconds since the epoch from 1 to \<open>2^31 - 1\<close> (2038-01-19 03:14:07 UTC).
\<close>

definition INT_MAX :: int where
  "INT_MAX = 2147483647"

definition TS_MAX :: nat where
  "TS_MAX = 2147483647"

type_synonym timestamp = nat

definition ts_ok :: "timestamp \<Rightarrow> bool" where
  "ts_ok t \<longleftrightarrow> 1 \<le> t \<and> t \<le> TS_MAX"

text \<open>A \<open>VARCHAR(n)\<close> value (and a \<open>TEXT\<close> value, \<open>n = 65535\<close>) fits when it has at most
  \<open>n\<close> characters; in strict SQL mode a longer value is an error, not a truncation.\<close>

definition fits :: "nat \<Rightarrow> string \<Rightarrow> bool" where
  "fits n v \<longleftrightarrow> length v \<le> n"

section \<open>The rows of the complaint listing\<close>

text \<open>
  A row of the complaint listing is the six-column tuple the \<open>SELECT\<close> of
  \<open>get_user_complaints\<close> returns and \<open>pd.DataFrame\<close> shows: id, description, status,
  created, resolution, resolved.
\<close>

type_synonym listing_row = "int \<times> string \<times> string \<times> timestamp \<times> string \<times> timestamp option"

section \<open>Generic list lemmas\<close>

text \<open>
  Every \<open>UPDATE ... WHERE id = k\<close> is a map over the rows that rewrites the rows
  with key \<open>k\<close>; the lemmas below are what the table proofs need of such a map.
\<close>

definition upd_where :: "('r \<Rightarrow> 'k) \<Rightarrow> 'k \<Rightarrow> ('r \<Rightarrow> 'r) \<Rightarrow> 'r list \<Rightarrow> 'r list" where
  "upd_where key k f rs = map (\<lambda>r. if key r = k then f r else r) rs"

lemma upd_where_keys [simp]:
  "(\<And>r. key (f r) = key r) \<Longrightarrow> map key (upd_where key k f rs) = map key rs"
  by (induction rs) (auto simp: upd_where_def)

lemma upd_where_length [simp]: "length (upd_where key k f rs) = length rs"
  by (simp add: upd_where_def)

lemma upd_where_no_key [simp]: "k \<notin> key ` set rs \<Longrightarrow> upd_where key k f rs = rs"
  by (induction rs) (auto simp: upd_where_def)

lemma set_upd_where:
  "set (upd_where key k f rs) = (\<lambda>r. if key r = k then f r else r) ` set rs"
  by (simp add: upd_where_def)

lemma filter_upd_where:
  "(\<And>r. P (f r) = P r) \<Longrightarrow>
     filter P (upd_where key k f rs) = upd_where key k f (filter P rs)"
  by (induction rs) (auto simp: upd_where_def)

lemma upd_where_member: "r \<in> set rs \<Longrightarrow> (if key r = k then f r else r) \<in> set (upd_where key k f rs)"
  by (simp add: upd_where_def)

lemma card_ids_bound:
  assumes "sorted_wrt (<) ids" "\<forall>i \<in> set ids. 1 \<le> i \<and> i \<le> (m::int)"
  shows "length ids \<le> nat m"
proof -
  have "length ids = card (set ids)" using assms(1) by (simp add: distinct_card strict_sorted_iff)
  also have "\<dots> \<le> card {1..m}" using assms(2) by (intro card_mono) auto
  finally show ?thesis by simp
qed

lemma map_of_snoc_fresh:
  "k \<notin> fst ` set ps \<Longrightarrow> map_of (ps @ [(k, v)]) = (map_of ps)(k \<mapsto> v)"
  by (induction ps) (auto simp: fun_eq_iff)

lemma distinct_snoc_fresh [simp]:
  "distinct (xs @ [x]) \<longleftrightarrow> distinct xs \<and> x \<notin> set xs"
  by auto

end
