(* ===== verification/Schema.thy ===== *)
theory Schema
  imports Prelude
begin

text \<open>
  The storage side of \<open>src/app.py\<close>: the two tables the schema initializer
  \<open>init_db\<close> creates (lines 17--48), the MySQL server the program talks to through
  \<open>get_database_connection\<close> (lines 8--14), and the server-side facts every SQL
  statement of the program depends on: table-name resolution
  (\<open>lower_case_table_names\<close>), the string collation of \<open>WHERE\<close> comparisons, the
  statement clock read by \<open>CURRENT_TIMESTAMP\<close>, and the count of open client
  connections.  Each data-access call of the program is a function
  \<open>server \<Rightarrow> (db_error + 'a) \<times> server\<close>: the new server state is returned on the error
  path too, since a failed call can still have opened a connection it never closed.
\<close>

section \<open>Data model\<close>

text \<open>The exceptions that can escape a call of the program: the MySQL errors its
  statements can raise (strict SQL mode, InnoDB), the one \<open>mysql.connector\<close> raises
  itself, and the two pandas raises on the frames the page builds and reads.\<close>

datatype db_error =
    ConnectionRefused            \<comment> \<open>2003: the server is not reachable\<close>
  | NoSuchTable string           \<comment> \<open>1146: Table doesn't exist\<close>
  | FkParentMissing string       \<comment> \<open>1824: Failed to open the referenced table\<close>
  | DataTooLong string           \<comment> \<open>1406: Data too long for column\<close>
  | AutoIncExhausted             \<comment> \<open>1467: Failed to read auto-increment value\<close>
  | FkViolation                  \<comment> \<open>1452: Cannot add or update a child row\<close>
  | BadTimestamp string          \<comment> \<open>1292: Incorrect datetime value\<close>
  | UnreadResult                 \<comment> \<open>driver InternalError: Unread result found\<close>
  | AccessDenied string          \<comment> \<open>1045: Access denied for user\<close>
  | UnknownDatabase string       \<comment> \<open>1049: Unknown database\<close>
  | KeyError string              \<comment> \<open>pandas: no column with this label\<close>
  | ValueError nat               \<comment> \<open>pandas: this many labels for six columns\<close>

text \<open>A row of \<open>USERS\<close> (lines 23--27) and of \<open>COMPLAINTS\<close> (lines 32--41).\<close>

record user_row =
  uid :: int
  uname :: string
  upass :: string

record complaint_row =
  cid :: int
  cuser :: int
  cdesc :: string
  cstatus :: string
  ccreated :: timestamp
  cresolution :: string
  cresolved :: "timestamp option"

text \<open>An InnoDB table: its rows in primary-key order and its \<open>AUTO_INCREMENT\<close> counter.\<close>

record 'r tbl =
  rows :: "'r list"
  auto_inc :: int

datatype table = UsersT "user_row tbl" | ComplaintsT "complaint_row tbl"

text \<open>The collation of the \<open>VARCHAR\<close> columns: \<open>Binary\<close> compares exactly,
  \<open>CaseInsensitive\<close> (the \<open>_ci\<close> default collations) compares after ASCII case folding.
  Both are \<open>NO PAD\<close> collations, as MySQL 8's \<open>utf8mb4_0900_bin\<close> and
  \<open>utf8mb4_0900_ai_ci\<close>.  \<open>BinaryPad\<close> and \<open>CaseInsensitivePad\<close> are their \<open>PAD SPACE\<close>
  counterparts (\<open>utf8mb4_bin\<close>, \<open>utf8mb4_general_ci\<close>, \<open>latin1_swedish_ci\<close>, the
  defaults before MySQL 8 and of MariaDB): the shorter string is padded with spaces, so
  trailing spaces do not count.\<close>

datatype collation = Binary | CaseInsensitive | BinaryPad | CaseInsensitivePad

record server =
  catalog :: "string \<Rightarrow> table option"
  lower_case_names :: bool
  coll :: collation
  clock :: timestamp
  up :: bool
  accounts :: "(string \<times> string) list"
  databases :: "string list"
  conns :: nat

section \<open>Name resolution and comparison\<close>

definition lower_char :: "char \<Rightarrow> char" where
  "lower_char c = (let n = of_char c :: nat in if 65 \<le> n \<and> n \<le> 90 then char_of (n + 32) else c)"

definition lower :: "string \<Rightarrow> string" where
  "lower s = map lower_char s"

text \<open>A string without its trailing spaces.\<close>

definition rtrim_sp :: "string \<Rightarrow> string" where
  "rtrim_sp s = rev (dropWhile (\<lambda>c. c = CHR '' '') (rev s))"

fun str_eq :: "collation \<Rightarrow> string \<Rightarrow> string \<Rightarrow> bool" where
  "str_eq Binary a b \<longleftrightarrow> a = b"
| "str_eq CaseInsensitive a b \<longleftrightarrow> lower a = lower b"
| "str_eq BinaryPad a b \<longleftrightarrow> rtrim_sp a = rtrim_sp b"
| "str_eq CaseInsensitivePad a b \<longleftrightarrow> lower (rtrim_sp a) = lower (rtrim_sp b)"

text \<open>The catalog key of a table name as written in a statement: with
  \<open>lower_case_table_names = 0\<close> (the Linux default) names are case-sensitive.\<close>

definition tkey :: "server \<Rightarrow> string \<Rightarrow> string" where
  "tkey s n = (if lower_case_names s then lower n else n)"

definition users_of :: "server \<Rightarrow> db_error + user_row tbl" where
  "users_of s = (case catalog s (tkey s ''users'') of
                   Some (UsersT t) \<Rightarrow> Inr t
                 | _ \<Rightarrow> Inl (NoSuchTable ''users''))"

definition complaints_of :: "server \<Rightarrow> db_error + complaint_row tbl" where
  "complaints_of s = (case catalog s (tkey s ''complaints'') of
                        Some (ComplaintsT t) \<Rightarrow> Inr t
                      | _ \<Rightarrow> Inl (NoSuchTable ''complaints''))"

definition put_users :: "user_row tbl \<Rightarrow> server \<Rightarrow> server" where
  "put_users t s = s\<lparr>catalog := (catalog s)(tkey s ''users'' \<mapsto> UsersT t)\<rparr>"

definition put_complaints :: "complaint_row tbl \<Rightarrow> server \<Rightarrow> server" where
  "put_complaints t s = s\<lparr>catalog := (catalog s)(tkey s ''complaints'' \<mapsto> ComplaintsT t)\<rparr>"

section \<open>Connections\<close>

text \<open>\<open>get_database_connection\<close> (lines 8--14) and \<open>db.close()\<close>.\<close>

text \<open>The parameters of \<open>MySQLConnection(...)\<close> (lines 10--13): the server on
  \<open>localhost\<close> must be up, accept the password of \<open>root\<close>, and hold the database
  \<open>Grievances\<close>, whose name is resolved like a table name.  The driver checks them in
  this order, and \<open>conn_error\<close> is the error of the first check that fails.\<close>

definition conn_user :: string where "conn_user = ''root''"
definition conn_password :: string where "conn_password = ''password''"
definition conn_database :: string where "conn_database = ''Grievances''"

definition online :: "server \<Rightarrow> bool" where
  "online s \<longleftrightarrow> up s \<and> (conn_user, conn_password) \<in> set (accounts s) \<and> tkey s conn_database \<in> set (databases s)"

definition conn_error :: "server \<Rightarrow> db_error" where
  "conn_error s =
     (if \<not> up s then ConnectionRefused
      else if (conn_user, conn_password) \<notin> set (accounts s) then AccessDenied conn_user
      else UnknownDatabase conn_database)"

definition connect :: "server \<Rightarrow> (db_error + unit) \<times> server" where
  "connect s = (if online s then (Inr (), s\<lparr>conns := Suc (conns s)\<rparr>)
                else (Inl (conn_error s), s))"

definition disconnect :: "server \<Rightarrow> server" where
  "disconnect s = s\<lparr>conns := conns s - 1\<rparr>"

section \<open>The schema initializer\<close>

definition create_users_table :: "server \<Rightarrow> db_error + server" where
  "create_users_table s =
     (let k = tkey s ''USERS'' in
      case catalog s k of
        Some _ \<Rightarrow> Inr s
      | None \<Rightarrow> Inr (s\<lparr>catalog := (catalog s)(k \<mapsto> UsersT \<lparr>rows = [], auto_inc = 1\<rparr>)\<rparr>))"

text \<open>The \<open>FOREIGN KEY (user_id) REFERENCES users(id)\<close> clause needs the table
  \<open>users\<close>, spelled in lower case, to exist when \<open>COMPLAINTS\<close> is created.\<close>

definition create_complaints_table :: "server \<Rightarrow> db_error + server" where
  "create_complaints_table s =
     (let k = tkey s ''COMPLAINTS'' in
      case catalog s k of
        Some _ \<Rightarrow> Inr s
      | None \<Rightarrow>
          (case users_of s of
             Inl _ \<Rightarrow> Inl (FkParentMissing ''users'')
           | Inr _ \<Rightarrow> Inr (s\<lparr>catalog := (catalog s)(k \<mapsto> ComplaintsT \<lparr>rows = [], auto_inc = 1\<rparr>)\<rparr>)))"

text \<open>\<open>init_db\<close> has no \<open>try\<close>/\<open>finally\<close>: when a statement raises, the cursor and the
  connection are left open, and DDL already executed has committed implicitly.\<close>

definition init_db :: "server \<Rightarrow> (db_error + unit) \<times> server" where
  "init_db s =
     (case connect s of
        (Inl e, s1) \<Rightarrow> (Inl e, s1)
      | (Inr _, s1) \<Rightarrow>
          (case create_users_table s1 of
             Inl e \<Rightarrow> (Inl e, s1)
           | Inr s2 \<Rightarrow>
               (case create_complaints_table s2 of
                  Inl e \<Rightarrow> (Inl e, s2)
                | Inr s3 \<Rightarrow> (Inr (), disconnect s3))))"


section \<open>Well-formedness of the stored data\<close>

text \<open>
  What the schema and the statements of the program keep true of the tables: keys are
  handed out by \<open>AUTO_INCREMENT\<close> in increasing order from 1 and stay within \<open>INT\<close>;
  every value fits its column; every complaint references an existing user (the foreign
  key); a complaint is either \<open>Pending\<close> with the column defaults, or \<open>Resolved\<close> with a
  resolution time no earlier than its creation time; no stored time is ahead of the
  server clock.
\<close>

definition users_wf :: "user_row tbl \<Rightarrow> bool" where
  "users_wf t \<longleftrightarrow>
     sorted_wrt (<) (map uid (rows t)) \<and> 1 \<le> auto_inc t \<and> auto_inc t \<le> INT_MAX + 1 \<and>
     (\<forall>r \<in> set (rows t). 1 \<le> uid r \<and> uid r < auto_inc t \<and> fits 25 (uname r) \<and> fits 25 (upass r))"

definition row_state_ok :: "timestamp \<Rightarrow> complaint_row \<Rightarrow> bool" where
  "row_state_ok clk r \<longleftrightarrow>
     ts_ok (ccreated r) \<and> ccreated r \<le> clk \<and>
     (if cstatus r = ''Pending'' then cresolution r = ''Not Available'' \<and> cresolved r = None
      else cstatus r = ''Resolved'' \<and>
           (case cresolved r of None \<Rightarrow> False | Some t \<Rightarrow> ccreated r \<le> t \<and> t \<le> clk \<and> ts_ok t))"

definition complaints_wf :: "timestamp \<Rightarrow> user_row tbl \<Rightarrow> complaint_row tbl \<Rightarrow> bool" where
  "complaints_wf clk u c \<longleftrightarrow>
     sorted_wrt (<) (map cid (rows c)) \<and> 1 \<le> auto_inc c \<and> auto_inc c \<le> INT_MAX + 1 \<and>
     (\<forall>r \<in> set (rows c). 1 \<le> cid r \<and> cid r < auto_inc c \<and> cuser r \<in> set (map uid (rows u)) \<and>
        fits 65535 (cdesc r) \<and> fits 255 (cresolution r) \<and> row_state_ok clk r)"

definition wf_server :: "server \<Rightarrow> bool" where
  "wf_server s \<longleftrightarrow>
     (case users_of s of Inr u \<Rightarrow> users_wf u | Inl _ \<Rightarrow> True) \<and>
     (case complaints_of s of
        Inr c \<Rightarrow> (case users_of s of Inr u \<Rightarrow> complaints_wf (clock s) u c | Inl _ \<Rightarrow> False)
      | Inl _ \<Rightarrow> True)"

text \<open>The column types of the two \<open>CREATE TABLE\<close> statements (lines 23--27 and 32--41):
  \<open>INT\<close> ids and keys, \<open>VARCHAR\<close> and \<open>TEXT\<close> widths, \<open>TIMESTAMP\<close> ranges, and the two
  status values the specification allows.\<close>

definition user_row_typed :: "user_row \<Rightarrow> bool" where
  "user_row_typed r \<longleftrightarrow> 1 \<le> uid r \<and> uid r \<le> INT_MAX \<and> fits 25 (uname r) \<and> fits 25 (upass r)"

definition complaint_row_typed :: "complaint_row \<Rightarrow> bool" where
  "complaint_row_typed r \<longleftrightarrow>
     1 \<le> cid r \<and> cid r \<le> INT_MAX \<and> - INT_MAX - 1 \<le> cuser r \<and> cuser r \<le> INT_MAX \<and>
     fits 65535 (cdesc r) \<and> fits 25 (cstatus r) \<and> cstatus r \<in> {''Pending'', ''Resolved''} \<and>
     ts_ok (ccreated r) \<and> fits 255 (cresolution r) \<and> (case cresolved r of None \<Rightarrow> True | Some t \<Rightarrow> ts_ok t)"

text \<open>A server where \<open>init_db\<close> has nothing to do and every query finds its table.\<close>

definition schema_ready :: "server \<Rightarrow> bool" where
  "schema_ready s \<longleftrightarrow> lower_case_names s \<and> online s \<and> \<not> isl (users_of s) \<and> \<not> isl (complaints_of s)"

section \<open>Lemmas on names, tables and connections\<close>

lemma length_lower [simp]: "length (lower s) = length s"
  by (simp add: lower_def)

lemma lower_USERS [simp]: "lower ''USERS'' = ''users''"
  by code_simp

lemma lower_users [simp]: "lower ''users'' = ''users''"
  by code_simp

lemma lower_COMPLAINTS [simp]: "lower ''COMPLAINTS'' = ''complaints''"
  by code_simp

lemma lower_complaints [simp]: "lower ''complaints'' = ''complaints''"
  by code_simp

lemma tkey_users_complaints [simp]: "tkey s ''users'' \<noteq> tkey s ''complaints''"
  by (simp add: tkey_def)

lemma str_eq_refl [simp]: "str_eq c a a"
  by (cases c) simp_all

lemma rtrim_sp_pad [simp]: "rtrim_sp (s @ replicate n (CHR '' '')) = rtrim_sp s"
  unfolding rtrim_sp_def by (subst rev_append) (rule arg_cong [where f = rev], rule dropWhile_append2, simp)

lemma str_eq_pad:
  "c \<in> {BinaryPad, CaseInsensitivePad} \<Longrightarrow> str_eq c x (s @ replicate n (CHR '' '')) = str_eq c x s"
  by auto

lemma tkey_frame [simp]:
  "tkey (s\<lparr>conns := n\<rparr>) = tkey s" "tkey (s\<lparr>clock := t\<rparr>) = tkey s"
  "tkey (s\<lparr>up := b\<rparr>) = tkey s" "tkey (s\<lparr>catalog := cat\<rparr>) = tkey s"
  by (simp_all add: tkey_def fun_eq_iff)

lemma online_frame [simp]:
  "online (s\<lparr>conns := n\<rparr>) = online s" "online (s\<lparr>clock := t\<rparr>) = online s"
  "online (s\<lparr>catalog := cat\<rparr>) = online s"
  "conn_error (s\<lparr>conns := n\<rparr>) = conn_error s" "conn_error (s\<lparr>clock := t\<rparr>) = conn_error s"
  "conn_error (s\<lparr>catalog := cat\<rparr>) = conn_error s"
  by (simp_all add: online_def conn_error_def)

lemma conn_error_cases:
  "conn_error s \<in> {ConnectionRefused, AccessDenied conn_user, UnknownDatabase conn_database}"
  by (simp add: conn_error_def)

lemma conn_error_not [simp]: "conn_error s \<noteq> FkViolation" "conn_error s \<noteq> UnreadResult"
  using conn_error_cases [of s] by auto

lemma put_frame [simp]:
  "put_users t (s\<lparr>conns := n\<rparr>) = (put_users t s)\<lparr>conns := n\<rparr>"
  "put_complaints c (s\<lparr>conns := n\<rparr>) = (put_complaints c s)\<lparr>conns := n\<rparr>"
  "conns (put_users t s) = conns s" "conns (put_complaints c s) = conns s"
  by (simp_all add: put_users_def put_complaints_def)

lemma users_of_frame [simp]:
  "users_of (s\<lparr>conns := n\<rparr>) = users_of s" "users_of (s\<lparr>clock := t\<rparr>) = users_of s"
  "users_of (s\<lparr>up := b\<rparr>) = users_of s"
  by (simp_all add: users_of_def tkey_def)

lemma complaints_of_frame [simp]:
  "complaints_of (s\<lparr>conns := n\<rparr>) = complaints_of s" "complaints_of (s\<lparr>clock := t\<rparr>) = complaints_of s"
  "complaints_of (s\<lparr>up := b\<rparr>) = complaints_of s"
  by (simp_all add: complaints_of_def tkey_def)

lemma put_users_simps [simp]:
  "users_of (put_users t s) = Inr t" "complaints_of (put_users t s) = complaints_of s"
  "clock (put_users t s) = clock s"
  "online (put_users t s) = online s" "lower_case_names (put_users t s) = lower_case_names s"
  "coll (put_users t s) = coll s"
  by (simp_all add: put_users_def users_of_def complaints_of_def tkey_def online_def)

lemma put_complaints_simps [simp]:
  "complaints_of (put_complaints t s) = Inr t" "users_of (put_complaints t s) = users_of s"
  "clock (put_complaints t s) = clock s"
  "online (put_complaints t s) = online s" "lower_case_names (put_complaints t s) = lower_case_names s"
  "coll (put_complaints t s) = coll s"
  by (simp_all add: put_complaints_def users_of_def complaints_of_def tkey_def online_def)

lemma put_twice [simp]:
  "put_users a (put_users b s) = put_users a s"
  "put_complaints c (put_complaints d s) = put_complaints c s"
  by (simp_all add: put_users_def put_complaints_def)

lemma disconnect_simps [simp]:
  "users_of (disconnect s) = users_of s" "complaints_of (disconnect s) = complaints_of s"
  "clock (disconnect s) = clock s" "conns (disconnect s) = conns s - 1"
  "online (disconnect s) = online s" "coll (disconnect s) = coll s"
  "lower_case_names (disconnect s) = lower_case_names s"
  by (simp_all add: disconnect_def)

lemma wf_server_frame [simp]:
  "wf_server (s\<lparr>conns := n\<rparr>) = wf_server s" "wf_server (s\<lparr>up := b\<rparr>) = wf_server s"
  "wf_server (disconnect s) = wf_server s"
  by (simp_all add: wf_server_def disconnect_def split: sum.split)

section \<open>Column types and table sizes\<close>

lemma users_wf_typed: "users_wf t \<Longrightarrow> list_all user_row_typed (rows t)"
  by (auto simp: users_wf_def user_row_typed_def list_all_iff)

lemma complaints_wf_typed: "users_wf u \<Longrightarrow> complaints_wf clk u c \<Longrightarrow> list_all complaint_row_typed (rows c)"
  by (fastforce simp: users_wf_def complaints_wf_def complaint_row_typed_def row_state_ok_def list_all_iff fits_def
               split: option.splits if_splits)

lemma users_wf_length: "users_wf t \<Longrightarrow> length (rows t) \<le> nat INT_MAX"
  using card_ids_bound [of "map uid (rows t)" INT_MAX]
  by (fastforce simp: users_wf_def)

lemma complaints_wf_length: "complaints_wf clk u c \<Longrightarrow> length (rows c) \<le> nat INT_MAX"
  using card_ids_bound [of "map cid (rows c)" INT_MAX]
  by (fastforce simp: complaints_wf_def)

declare connect_def [db_defs] disconnect_def [db_defs] create_users_table_def [db_defs]
  create_complaints_table_def [db_defs] init_db_def [db_defs]

section \<open>The schema initializer: effect, invariant, idempotence\<close>


lemma create_users_table_Inr: "\<exists>s'. create_users_table s = Inr s'"
  by (simp add: create_users_table_def Let_def split: option.split)

lemma create_users_table_catalog:
  assumes "create_users_table s = Inr s'"
  shows "\<exists>cat. catalog s \<subseteq>\<^sub>m cat \<and> s' = s\<lparr>catalog := cat\<rparr>"
proof (cases "catalog s (tkey s ''USERS'')")
  case None
  with assms show ?thesis
    by (intro exI[of _ "catalog s'"]) (auto simp: create_users_table_def map_le_def)
next
  case (Some x)
  with assms show ?thesis
    by (intro exI[of _ "catalog s"]) (simp add: create_users_table_def)
qed

lemma create_complaints_table_catalog:
  assumes "create_complaints_table s = Inr s'"
  shows "\<exists>cat. catalog s \<subseteq>\<^sub>m cat \<and> s' = s\<lparr>catalog := cat\<rparr>"
proof (cases "catalog s (tkey s ''COMPLAINTS'')")
  case None
  with assms show ?thesis
    by (intro exI[of _ "catalog s'"]) (auto simp: create_complaints_table_def map_le_def split: sum.splits)
next
  case (Some x)
  with assms show ?thesis
    by (intro exI[of _ "catalog s"]) (simp add: create_complaints_table_def)
qed

lemma map_le_SomeD: "m \<subseteq>\<^sub>m m' \<Longrightarrow> m k = Some v \<Longrightarrow> m' k = Some v"
  by (metis domI map_le_def)

lemma users_of_grow:
  assumes "catalog s \<subseteq>\<^sub>m catalog s'" "lower_case_names s' = lower_case_names s" "users_of s = Inr u"
  shows "users_of s' = Inr u"
proof -
  have k: "tkey s' ''users'' = tkey s ''users''" using assms(2) by (simp add: tkey_def)
  from assms(3) have "catalog s (tkey s ''users'') = Some (UsersT u)"
    by (simp add: users_of_def split: option.splits table.splits)
  with assms(1) have "catalog s' (tkey s ''users'') = Some (UsersT u)" by (rule map_le_SomeD)
  with k show ?thesis by (simp add: users_of_def)
qed

lemma complaints_of_grow:
  assumes "catalog s \<subseteq>\<^sub>m catalog s'" "lower_case_names s' = lower_case_names s" "complaints_of s = Inr c"
  shows "complaints_of s' = Inr c"
proof -
  have k: "tkey s' ''complaints'' = tkey s ''complaints''" using assms(2) by (simp add: tkey_def)
  from assms(3) have "catalog s (tkey s ''complaints'') = Some (ComplaintsT c)"
    by (simp add: complaints_of_def split: option.splits table.splits)
  with assms(1) have "catalog s' (tkey s ''complaints'') = Some (ComplaintsT c)" by (rule map_le_SomeD)
  with k show ?thesis by (simp add: complaints_of_def)
qed

lemma init_db_offline: "\<not> online s \<Longrightarrow> init_db s = (Inl (conn_error s), s)"
  by (simp add: init_db_def connect_def)

lemma init_db_effect:
  assumes "init_db s = (r, s')" "online s"
  shows "\<exists>cat. catalog s \<subseteq>\<^sub>m cat \<and>
     s' = s\<lparr>catalog := cat, conns := (case r of Inr _ \<Rightarrow> conns s | Inl _ \<Rightarrow> Suc (conns s))\<rparr>"
proof -
  let ?s1 = "s\<lparr>conns := Suc (conns s)\<rparr>"
  have eq: "init_db s = (case create_users_table ?s1 of Inl e \<Rightarrow> (Inl e, ?s1)
     | Inr s2 \<Rightarrow> (case create_complaints_table s2 of Inl e \<Rightarrow> (Inl e, s2) | Inr s3 \<Rightarrow> (Inr (), disconnect s3)))"
    using assms(2) by (simp add: init_db_def connect_def)
  obtain s2 where s2: "create_users_table ?s1 = Inr s2"
    using create_users_table_Inr by blast
  then obtain cat2 where c2: "catalog s \<subseteq>\<^sub>m cat2" "s2 = ?s1\<lparr>catalog := cat2\<rparr>"
    by (auto dest!: create_users_table_catalog)
  show ?thesis
  proof (cases "create_complaints_table s2")
    case (Inl e)
    with eq s2 assms(1) c2 show ?thesis by auto
  next
    case (Inr s3)
    then obtain cat3 where "cat2 \<subseteq>\<^sub>m cat3" "s3 = s2\<lparr>catalog := cat3\<rparr>"
      using c2 by (auto dest!: create_complaints_table_catalog)
    with eq s2 Inr assms(1) c2 show ?thesis
      by (auto simp: disconnect_def intro: map_le_trans)
  qed
qed

lemma users_wf_empty [simp]: "users_wf \<lparr>rows = [], auto_inc = 1\<rparr>"
  by (simp add: users_wf_def INT_MAX_def)

lemma complaints_wf_empty [simp]: "complaints_wf clk u \<lparr>rows = [], auto_inc = 1\<rparr>"
  by (simp add: complaints_wf_def INT_MAX_def)

lemma users_of_upd:
  "users_of (s\<lparr>catalog := (catalog s)(k \<mapsto> v)\<rparr>) =
     (if k = tkey s ''users'' then (case v of UsersT t \<Rightarrow> Inr t | _ \<Rightarrow> Inl (NoSuchTable ''users''))
      else users_of s)"
  by (simp add: users_of_def tkey_def split: table.split)

lemma complaints_of_upd:
  "complaints_of (s\<lparr>catalog := (catalog s)(k \<mapsto> v)\<rparr>) =
     (if k = tkey s ''complaints'' then (case v of ComplaintsT t \<Rightarrow> Inr t | _ \<Rightarrow> Inl (NoSuchTable ''complaints''))
      else complaints_of s)"
  by (simp add: complaints_of_def tkey_def split: table.split)

lemma tkey_distinct [simp]:
  "tkey s ''USERS'' \<noteq> tkey s ''complaints''" "tkey s ''COMPLAINTS'' \<noteq> tkey s ''users''"
  "tkey s ''USERS'' = tkey s ''users'' \<longleftrightarrow> lower_case_names s"
  "tkey s ''COMPLAINTS'' = tkey s ''complaints'' \<longleftrightarrow> lower_case_names s"
  by (simp_all add: tkey_def)

lemma users_of_InrD: "users_of s = Inr u \<Longrightarrow> catalog s (tkey s ''users'') = Some (UsersT u)"
  by (simp add: users_of_def split: option.splits table.splits)

lemma complaints_of_InrD: "complaints_of s = Inr c \<Longrightarrow> catalog s (tkey s ''complaints'') = Some (ComplaintsT c)"
  by (simp add: complaints_of_def split: option.splits table.splits)

lemma create_users_table_wf:
  assumes "wf_server s" "create_users_table s = Inr s'"
  shows "wf_server s'"
proof (cases "catalog s (tkey s ''USERS'')")
  case None
  then have "s' = s\<lparr>catalog := (catalog s)(tkey s ''USERS'' \<mapsto> UsersT \<lparr>rows = [], auto_inc = 1\<rparr>)\<rparr>"
    using assms(2) by (simp add: create_users_table_def)
  with assms(1) None show ?thesis
    by (auto simp: wf_server_def users_of_upd complaints_of_upd tkey_def dest!: users_of_InrD split: sum.splits)
next
  case Some
  with assms show ?thesis by (simp add: create_users_table_def)
qed

lemma create_complaints_table_wf:
  assumes "wf_server s" "create_complaints_table s = Inr s'"
  shows "wf_server s'"
proof (cases "catalog s (tkey s ''COMPLAINTS'')")
  case None
  with assms(2) obtain u where u: "users_of s = Inr u" and
    s': "s' = s\<lparr>catalog := (catalog s)(tkey s ''COMPLAINTS'' \<mapsto> ComplaintsT \<lparr>rows = [], auto_inc = 1\<rparr>)\<rparr>"
    by (auto simp: create_complaints_table_def split: sum.splits)
  with assms(1) None show ?thesis
    by (auto simp: wf_server_def users_of_upd complaints_of_upd dest!: complaints_of_InrD split: sum.splits)
next
  case Some
  with assms show ?thesis by (simp add: create_complaints_table_def)
qed

lemma init_db_wf:
  assumes "wf_server s"
  shows "wf_server (snd (init_db s))"
proof (cases "online s")
  case True
  let ?s1 = "s\<lparr>conns := Suc (conns s)\<rparr>"
  from assms have wf1: "wf_server ?s1" by simp
  obtain s2 where s2: "create_users_table ?s1 = Inr s2"
    using create_users_table_Inr by blast
  with wf1 have wf2: "wf_server s2" by (rule create_users_table_wf)
  show ?thesis
  proof (cases "create_complaints_table s2")
    case (Inl e)
    with True s2 wf2 show ?thesis by (simp add: init_db_def connect_def)
  next
    case (Inr s3)
    with wf2 have "wf_server s3" by (rule create_complaints_table_wf)
    with True s2 Inr show ?thesis by (simp add: init_db_def connect_def)
  qed
next
  case False
  with assms show ?thesis by (simp add: init_db_offline)
qed

lemma init_db_keeps_tables:
  "users_of s = Inr u \<Longrightarrow> users_of (snd (init_db s)) = Inr u"
  "complaints_of s = Inr c \<Longrightarrow> complaints_of (snd (init_db s)) = Inr c"
  by (cases "online s"; cases "init_db s";
      auto simp: init_db_offline dest!: init_db_effect intro: users_of_grow complaints_of_grow)+

lemma init_db_InrE:
  assumes "init_db s = (Inr (), s')"
  obtains s2 s3 where "online s" "create_users_table (s\<lparr>conns := Suc (conns s)\<rparr>) = Inr s2"
    "create_complaints_table s2 = Inr s3" "s' = disconnect s3"
  using assms by (auto simp: init_db_def connect_def split: if_splits sum.splits)

lemma create_users_table_key: "create_users_table s = Inr s' \<Longrightarrow> catalog s' (tkey s ''USERS'') \<noteq> None"
  by (auto simp: create_users_table_def Let_def split: option.splits)

lemma create_complaints_table_key:
  "create_complaints_table s = Inr s' \<Longrightarrow> catalog s' (tkey s ''COMPLAINTS'') \<noteq> None"
  by (auto simp: create_complaints_table_def Let_def split: option.splits sum.splits)

lemma init_db_noop:
  "online s \<Longrightarrow> catalog s (tkey s ''USERS'') \<noteq> None \<Longrightarrow> catalog s (tkey s ''COMPLAINTS'') \<noteq> None \<Longrightarrow>
     init_db s = (Inr (), s)"
  by (auto simp: init_db_def connect_def create_users_table_def create_complaints_table_def
                 disconnect_def tkey_def)

text \<open>Claim C8: the schema initializer is idempotent. Once \<open>init_db\<close> has succeeded, running it
  again (as every page run does) succeeds and leaves the server exactly as it was.\<close>

theorem init_db_idem: "init_db s = (Inr (), s') \<Longrightarrow> init_db s' = (Inr (), s')"
proof (erule init_db_InrE)
  fix s2 s3
  assume on: "online s" and s2: "create_users_table (s\<lparr>conns := Suc (conns s)\<rparr>) = Inr s2"
    and s3: "create_complaints_table s2 = Inr s3" and s': "s' = disconnect s3"
  obtain cat2 where c2: "catalog s \<subseteq>\<^sub>m cat2" "s2 = s\<lparr>conns := Suc (conns s), catalog := cat2\<rparr>"
    using create_users_table_catalog [OF s2] by auto
  obtain cat3 where c3: "cat2 \<subseteq>\<^sub>m cat3" "s3 = s2\<lparr>catalog := cat3\<rparr>"
    using create_complaints_table_catalog [OF s3] c2 by auto
  have "cat2 (tkey s ''USERS'') \<noteq> None"
    using create_users_table_key [OF s2] c2 by (simp add: tkey_def)
  with c3 have k1: "cat3 (tkey s ''USERS'') \<noteq> None"
    by (metis domIff map_le_def)
  have k2: "cat3 (tkey s ''COMPLAINTS'') \<noteq> None"
    using create_complaints_table_key [OF s3] c2 c3 by (simp add: tkey_def)
  show "init_db s' = (Inr (), s')"
    using on k1 k2 c2 c3 s' by (intro init_db_noop) (simp_all add: disconnect_def tkey_def)
qed

text \<open>On a server with case-sensitive table names (\<open>lower_case_table_names = 0\<close>, the
  Linux default) and no table \<open>users\<close>, \<open>init_db\<close> creates \<open>USERS\<close> but then raises on the
  foreign key \<open>REFERENCES users(id)\<close>; the connection it opened stays open, and the server is
  left in a state where the same happens again.\<close>

lemma init_db_case_sensitive:
  assumes "\<not> lower_case_names s" "online s" "catalog s ''users'' = None" "catalog s ''COMPLAINTS'' = None"
  shows "\<exists>s'. init_db s = (Inl (FkParentMissing ''users''), s') \<and> conns s' = Suc (conns s) \<and>
           \<not> lower_case_names s' \<and> online s' \<and> catalog s' ''users'' = None \<and> catalog s' ''COMPLAINTS'' = None"
  using assms
  by (auto simp: init_db_def connect_def create_users_table_def create_complaints_table_def
                 users_of_def tkey_def Let_def split: option.splits)

lemma init_db_fresh:
  assumes "lower_case_names s" "online s" "catalog s = Map.empty"
  shows "init_db s = (Inr (), s\<lparr>catalog := [''users'' \<mapsto> UsersT \<lparr>rows = [], auto_inc = 1\<rparr>,
                                        ''complaints'' \<mapsto> ComplaintsT \<lparr>rows = [], auto_inc = 1\<rparr>]\<rparr>)"
  using assms
  by (simp add: init_db_def connect_def create_users_table_def create_complaints_table_def
                users_of_def tkey_def disconnect_def)

lemma init_db_ready: "schema_ready s \<Longrightarrow> init_db s = (Inr (), s)"
  by (rule init_db_noop)
     (auto simp: schema_ready_def users_of_def complaints_of_def tkey_def split: option.splits table.splits)

lemma schema_ready_put_users: "schema_ready s \<Longrightarrow> schema_ready (put_users t s)"
  by (simp add: schema_ready_def)

end
