(* ===== verification/Streamlit.thy ===== *)
theory Streamlit
  imports Schema
begin

text \<open>
  The two libraries the page of \<open>src/app.py\<close> is built with, as far as the program uses
  them.  From pandas: the \<open>DataFrame\<close> \<open>get_user_complaints\<close> builds from the fetched rows
  and a list of column labels (line 103), its \<open>.empty\<close> (lines 189 and 197) and the
  column selection \<open>df['ID'].tolist()\<close> (line 198).  From Streamlit: the elements
  \<open>main\<close> renders, each placed in the container the enclosing \<open>with\<close> blocks of the
  script name (the sidebar, a tab), so that a page is the list of placed elements in
  the order the script renders them.
\<close>

section \<open>pandas\<close>

text \<open>A cell of a frame, as \<open>tolist()\<close> returns it: a Python \<open>int\<close>, a \<open>str\<close>, a
  timestamp, or the missing value a \<open>NULL\<close> of \<open>resolved_At\<close> becomes.\<close>

datatype cell = CInt int | CStr string | CTime timestamp | CNone

record 'r frame =
  df_columns :: "string list"
  df_rows :: "'r list"

text \<open>The cells of one row of the listing, in the order of its six columns.\<close>

fun listing_cells :: "listing_row \<Rightarrow> cell list" where
  "listing_cells (i, d, st, c, r, rv) =
     [CInt i, CStr d, CStr st, CTime c, CStr r, (case rv of None \<Rightarrow> CNone | Some t \<Rightarrow> CTime t)]"

text \<open>\<open>pd.DataFrame(results, columns=columns)\<close>: each fetched tuple is a row; when there
  are rows, the number of labels must be their width, six, or pandas raises
  \<open>ValueError: n columns passed, passed data had 6 columns\<close>.  Without rows any list of
  labels gives an empty frame with those columns.\<close>

definition pd_frame :: "string list \<Rightarrow> listing_row list \<Rightarrow> db_error + listing_row frame" where
  "pd_frame cols rs =
     (if rs \<noteq> [] \<and> length cols \<noteq> 6 then Inl (ValueError (length cols))
      else Inr \<lparr>df_columns = cols, df_rows = rs\<rparr>)"

text \<open>\<open>DataFrame.empty\<close>: true when either axis has length zero.\<close>

definition df_empty :: "'r frame \<Rightarrow> bool" where
  "df_empty df \<longleftrightarrow> df_columns df = [] \<or> df_rows df = []"

text \<open>The position of a column label (the labels the program uses are distinct).\<close>

fun col_index :: "string \<Rightarrow> string list \<Rightarrow> nat option" where
  "col_index k [] = None"
| "col_index k (c # cs) = (if c = k then Some 0 else map_option Suc (col_index k cs))"

text \<open>\<open>df[k].tolist()\<close>: the cells of column \<open>k\<close>, top to bottom; a label the frame does
  not have raises \<open>KeyError\<close>.\<close>

definition df_column :: "string \<Rightarrow> listing_row frame \<Rightarrow> db_error + cell list" where
  "df_column k df =
     (case col_index k (df_columns df) of
        None \<Rightarrow> Inl (KeyError k)
      | Some j \<Rightarrow> Inr (map (\<lambda>r. listing_cells r ! j) (df_rows df)))"

section \<open>Streamlit\<close>

text \<open>\<open>with st.sidebar:\<close> and \<open>with tab:\<close> place what is rendered inside them; an
  element's place is the path of containers from the main area.\<close>

datatype container = Sidebar | Tab string

text \<open>The elements \<open>main\<close> renders: \<open>st.title\<close>, \<open>st.header\<close>, \<open>st.tabs\<close> (its labels),
  \<open>st.text_input\<close> (its label and whether \<open>type="password"\<close>), \<open>st.text_area\<close>,
  \<open>st.button\<close>, \<open>st.selectbox\<close> (its label and options), the four message boxes and
  \<open>st.dataframe\<close>.  Which button was pressed and what the user typed or selected are
  the inputs of a run, not part of the page.\<close>

datatype ui_elem =
    StTitle string
  | StHeader string
  | StTabs "string list"
  | StTextInput string bool
  | StTextArea string
  | StButton string
  | StSelectbox string "cell list"
  | StError string
  | StSuccess string
  | StInfo string
  | StWarning string
  | StDataframe "listing_row frame"

type_synonym placed = "container list \<times> ui_elem"

definition st_in :: "container list \<Rightarrow> ui_elem list \<Rightarrow> placed list" where
  "st_in path es = map (Pair path) es"

text \<open>What a page shows in one container, in order.\<close>

definition tab_content :: "container list \<Rightarrow> placed list \<Rightarrow> ui_elem list" where
  "tab_content path pg = map snd (filter (\<lambda>e. fst e = path) pg)"

section \<open>Lemmas\<close>

lemma df_column_Some:
  "col_index k (df_columns df) = Some j \<Longrightarrow> df_column k df = Inr (map (\<lambda>r. listing_cells r ! j) (df_rows df))"
  by (simp add: df_column_def)

lemma pd_frame_width [simp]:
  "length cols = 6 \<Longrightarrow> pd_frame cols rs = Inr \<lparr>df_columns = cols, df_rows = rs\<rparr>"
  by (simp add: pd_frame_def)

lemma st_in_simps [simp]:
  "st_in path [] = []" "st_in path (e # es) = (path, e) # st_in path es"
  "st_in path (es @ es') = st_in path es @ st_in path es'"
  "snd ` set (st_in path es) = set es"
  by (auto simp: st_in_def image_image)

lemma tab_content_simps [simp]:
  "tab_content path [] = []"
  "tab_content path (pg @ pg') = tab_content path pg @ tab_content path pg'"
  "tab_content path ((q, e) # pg) = (if q = path then e # tab_content path pg else tab_content path pg)"
  "tab_content path (st_in q es) = (if q = path then es else [])"
  by (simp_all add: tab_content_def st_in_def comp_def filter_map)

end
