(* ===== verification/Users.thy ===== *)
theory Users
  imports Streamlit
begin

text \<open>
  User registration and login, \<open>register_user\<close> (lines 51--64) and \<open>login_user\<close>
  (lines 66--76) of \<open>src/app.py\<close>.  Each opens a connection, runs one statement on
  \<open>users\<close> and closes the cursor and the connection in a \<open>finally\<close> clause.
  \<open>register_user\<close> catches every exception raised inside its \<open>try\<close> and reports it
  as \<open>False\<close> after rendering an error; the connection itself is opened before the
  \<open>try\<close>.  \<open>login_user\<close> catches nothing.  The cursor is the unbuffered cursor of
  \<open>mysql.connector\<close>'s pure-Python \<open>MySQLConnection\<close>: \<open>fetchone\<close> reads one row ahead,
  and \<open>cursor.close()\<close> raises \<open>InternalError: Unread result found\<close> when rows are left
  unread, which skips the \<open>db.close()\<close> that follows it in the \<open>finally\<close> clause.
\<close>

section \<open>Operations\<close>

fun error_text :: "db_error \<Rightarrow> string" where
  "error_text ConnectionRefused = ''2003 (HY000): Can not connect to MySQL server''"
| "error_text (NoSuchTable t) = ''1146 (42S02): Table Grievances.'' @ t @ '' does not exist''"
| "error_text (FkParentMissing t) = ''1824 (HY000): Failed to open the referenced table '' @ t"
| "error_text (DataTooLong c) = ''1406 (22001): Data too long for column '' @ c"
| "error_text AutoIncExhausted = ''1467 (HY000): Failed to read auto-increment value from storage engine''"
| "error_text FkViolation = ''1452 (23000): Cannot add or update a child row: a foreign key constraint fails''"
| "error_text (BadTimestamp c) = ''1292 (22007): Incorrect datetime value for column '' @ c"
| "error_text UnreadResult = ''Unread result found''"
| "error_text (KeyError k) = [CHR 0x27] @ k @ [CHR 0x27]"
| "error_text (ValueError n) = ''columns passed, passed data had 6 columns''"
| "error_text (AccessDenied u) = ''1045 (28000): Access denied for user '' @ [CHR 0x27] @ u @ [CHR 0x27] @ ''@'' @ [CHR 0x27] @ ''localhost'' @ [CHR 0x27] @ '' (using password: YES)''"
| "error_text (UnknownDatabase d) = ''1049 (42000): Unknown database '' @ [CHR 0x27] @ d @ [CHR 0x27]"

text \<open>\<open>INSERT INTO users (username, password) VALUES (%s, %s)\<close> (lines 55--56):
  the values are checked against their \<open>VARCHAR(25)\<close> columns, then the next
  \<open>AUTO_INCREMENT\<close> key is taken.\<close>

definition new_user_row :: "user_row tbl \<Rightarrow> string \<Rightarrow> string \<Rightarrow> user_row tbl" where
  "new_user_row t u p =
     t\<lparr>rows := rows t @ [\<lparr>uid = auto_inc t, uname = u, upass = p\<rparr>], auto_inc := auto_inc t + 1\<rparr>"

definition insert_user :: "string \<Rightarrow> string \<Rightarrow> server \<Rightarrow> db_error + server" where
  "insert_user u p s =
     (case users_of s of
        Inl e \<Rightarrow> Inl e
      | Inr t \<Rightarrow>
          if \<not> fits 25 u then Inl (DataTooLong ''username'')
          else if \<not> fits 25 p then Inl (DataTooLong ''password'')
          else if INT_MAX < auto_inc t then Inl AutoIncExhausted
          else Inr (put_users (new_user_row t u p) s))"

definition register_user :: "string \<Rightarrow> string \<Rightarrow> server \<Rightarrow> (db_error + bool \<times> ui_elem list) \<times> server" where
  "register_user u p s =
     (case connect s of
        (Inl e, s1) \<Rightarrow> (Inl e, s1)
      | (Inr _, s1) \<Rightarrow>
          (case insert_user u p s1 of
             Inl e \<Rightarrow> (Inr (False, [StError (''Registration failed: '' @ error_text e)]), disconnect s1)
           | Inr s2 \<Rightarrow> (Inr (True, []), disconnect s2)))"

text \<open>\<open>SELECT id FROM users WHERE username = %s AND password = %s\<close> (lines 70--71),
  compared under the column collation, rows in primary-key order.\<close>

definition user_matches :: "collation \<Rightarrow> string \<Rightarrow> string \<Rightarrow> user_row \<Rightarrow> bool" where
  "user_matches c u p r \<longleftrightarrow> str_eq c (uname r) u \<and> str_eq c (upass r) p"

definition select_user_ids :: "string \<Rightarrow> string \<Rightarrow> server \<Rightarrow> db_error + int list" where
  "select_user_ids u p s =
     (case users_of s of
        Inl e \<Rightarrow> Inl e
      | Inr t \<Rightarrow> Inr (map uid (filter (user_matches (coll s) u p) (rows t))))"

text \<open>\<open>cursor.fetchone()\<close> on an unbuffered cursor: the first row, and whether a further
  row is still unread after the driver's one-row look-ahead.\<close>

fun fetchone :: "'a list \<Rightarrow> 'a option \<times> bool" where
  "fetchone [] = (None, False)"
| "fetchone [x] = (Some x, False)"
| "fetchone (x # y # _) = (Some x, True)"

definition login_user :: "string \<Rightarrow> string \<Rightarrow> server \<Rightarrow> (db_error + int option) \<times> server" where
  "login_user u p s =
     (case connect s of
        (Inl e, s1) \<Rightarrow> (Inl e, s1)
      | (Inr _, s1) \<Rightarrow>
          (case select_user_ids u p s1 of
             Inl e \<Rightarrow> (Inl e, disconnect s1)
           | Inr ids \<Rightarrow>
               (case fetchone ids of
                  (r, unread) \<Rightarrow>
                    if unread then (Inl UnreadResult, s1) else (Inr r, disconnect s1))))"

section \<open>Behaviour of registration and login\<close>

text \<open>Claim C17: registration does not catch a connection failure: the connection is opened
  before the \<open>try\<close>, so a server that refuses the connection (it is down, rejects the credentials of
  lines 11--12, or has no database \<open>Grievances\<close>) raises out of \<open>register_user\<close> instead of
  being reported as \<open>False\<close>, and nothing changes.\<close>

theorem register_user_offline: "\<not> online s \<Longrightarrow> register_user u p s = (Inl (conn_error s), s)"
  by (simp add: register_user_def connect_def)

lemma register_user_ok:
  assumes "online s" "users_of s = Inr t" "fits 25 u" "fits 25 p" "auto_inc t \<le> INT_MAX"
  shows "register_user u p s = (Inr (True, []), put_users (new_user_row t u p) s)"
  using assms by (simp add: register_user_def connect_def insert_user_def new_user_row_def put_users_def disconnect_def)

lemma users_wf_new_row:
  assumes "users_wf t" "fits 25 u" "fits 25 p" "auto_inc t \<le> INT_MAX"
  shows "users_wf (new_user_row t u p)"
  using assms by (auto simp: users_wf_def new_user_row_def sorted_wrt_append)

lemma complaints_wf_users_grow:
  "complaints_wf clk u c \<Longrightarrow> uid ` set (rows u) \<subseteq> uid ` set (rows u') \<Longrightarrow> complaints_wf clk u' c"
  by (auto simp: complaints_wf_def)

lemma insert_user_wf:
  assumes "wf_server s" "insert_user u p s = Inr s'"
  shows "wf_server s'"
proof -
  from assms(2) obtain t where t: "users_of s = Inr t" "fits 25 u" "fits 25 p" "auto_inc t \<le> INT_MAX"
    and s': "s' = put_users (new_user_row t u p) s"
    by (auto simp: insert_user_def split: sum.splits if_splits)
  from assms(1) t have "users_wf t" by (simp add: wf_server_def)
  with t have "users_wf (new_user_row t u p)" by (simp add: users_wf_new_row)
  moreover have "uid ` set (rows t) \<subseteq> uid ` set (rows (new_user_row t u p))"
    by (auto simp: new_user_row_def)
  then have "\<And>c. complaints_wf (clock s) t c \<Longrightarrow> complaints_wf (clock s) (new_user_row t u p) c"
    using complaints_wf_users_grow by blast
  ultimately show ?thesis
    using assms(1) t s' by (auto simp: wf_server_def split: sum.splits)
qed

lemma register_user_wf:
  assumes "wf_server s"
  shows "wf_server (snd (register_user u p s))"
proof (cases "online s")
  case True
  let ?s1 = "s\<lparr>conns := Suc (conns s)\<rparr>"
  from assms have "wf_server ?s1" by simp
  then have "\<And>s'. insert_user u p ?s1 = Inr s' \<Longrightarrow> wf_server s'" by (rule insert_user_wf)
  with True assms show ?thesis
    by (auto simp: register_user_def connect_def split: sum.split)
next
  case False
  with assms show ?thesis by (simp add: register_user_def connect_def)
qed

lemma login_user_result:
  assumes "online s" "users_of s = Inr t"
  shows "login_user u p s =
    (case filter (user_matches (coll s) u p) (rows t) of
       [] \<Rightarrow> (Inr None, s)
     | [r] \<Rightarrow> (Inr (Some (uid r)), s)
     | r # r' # rs \<Rightarrow> (Inl UnreadResult, s\<lparr>conns := Suc (conns s)\<rparr>))"
  using assms
  by (auto simp: login_user_def connect_def select_user_ids_def disconnect_def
           split: list.split)

lemma register_user_online:
  "online s \<Longrightarrow> register_user u p s =
     (case insert_user u p s of
        Inl e \<Rightarrow> (Inr (False, [StError (''Registration failed: '' @ error_text e)]), s)
      | Inr s' \<Rightarrow> (Inr (True, []), s'))"
  by (auto simp: register_user_def connect_def disconnect_def insert_user_def split: sum.split)

lemma register_user_TrueE:
  assumes "register_user u p s = (Inr (True, ms), s')"
  obtains t where "online s" "users_of s = Inr t" "fits 25 u" "fits 25 p" "auto_inc t \<le> INT_MAX"
    "s' = put_users (new_user_row t u p) s"
proof -
  have on: "online s" using assms by (auto simp: register_user_def connect_def split: if_splits)
  with assms show ?thesis
    using that by (auto simp: register_user_online insert_user_def split: sum.splits if_splits)
qed

lemma filter_new_user_row:
  "filter (user_matches c u p) (rows (new_user_row t u' p')) =
     filter (user_matches c u p) (rows t) @
       (if str_eq c u' u \<and> str_eq c p' p then [\<lparr>uid = auto_inc t, uname = u', upass = p'\<rparr>] else [])"
  by (simp add: user_matches_def new_user_row_def)

text \<open>Claim C2: registering a user and then logging in with the same credentials returns the
  key the registration was given, provided no earlier row matched those credentials;
  login leaves the server as it found it.\<close>

theorem register_then_login:
  assumes "register_user u p s = (Inr (True, []), s')" "select_user_ids u p s = Inr []"
  shows "\<exists>t. users_of s = Inr t \<and> login_user u p s' = (Inr (Some (auto_inc t)), s')"
proof -
  from assms(1) obtain t where t: "online s" "users_of s = Inr t" and s': "s' = put_users (new_user_row t u p) s"
    by (rule register_user_TrueE)
  from assms(2) t have "filter (user_matches (coll s) u p) (rows t) = []"
    by (simp add: select_user_ids_def)
  then have "filter (user_matches (coll s') u p) (rows (new_user_row t u p)) = [\<lparr>uid = auto_inc t, uname = u, upass = p\<rparr>]"
    by (simp add: s' filter_new_user_row)
  moreover have "users_of s' = Inr (new_user_row t u p)" "online s'" using s' t by simp_all
  ultimately show ?thesis
    using t by (simp add: login_user_result)
qed

text \<open>Claim C11: nothing stops two registrations with the same credentials, and after them
  login does not return one of the two keys: the second matching row is left unread,
  \<open>cursor.close()\<close> raises \<open>Unread result found\<close>, and the connection is not closed.\<close>

theorem duplicate_credentials_break_login:
  assumes "register_user u p s = (Inr (True, []), s1)" "register_user u p s1 = (Inr (True, []), s2)"
  shows "login_user u p s2 = (Inl UnreadResult, s2\<lparr>conns := Suc (conns s2)\<rparr>)"
proof -
  from assms(1) obtain t where t: "online s" "users_of s = Inr t" and s1: "s1 = put_users (new_user_row t u p) s"
    by (rule register_user_TrueE)
  from assms(2) obtain t1 where t1: "users_of s1 = Inr t1" and s2: "s2 = put_users (new_user_row t1 u p) s1"
    by (rule register_user_TrueE)
  have t1': "t1 = new_user_row t u p" using t1 s1 by simp
  have "filter (user_matches (coll s2) u p) (rows (new_user_row t1 u p)) =
          filter (user_matches (coll s) u p) (rows t) @ [\<lparr>uid = auto_inc t, uname = u, upass = p\<rparr>, \<lparr>uid = auto_inc t1, uname = u, upass = p\<rparr>]"
    by (simp add: s2 s1 t1' filter_new_user_row)
  moreover have "users_of s2 = Inr (new_user_row t1 u p)" "online s2" using s2 s1 t by simp_all
  ultimately show ?thesis
    by (simp add: login_user_result split: list.split)
qed

text \<open>Login depends on the credentials only through which rows they match.\<close>

lemma login_user_cong:
  assumes "\<And>r. user_matches (coll s) u' p' r = user_matches (coll s) u p r"
  shows "login_user u' p' s = login_user u p s"
proof -
  have "user_matches (coll s) u' p' = user_matches (coll s) u p" using assms by (simp add: fun_eq_iff)
  then have "select_user_ids u' p' s1 = select_user_ids u p s1" if "coll s1 = coll s" for s1
    using that by (simp add: select_user_ids_def split: sum.split)
  then show ?thesis by (simp add: login_user_def connect_def)
qed

text \<open>Claim C13: under a case-insensitive collation (the MySQL default), login does not compare
  credentials exactly: credentials that differ from the stored ones only in letter case
  give the same result.\<close>

theorem login_case_insensitive:
  assumes "coll s = CaseInsensitive" "lower u' = lower u" "lower p' = lower p"
  shows "login_user u' p' s = login_user u p s"
  by (rule login_user_cong) (use assms in \<open>simp add: user_matches_def\<close>)

text \<open>Under a \<open>PAD SPACE\<close> collation (the default before MySQL 8 and of MariaDB), a
  user name or password typed with trailing spaces logs in as the stored one.\<close>

lemma login_pad_space:
  assumes "coll s \<in> {BinaryPad, CaseInsensitivePad}"
  shows "login_user (u @ replicate n (CHR '' '')) (p @ replicate m (CHR '' '')) s = login_user u p s"
  by (rule login_user_cong) (use assms in \<open>simp add: user_matches_def str_eq_pad\<close>)

text \<open>Claim C18: registration reports a failing \<open>INSERT\<close> (a value longer than its
  \<open>VARCHAR(25)\<close> column, exhausted keys, a missing table) as \<open>False\<close> with the rendered
  message \<open>Registration failed: ...\<close>, changes no row and closes its connection.\<close>

theorem register_user_reports_errors:
  assumes "online s" "insert_user u p s = Inl e"
  shows "register_user u p s = (Inr (False, [StError (''Registration failed: '' @ error_text e)]), s)"
  using assms by (simp add: register_user_online)

text \<open>Claim C19: login with credentials that match no row returns the absence value
  \<open>None\<close> and closes its connection.\<close>

theorem login_unknown_credentials:
  assumes "online s" "select_user_ids u p s = Inr []"
  shows "login_user u p s = (Inr None, s)"
  using assms by (auto simp: select_user_ids_def login_user_result split: sum.splits)

declare insert_user_def [db_defs] register_user_def [db_defs] select_user_ids_def [db_defs]
  login_user_def [db_defs]

end
