(* ===== verification/Complaints.thy ===== *)
theory Complaints
  imports Users
begin

text \<open>
  Complaint management, \<open>submit_complaint\<close> (lines 79--89), \<open>get_user_complaints\<close>
  (lines 91--106) and \<open>update_complaint_status\<close> (lines 108--124) of \<open>src/app.py\<close>.
  Each opens a connection, runs one statement on \<open>complaints\<close>, commits if it
  mutates, and closes cursor and connection in a \<open>finally\<close> clause; none of them
  catches an exception.  A statement that raises has no effect on the rows (the
  transaction is rolled back when the connection closes), but an \<open>AUTO_INCREMENT\<close>
  key InnoDB has already handed out is not given back.
\<close>

section \<open>Operations\<close>

text \<open>The row \<open>INSERT INTO complaints (user_id, description, status) VALUES (%s, %s, %s)\<close>
  (lines 83--84) adds: the next key, status \<open>Pending\<close>, \<open>created_At\<close> from
  \<open>CURRENT_TIMESTAMP\<close>, and the column defaults \<open>"Not Available"\<close> and \<open>NULL\<close>.\<close>

definition new_complaint_row :: "complaint_row tbl \<Rightarrow> int \<Rightarrow> string \<Rightarrow> timestamp \<Rightarrow> complaint_row tbl" where
  "new_complaint_row t u d now =
     t\<lparr>rows := rows t @ [\<lparr>cid = auto_inc t, cuser = u, cdesc = d, cstatus = ''Pending'',
                          ccreated = now, cresolution = ''Not Available'', cresolved = None\<rparr>],
       auto_inc := auto_inc t + 1\<rparr>"

text \<open>The check of \<open>FOREIGN KEY (user_id) REFERENCES users(id)\<close> (line 40).\<close>

definition user_exists :: "int \<Rightarrow> server \<Rightarrow> bool" where
  "user_exists u s = (case users_of s of Inr ut \<Rightarrow> u \<in> set (map uid (rows ut)) | Inl _ \<Rightarrow> False)"

text \<open>Column values are checked first (\<open>TEXT\<close> length, the \<open>TIMESTAMP\<close> range of the
  default), then the key is taken, then the foreign key is checked: a dangling
  \<open>user_id\<close> fails after the key was consumed.\<close>

definition insert_complaint :: "int \<Rightarrow> string \<Rightarrow> server \<Rightarrow> (db_error + int) \<times> server" where
  "insert_complaint u d s =
     (case complaints_of s of
        Inl e \<Rightarrow> (Inl e, s)
      | Inr t \<Rightarrow>
          if \<not> fits 65535 d then (Inl (DataTooLong ''description''), s)
          else if \<not> ts_ok (clock s) then (Inl (BadTimestamp ''created_At''), s)
          else if INT_MAX < auto_inc t then (Inl AutoIncExhausted, s)
          else if user_exists u s
          then (Inr (auto_inc t), put_complaints (new_complaint_row t u d (clock s)) s)
          else (Inl FkViolation, put_complaints (t\<lparr>auto_inc := auto_inc t + 1\<rparr>) s))"

definition submit_complaint :: "int \<Rightarrow> string \<Rightarrow> server \<Rightarrow> (db_error + int) \<times> server" where
  "submit_complaint u d s =
     (case connect s of
        (Inl e, s1) \<Rightarrow> (Inl e, s1)
      | (Inr _, s1) \<Rightarrow> (case insert_complaint u d s1 of (r, s2) \<Rightarrow> (r, disconnect s2)))"

text \<open>\<open>SELECT id, description, status, created_At, resolution_desc, resolved_At FROM
  complaints WHERE user_id = %s\<close> (lines 95--100), one tuple per row, in primary-key
  order, which \<open>pd.DataFrame\<close> keeps.\<close>

definition listing_of :: "complaint_row \<Rightarrow> listing_row" where
  "listing_of r = (cid r, cdesc r, cstatus r, ccreated r, cresolution r, cresolved r)"

definition select_user_complaints :: "int \<Rightarrow> server \<Rightarrow> db_error + listing_row list" where
  "select_user_complaints u s =
     (case complaints_of s of
        Inl e \<Rightarrow> Inl e
      | Inr t \<Rightarrow> Inr (map listing_of (filter (\<lambda>r. cuser r = u) (rows t))))"

text \<open>The labels of line 101, and the frame of line 103 built from the fetched rows.\<close>

definition complaint_columns :: "string list" where
  "complaint_columns = [''ID'', ''Description'', ''Status'', ''Created At'', ''Resolution'', ''Resolved At'']"

definition get_user_complaints :: "int \<Rightarrow> server \<Rightarrow> (db_error + listing_row frame) \<times> server" where
  "get_user_complaints u s =
     (case connect s of
        (Inl e, s1) \<Rightarrow> (Inl e, s1)
      | (Inr _, s1) \<Rightarrow>
          ((case select_user_complaints u s1 of
              Inl e \<Rightarrow> Inl e
            | Inr rs \<Rightarrow> pd_frame complaint_columns rs), disconnect s1))"

text \<open>\<open>UPDATE complaints SET resolution_desc = %s, status = 'Resolved', resolved_At =
  CURRENT_TIMESTAMP WHERE id = %s\<close> (lines 112--119): no row matching is not an error;
  the new values are checked only against the rows that match.\<close>

definition resolve_row :: "string \<Rightarrow> timestamp \<Rightarrow> complaint_row \<Rightarrow> complaint_row" where
  "resolve_row res now r = r\<lparr>cresolution := res, cstatus := ''Resolved'', cresolved := Some now\<rparr>"

definition update_resolution :: "int \<Rightarrow> string \<Rightarrow> server \<Rightarrow> db_error + server" where
  "update_resolution c res s =
     (case complaints_of s of
        Inl e \<Rightarrow> Inl e
      | Inr t \<Rightarrow>
          if c \<notin> set (map cid (rows t)) then Inr s
          else if \<not> fits 255 res then Inl (DataTooLong ''resolution_desc'')
          else if \<not> ts_ok (clock s) then Inl (BadTimestamp ''resolved_At'')
          else Inr (put_complaints (t\<lparr>rows := upd_where cid c (resolve_row res (clock s)) (rows t)\<rparr>) s))"

definition update_complaint_status :: "int \<Rightarrow> string \<Rightarrow> server \<Rightarrow> (db_error + bool) \<times> server" where
  "update_complaint_status c res s =
     (case connect s of
        (Inl e, s1) \<Rightarrow> (Inl e, s1)
      | (Inr _, s1) \<Rightarrow>
          (case update_resolution c res s1 of
             Inl e \<Rightarrow> (Inl e, disconnect s1)
           | Inr s2 \<Rightarrow> (Inr True, disconnect s2)))"

text \<open>The history of the complaints table: every row is kept, with its id, owner, description
  and creation time, and a \<open>Resolved\<close> row stays \<open>Resolved\<close> (the lifecycle of section 3 of
  the specification); and the rows of the users other than \<open>u\<close> are kept unchanged.\<close>

definition row_evolves :: "complaint_row \<Rightarrow> complaint_row \<Rightarrow> bool" where
  "row_evolves r r' \<longleftrightarrow> cid r' = cid r \<and> cuser r' = cuser r \<and> cdesc r' = cdesc r \<and> ccreated r' = ccreated r \<and>
     (cstatus r = ''Resolved'' \<longrightarrow> cstatus r' = ''Resolved'')"

definition history_kept :: "server \<Rightarrow> server \<Rightarrow> bool" where
  "history_kept s s' =
     (case complaints_of s of
        Inl _ \<Rightarrow> True
      | Inr t \<Rightarrow> (case complaints_of s' of
                   Inl _ \<Rightarrow> False
                 | Inr t' \<Rightarrow> list_all (\<lambda>r. list_ex (row_evolves r) (rows t')) (rows t)))"

definition others_kept :: "int \<Rightarrow> server \<Rightarrow> server \<Rightarrow> bool" where
  "others_kept u s s' =
     (case complaints_of s of
        Inl _ \<Rightarrow> True
      | Inr t \<Rightarrow> (case complaints_of s' of
                   Inl _ \<Rightarrow> False
                 | Inr t' \<Rightarrow> filter (\<lambda>r. cuser r \<noteq> u) (rows t') = filter (\<lambda>r. cuser r \<noteq> u) (rows t)))"

section \<open>Behaviour of the complaint operations\<close>

lemma user_exists_frame [simp]:
  "user_exists u (s\<lparr>conns := n\<rparr>) = user_exists u s" "user_exists u (s\<lparr>clock := t\<rparr>) = user_exists u s"
  "user_exists u (put_complaints c s) = user_exists u s"
  by (simp_all add: user_exists_def)

lemma insert_complaint_ok:
  assumes "complaints_of s = Inr t" "fits 65535 d" "ts_ok (clock s)" "auto_inc t \<le> INT_MAX" "user_exists u s"
  shows "insert_complaint u d s = (Inr (auto_inc t), put_complaints (new_complaint_row t u d (clock s)) s)"
  using assms by (simp add: insert_complaint_def)

lemma submit_complaint_online:
  "online s \<Longrightarrow> submit_complaint u d s = (fst (insert_complaint u d s), snd (insert_complaint u d s))"
  by (simp add: submit_complaint_def connect_def disconnect_def insert_complaint_def split: sum.split)

lemma complaint_columns_length [simp]: "length complaint_columns = 6"
  by (simp add: complaint_columns_def)

lemma get_user_complaints_online:
  "online s \<Longrightarrow> get_user_complaints u s =
     (case select_user_complaints u s of
        Inl e \<Rightarrow> Inl e
      | Inr rs \<Rightarrow> Inr \<lparr>df_columns = complaint_columns, df_rows = rs\<rparr>, s)"
  by (simp add: get_user_complaints_def connect_def disconnect_def select_user_complaints_def split: sum.split)

text \<open>The frame \<open>get_user_complaints\<close> returns has the labels of line 101 and the selected
  rows; its column \<open>ID\<close> is the list of the rows' ids.\<close>

lemma get_user_complaints_frame:
  assumes "fst (get_user_complaints u s) = Inr df"
  shows "df_columns df = complaint_columns \<and> select_user_complaints u s = Inr (df_rows df)"
  using assms by (auto simp: get_user_complaints_def connect_def select_user_complaints_def
                       split: sum.splits prod.splits if_splits)

lemma listing_cells_id: "listing_cells r ! 0 = CInt (fst r)"
  by (cases r rule: listing_cells.cases) simp

lemma df_column_ID:
  "df_columns df = complaint_columns \<Longrightarrow> df_column ''ID'' df = Inr (map (CInt \<circ> fst) (df_rows df))"
  by (simp add: df_column_def complaint_columns_def listing_cells_id comp_def)

lemma get_user_complaints_ids:
  "fst (get_user_complaints u s) = Inr df \<Longrightarrow> df_column ''ID'' df = Inr (map (CInt \<circ> fst) (df_rows df))"
  using get_user_complaints_frame [of u s df] df_column_ID [of df] by simp

lemma update_complaint_status_online:
  "online s \<Longrightarrow> update_complaint_status c res s =
     (case update_resolution c res s of Inl e \<Rightarrow> (Inl e, s) | Inr s' \<Rightarrow> (Inr True, s'))"
  by (auto simp: update_complaint_status_def connect_def disconnect_def update_resolution_def split: sum.split)

lemma complaints_wf_new_row:
  assumes "complaints_wf clk ut t" "fits 65535 d" "ts_ok clk" "auto_inc t \<le> INT_MAX"
    "u \<in> uid ` set (rows ut)"
  shows "complaints_wf clk ut (new_complaint_row t u d clk)"
  using assms by (auto simp: complaints_wf_def new_complaint_row_def sorted_wrt_append row_state_ok_def fits_def)

lemma complaints_wf_bump:
  "complaints_wf clk ut t \<Longrightarrow> auto_inc t \<le> INT_MAX \<Longrightarrow> complaints_wf clk ut (t\<lparr>auto_inc := auto_inc t + 1\<rparr>)"
  by (auto simp: complaints_wf_def)

lemma insert_complaint_wf:
  assumes "wf_server s"
  shows "wf_server (snd (insert_complaint u d s))"
proof (cases "complaints_of s")
  case (Inl e)
  with assms show ?thesis by (simp add: insert_complaint_def)
next
  case (Inr t)
  with assms obtain ut where ut: "users_of s = Inr ut" "users_wf ut" "complaints_wf (clock s) ut t"
    by (auto simp: wf_server_def split: sum.splits)
  show ?thesis
    using assms Inr ut
    by (auto simp: insert_complaint_def wf_server_def user_exists_def
             intro: complaints_wf_new_row complaints_wf_bump)
qed

lemma row_state_ok_resolve:
  "row_state_ok clk r \<Longrightarrow> ts_ok clk \<Longrightarrow> row_state_ok clk (resolve_row res clk r)"
  by (simp add: row_state_ok_def resolve_row_def)

lemma complaints_wf_resolve:
  assumes "complaints_wf clk ut t" "fits 255 res" "ts_ok clk"
  shows "complaints_wf clk ut (t\<lparr>rows := upd_where cid c (resolve_row res clk) (rows t)\<rparr>)"
proof -
  have keys: "\<And>r. cid (resolve_row res clk r) = cid r" by (simp add: resolve_row_def)
  show ?thesis
    using assms row_state_ok_resolve
    by (auto simp: complaints_wf_def keys set_upd_where resolve_row_def)
qed

lemma update_resolution_wf:
  assumes "wf_server s" "update_resolution c res s = Inr s'"
  shows "wf_server s'"
  using assms complaints_wf_resolve
  by (auto simp: update_resolution_def wf_server_def split: sum.splits if_splits)

lemma submit_complaint_InrE:
  assumes "submit_complaint u d s = (Inr i, s')"
  obtains t where "online s" "complaints_of s = Inr t" "fits 65535 d" "ts_ok (clock s)"
    "auto_inc t \<le> INT_MAX" "user_exists u s" "i = auto_inc t"
    "s' = put_complaints (new_complaint_row t u d (clock s)) s"
  using assms
  by (cases "online s")
     (auto simp: submit_complaint_def connect_def disconnect_def insert_complaint_def
           split: sum.splits if_splits)

lemma filter_new_complaint_row:
  "map listing_of (filter (\<lambda>r. cuser r = u) (rows (new_complaint_row t u d now))) =
     map listing_of (filter (\<lambda>r. cuser r = u) (rows t)) @ [(auto_inc t, d, ''Pending'', now, ''Not Available'', None)]"
  by (simp add: new_complaint_row_def listing_of_def)

text \<open>Claim C3: a submitted complaint appears in its owner's listing: after
  \<open>submit_complaint\<close> returns key \<open>i\<close>, the listing is the earlier listing followed by
  exactly one new row with key \<open>i\<close>, status \<open>Pending\<close>, creation time the server clock,
  the resolution sentinel \<open>Not Available\<close> and no resolution time.\<close>

theorem submit_then_list:
  assumes "submit_complaint u d s = (Inr i, s')" "select_user_complaints u s = Inr L"
  shows "get_user_complaints u s' =
           (Inr \<lparr>df_columns = complaint_columns,
                 df_rows = L @ [(i, d, ''Pending'', clock s, ''Not Available'', None)]\<rparr>, s')"
proof -
  from assms(1) obtain t where t: "online s" "complaints_of s = Inr t" "i = auto_inc t"
    and s': "s' = put_complaints (new_complaint_row t u d (clock s)) s"
    by (rule submit_complaint_InrE)
  from assms(2) t have "L = map listing_of (filter (\<lambda>r. cuser r = u) (rows t))"
    by (simp add: select_user_complaints_def)
  with t s' show ?thesis
    by (simp add: get_user_complaints_online select_user_complaints_def filter_new_complaint_row)
qed

text \<open>Claim C22: a complaint for a user id that references no user fails on the foreign key,
  and the \<open>AUTO_INCREMENT\<close> key it took is lost: the next complaint's key skips it.\<close>

theorem submit_dangling_user:
  assumes "online s" "complaints_of s = Inr t" "fits 65535 d" "ts_ok (clock s)"
    "auto_inc t \<le> INT_MAX" "\<not> user_exists u s"
  shows "submit_complaint u d s = (Inl FkViolation, put_complaints (t\<lparr>auto_inc := auto_inc t + 1\<rparr>) s)"
  using assms by (simp add: submit_complaint_online insert_complaint_def)

lemma wf_complaint_rowD:
  assumes "wf_server s" "complaints_of s = Inr t" "r \<in> set (rows t)"
  shows "ccreated r \<le> clock s \<and> distinct (map cid (rows t))"
  using assms
  by (auto simp: wf_server_def complaints_wf_def row_state_ok_def sorted_wrt_iff_nth_less
                 distinct_conv_nth split: sum.splits) (metis less_irrefl nat_neq_iff)

text \<open>Claim C4: resolving a stored complaint sets its status to \<open>Resolved\<close>, its resolution
  to the given text and its resolution time to the server clock, which is no earlier
  than its creation time; the owner's listing shows exactly that.\<close>

theorem update_resolves:
  assumes "wf_server s" "update_complaint_status c res s = (Inr True, s')"
    "complaints_of s = Inr t" "r \<in> set (rows t)" "cid r = c"
  shows "\<exists>L. select_user_complaints (cuser r) s' = Inr L \<and>
           (c, cdesc r, ''Resolved'', ccreated r, res, Some (clock s)) \<in> set L \<and> ccreated r \<le> clock s"
proof -
  have on: "online s"
    using assms(2) by (auto simp: update_complaint_status_def connect_def split: if_splits)
  have c: "c \<in> set (map cid (rows t))" using assms(4,5) by auto
  with assms(2,3) on have ok: "fits 255 res" "ts_ok (clock s)"
    and s': "s' = put_complaints (t\<lparr>rows := upd_where cid c (resolve_row res (clock s)) (rows t)\<rparr>) s"
    by (auto simp: update_complaint_status_online update_resolution_def split: if_splits)
  have "resolve_row res (clock s) r \<in> set (filter (\<lambda>x. cuser x = cuser r) (upd_where cid c (resolve_row res (clock s)) (rows t)))"
    using assms(4,5) by (force simp: set_upd_where resolve_row_def)
  then have "listing_of (resolve_row res (clock s) r) \<in>
      set (map listing_of (filter (\<lambda>x. cuser x = cuser r) (upd_where cid c (resolve_row res (clock s)) (rows t))))"
    by simp
  moreover have "ccreated r \<le> clock s" using wf_complaint_rowD [OF assms(1,3,4)] by simp
  ultimately show ?thesis
    using s' assms(5) by (simp add: select_user_complaints_def listing_of_def resolve_row_def)
qed

text \<open>Claim C15: \<open>update_complaint_status\<close> reports success for a complaint id that does
  not exist: it returns \<open>True\<close> and changes nothing.\<close>

theorem update_unknown_id:
  assumes "online s" "complaints_of s = Inr t" "c \<notin> cid ` set (rows t)"
  shows "update_complaint_status c res s = (Inr True, s)"
  using assms by (simp add: update_complaint_status_online update_resolution_def)

lemma upd_where_twice:
  "(\<And>r. key (g r) = key r) \<Longrightarrow> upd_where key k f (upd_where key k g rs) = upd_where key k (f \<circ> g) rs"
  by (induction rs) (auto simp: upd_where_def)

text \<open>Claim C20: resolving an already resolved complaint is not rejected: the second
  resolution overwrites the first, and the result is the same as if the first had
  never happened.\<close>

theorem update_overwrites:
  assumes "update_complaint_status c r1 s = (Inr True, s1)" "fits 255 r2"
  shows "update_complaint_status c r2 s1 = update_complaint_status c r2 s"
proof -
  have on: "online s"
    using assms(1) by (auto simp: update_complaint_status_def connect_def split: if_splits)
  have keys: "\<And>r. cid (resolve_row r1 (clock s) r) = cid r" by (simp add: resolve_row_def)
  have comp: "resolve_row r2 (clock s) \<circ> resolve_row r1 (clock s) = resolve_row r2 (clock s)"
    by (simp add: fun_eq_iff resolve_row_def)
  show ?thesis
    using assms on
    by (auto simp: update_complaint_status_online update_resolution_def upd_where_twice keys comp
             split: sum.splits if_splits)
qed

text \<open>Claim C9: submitting, listing and updating always release the connection they open,
  on the error paths too: the server's count of open connections is unchanged.\<close>

theorem data_access_closes_connections:
  "conns (snd (submit_complaint u d s)) = conns s \<and> conns (snd (get_user_complaints u s)) = conns s \<and>
   conns (snd (update_complaint_status c res s)) = conns s"
  by (auto simp: submit_complaint_def get_user_complaints_def update_complaint_status_def connect_def
                 insert_complaint_def update_resolution_def split: sum.split prod.split)

text \<open>Claim C21: listing the complaints of a user who has none gives the empty listing, not
  an error.\<close>

theorem list_without_complaints:
  assumes "online s" "complaints_of s = Inr t" "u \<notin> cuser ` set (rows t)"
  shows "get_user_complaints u s = (Inr \<lparr>df_columns = complaint_columns, df_rows = []\<rparr>, s)"
  using assms by (auto simp: get_user_complaints_online select_user_complaints_def filter_empty_conv)

lemma submit_complaint_wf: "wf_server s \<Longrightarrow> wf_server (snd (submit_complaint u d s))"
  using insert_complaint_wf [of "s\<lparr>conns := Suc (conns s)\<rparr>" u d]
  by (auto simp: submit_complaint_def connect_def split: prod.split)

lemma update_complaint_status_wf: "wf_server s \<Longrightarrow> wf_server (snd (update_complaint_status c res s))"
  using update_resolution_wf [of "s\<lparr>conns := Suc (conns s)\<rparr>" c res]
  by (auto simp: update_complaint_status_def connect_def split: sum.split)

lemma get_user_complaints_state: "snd (get_user_complaints u s) = s"
  by (simp add: get_user_complaints_def connect_def disconnect_def)

text \<open>Claim C29: \<open>TIMESTAMP\<close> ends on 2038-01-19: once the server clock is past it, filing a
  complaint fails on the default of \<open>created_At\<close> and resolving one fails on
  \<open>resolved_At\<close>; both exceptions escape the data-access functions and the table is
  unchanged.\<close>

theorem timestamp_range_exhausted:
  assumes "online s" "complaints_of s = Inr t" "TS_MAX < clock s"
  shows "(fits 65535 d \<longrightarrow> submit_complaint u d s = (Inl (BadTimestamp ''created_At''), s)) \<and>
         (c \<in> cid ` set (rows t) \<and> fits 255 res \<longrightarrow>
            update_complaint_status c res s = (Inl (BadTimestamp ''resolved_At''), s))"
  using assms
  by (auto simp: submit_complaint_online insert_complaint_def update_complaint_status_online
                 update_resolution_def ts_ok_def)

section \<open>History and ownership of the complaints\<close>

lemma wf_fresh_key:
  "wf_server s \<Longrightarrow> complaints_of s = Inr t \<Longrightarrow> auto_inc t \<notin> cid ` set (rows t) \<and> distinct (map cid (rows t))"
  by (auto simp: wf_server_def complaints_wf_def strict_sorted_iff split: sum.splits)

lemma row_evolves_refl [simp]: "row_evolves r r"
  by (simp add: row_evolves_def)

lemma row_evolves_trans: "row_evolves r1 r2 \<Longrightarrow> row_evolves r2 r3 \<Longrightarrow> row_evolves r1 r3"
  by (simp add: row_evolves_def)

lemma evolves_self [intro]: "r \<in> A \<Longrightarrow> \<exists>x\<in>A. row_evolves r x"
  using row_evolves_refl by blast

lemma history_kept_tables:
  "complaints_of s = Inr t \<Longrightarrow> complaints_of s' = Inr t' \<Longrightarrow>
     history_kept s s' \<longleftrightarrow> (\<forall>r \<in> set (rows t). \<exists>r' \<in> set (rows t'). row_evolves r r')"
  by (simp add: history_kept_def list_all_iff list_ex_iff)

lemma history_kept_same: "complaints_of s' = complaints_of s \<Longrightarrow> history_kept s s'"
  by (auto simp: history_kept_def list_all_iff list_ex_iff split: sum.split)

lemma history_kept_refl [simp]: "history_kept s s"
  by (rule history_kept_same) (rule refl)

lemma history_kept_trans: "history_kept s1 s2 \<Longrightarrow> history_kept s2 s3 \<Longrightarrow> history_kept s1 s3"
  by (auto simp: history_kept_def list_all_iff list_ex_iff split: sum.splits intro: row_evolves_trans) (meson row_evolves_trans)

lemma history_kept_conns [simp]: "history_kept s (s'\<lparr>conns := n\<rparr>) = history_kept s s'"
  by (simp add: history_kept_def split: sum.split)

lemma history_kept_grow:
  "complaints_of s = Inr t \<Longrightarrow> set (rows t) \<subseteq> set (rows t') \<Longrightarrow> history_kept s (put_complaints t' s)"
  by (auto simp: history_kept_def list_all_iff list_ex_iff)

lemma resolve_row_evolves: "row_evolves r (resolve_row res now r)"
  by (simp add: row_evolves_def resolve_row_def)

lemma history_kept_resolve:
  "complaints_of s = Inr t \<Longrightarrow> history_kept s (put_complaints (t\<lparr>rows := upd_where cid c (resolve_row res now) (rows t)\<rparr>) s)"
proof -
  assume t: "complaints_of s = Inr t"
  have "\<exists>x\<in>set (upd_where cid c (resolve_row res now) (rows t)). row_evolves r x" if r: "r \<in> set (rows t)" for r
    using upd_where_member [OF r, of cid c "resolve_row res now"] resolve_row_evolves [of r res now]
    by (cases "cid r = c") auto
  with t show ?thesis by (simp add: history_kept_def list_all_iff list_ex_iff)
qed

lemma register_user_complaints [simp]: "complaints_of (snd (register_user u p s)) = complaints_of s"
  by (auto simp: register_user_def connect_def insert_user_def split: sum.split)

lemma init_db_history: "history_kept s (snd (init_db s))"
  by (cases "complaints_of s") (simp_all add: history_kept_def init_db_keeps_tables(2) list_all_iff list_ex_iff evolves_self)

lemma submit_complaint_history: "history_kept s (snd (submit_complaint u d s))"
proof (cases "complaints_of s")
  case (Inr t)
  then show ?thesis
    by (auto simp: submit_complaint_def connect_def insert_complaint_def new_complaint_row_def disconnect_def
             intro: history_kept_grow history_kept_same split: sum.split prod.split)
qed (simp add: history_kept_def)

lemma update_complaint_status_history: "history_kept s (snd (update_complaint_status c res s))"
proof (cases "complaints_of s")
  case (Inr t)
  then show ?thesis
    by (auto simp: update_complaint_status_def connect_def update_resolution_def history_kept_resolve disconnect_def
             intro: history_kept_same split: sum.split prod.split)
qed (simp add: history_kept_def)

lemma others_kept_refl: "others_kept u s s"
  by (simp add: others_kept_def split: sum.split)

lemma others_kept_trans: "others_kept u s1 s2 \<Longrightarrow> others_kept u s2 s3 \<Longrightarrow> others_kept u s1 s3"
  by (simp add: others_kept_def split: sum.splits)

lemma others_kept_same: "complaints_of s' = complaints_of s \<Longrightarrow> others_kept u s s'"
  by (simp add: others_kept_def split: sum.split)

lemma others_kept_conns [simp]: "others_kept u s (s'\<lparr>conns := n\<rparr>) = others_kept u s s'"
  by (simp add: others_kept_def split: sum.split)

lemma init_db_others_kept: "others_kept u s (snd (init_db s))"
  by (cases "complaints_of s") (simp_all add: others_kept_def init_db_keeps_tables(2))

lemma submit_complaint_others_kept: "others_kept u s (snd (submit_complaint u d s))"
  by (auto simp: others_kept_def submit_complaint_def connect_def insert_complaint_def new_complaint_row_def
                 disconnect_def split: sum.split prod.split)

lemma update_own_others_kept:
  assumes wf: "wf_server s" and L: "fst (get_user_complaints u s) = Inr df" and c: "c \<in> set (map fst (df_rows df))"
  shows "others_kept u s (snd (update_complaint_status c res s))"
proof (cases "online s")
  case True
  from get_user_complaints_frame [OF L] obtain t where t: "complaints_of s = Inr t"
    and L': "df_rows df = map listing_of (filter (\<lambda>r. cuser r = u) (rows t))"
    by (auto simp: select_user_complaints_def split: sum.splits)
  from c L' obtain r0 where r0: "r0 \<in> set (rows t)" "cuser r0 = u" "cid r0 = c"
    by (auto simp: listing_of_def)
  have dist: "distinct (map cid (rows t))" using wf_fresh_key [OF wf t] by simp
  have "c \<notin> cid ` set (filter (\<lambda>r. cuser r \<noteq> u) (rows t))"
  proof
    assume "c \<in> cid ` set (filter (\<lambda>r. cuser r \<noteq> u) (rows t))"
    then obtain r1 where "r1 \<in> set (rows t)" "cuser r1 \<noteq> u" "cid r1 = c" by auto
    with r0 dist show False by (metis distinct_map inj_onD)
  qed
  then have keep: "filter (\<lambda>r. cuser r \<noteq> u) (upd_where cid c (resolve_row res now) (rows t)) =
                   filter (\<lambda>r. cuser r \<noteq> u) (rows t)" for now
    by (simp add: filter_upd_where resolve_row_def)
  show ?thesis
    using True t keep
    by (auto simp: update_complaint_status_online update_resolution_def others_kept_def split: sum.split)
next
  case False
  then show ?thesis by (simp add: update_complaint_status_def connect_def others_kept_refl)
qed

declare insert_complaint_def [db_defs] submit_complaint_def [db_defs]
  select_user_complaints_def [db_defs] get_user_complaints_def [db_defs]
  update_resolution_def [db_defs] update_complaint_status_def [db_defs]

end
