(* ===== verification/Python.thy ===== *)
theory Python
  imports Prelude
begin

text \<open>
  The Python built-ins \<open>src/app.py\<close> relies on: \<open>str.isspace\<close> and \<open>str.strip()\<close> for the
  check of an empty complaint (line 180), \<open>str(n)\<close> of an integer in the f-string of
  line 182, and the truth value of the id \<open>login_user\<close> returns (line 150).  Beside them,
  two reference definitions: CPython's index loops for \<open>strip\<close> (\<open>lstrip_idx\<close>,
  \<open>rstrip_idx\<close>, \<open>cpython_strip\<close>) and a decimal parser \<open>parse_int\<close>; the theorems show the
  model agrees with the first and that the second inverts \<open>str_int\<close>.
\<close>

section \<open>Python helpers the script uses\<close>

text \<open>\<open>str.isspace\<close> on the Latin-1 range and \<open>str.strip()\<close> (line 180).\<close>

definition py_isspace :: "char \<Rightarrow> bool" where
  "py_isspace c \<longleftrightarrow> of_char c \<in> {9, 10, 11, 12, 13, 28, 29, 30, 31, 32, 133, 160 :: nat}"

definition py_strip :: "string \<Rightarrow> string" where
  "py_strip s = rev (dropWhile py_isspace (rev (dropWhile py_isspace s)))"

text \<open>\<open>str(n)\<close> of an integer, as the f-string of line 182 renders it.\<close>

fun str_nat :: "nat \<Rightarrow> string" where
  "str_nat n = (if n < 10 then [char_of (48 + n)] else str_nat (n div 10) @ [char_of (48 + n mod 10)])"

definition str_int :: "int \<Rightarrow> string" where
  "str_int i = (if i < 0 then CHR ''-'' # str_nat (nat (- i)) else str_nat (nat i))"

text \<open>The truth value of \<open>user_id\<close> in \<open>if user_id:\<close> (line 150): \<open>None\<close> and \<open>0\<close> are false.\<close>

fun truthy_id :: "int option \<Rightarrow> bool" where
  "truthy_id None = False"
| "truthy_id (Some n) = (n \<noteq> 0)"

section \<open>Reference definitions\<close>

text \<open>CPython's \<open>do_strip\<close>: \<open>i\<close> advances over leading whitespace, \<open>j\<close> moves back over
  trailing whitespace but not below \<open>i\<close>.\<close>

function lstrip_idx :: "string \<Rightarrow> nat \<Rightarrow> nat" where
  "lstrip_idx s i = (if i < length s \<and> py_isspace (s ! i) then lstrip_idx s (Suc i) else i)"
  by pat_completeness auto
termination by (relation "measure (\<lambda>(s, i). length s - i)") auto

fun rstrip_idx :: "string \<Rightarrow> nat \<Rightarrow> nat \<Rightarrow> nat" where
  "rstrip_idx s i 0 = 0"
| "rstrip_idx s i (Suc j) = (if i < Suc j \<and> py_isspace (s ! j) then rstrip_idx s i j else Suc j)"

definition cpython_strip :: "string \<Rightarrow> string" where
  "cpython_strip s = (let i = lstrip_idx s 0; j = rstrip_idx s i (length s) in take (j - i) (drop i s))"

definition digit_val :: "char \<Rightarrow> nat option" where
  "digit_val c = (let n = (of_char c :: nat) in if 48 \<le> n \<and> n \<le> 57 then Some (n - 48) else None)"

fun parse_digits :: "nat \<Rightarrow> string \<Rightarrow> nat option" where
  "parse_digits acc [] = Some acc"
| "parse_digits acc (c # cs) = (case digit_val c of None \<Rightarrow> None | Some d \<Rightarrow> parse_digits (10 * acc + d) cs)"

definition parse_int :: "string \<Rightarrow> int option" where
  "parse_int s =
     (if s = [] then None
      else if hd s = CHR ''-'' then (if tl s = [] then None else map_option (\<lambda>n. - int n) (parse_digits 0 (tl s)))
      else map_option int (parse_digits 0 s))"

section \<open>Round trip and equivalence\<close>

declare str_nat.simps [simp del] lstrip_idx.simps [simp del]

lemma digit_val_char [simp]: "d < 10 \<Longrightarrow> digit_val (char_of (48 + d)) = Some d"
  by (simp add: digit_val_def of_char_of)

lemma parse_digits_append: "parse_digits acc (xs @ ys) = (case parse_digits acc xs of None \<Rightarrow> None | Some a \<Rightarrow> parse_digits a ys)"
  by (induction xs arbitrary: acc) (auto split: option.split)

lemma parse_digits_str_nat: "parse_digits acc (str_nat n) = Some (acc * 10 ^ length (str_nat n) + n)"
proof (induction n arbitrary: acc rule: str_nat.induct)
  case (1 n)
  show ?case
  proof (cases "n < 10")
    case True
    then show ?thesis by (simp add: str_nat.simps [of n])
  next
    case False
    then have "parse_digits acc (str_nat n) =
               parse_digits (acc * 10 ^ length (str_nat (n div 10)) + n div 10) [char_of (48 + n mod 10)]"
      using "1.IH" [OF False] by (simp add: str_nat.simps [of n] parse_digits_append)
    also have "\<dots> = Some (acc * 10 ^ length (str_nat n) + n)"
      using False by (simp add: str_nat.simps [of n] algebra_simps)
    finally show ?thesis .
  qed
qed

lemma digit_char_not_minus [simp]: "(d::nat) < 10 \<Longrightarrow> char_of (48 + d) \<noteq> CHR ''-''"
proof
  assume "(d::nat) < 10" "char_of (48 + d) = CHR ''-''"
  then have "(of_char (char_of (48 + d)) :: nat) = of_char CHR ''-''" by simp
  with \<open>d < 10\<close> show False by (simp add: of_char_of)
qed

lemma str_nat_hd: "hd (str_nat n) \<noteq> CHR ''-'' \<and> str_nat n \<noteq> []"
proof (induction n rule: str_nat.induct)
  case (1 n)
  then show ?case
    by (cases "n < 10") (auto simp: str_nat.simps [of n])
qed

text \<open>\<open>str_int\<close> (the f-string rendering of an \<open>int\<close>) followed by the decimal parser
  \<open>parse_int\<close> is the identity on every integer.\<close>

lemma str_int_roundtrip: "parse_int (str_int i) = Some i"
  using str_nat_hd [of "nat (- i)"] str_nat_hd [of "nat i"]
  by (auto simp: parse_int_def str_int_def parse_digits_str_nat)

lemma lstrip_idx_eq: "i \<le> length s \<Longrightarrow> lstrip_idx s i = i + length (takeWhile py_isspace (drop i s))"
proof (induction s i rule: lstrip_idx.induct)
  case (1 s i)
  show ?case
  proof (cases "i < length s \<and> py_isspace (s ! i)")
    case True
    then have "drop i s = s ! i # drop (Suc i) s" by (simp add: Cons_nth_drop_Suc)
    with True "1.IH" show ?thesis by (simp add: lstrip_idx.simps [of s i])
  next
    case False
    with "1.prems" have "takeWhile py_isspace (drop i s) = []"
      by (cases "drop i s") (auto simp: nth_via_drop)
    moreover have "lstrip_idx s i = i" by (simp only: lstrip_idx.simps [of s i] if_not_P [OF False])
    ultimately show ?thesis by simp
  qed
qed

lemma take_Suc_drop:
  assumes "i \<le> j" "j < length s"
  shows "take (Suc j - i) (drop i s) = take (j - i) (drop i s) @ [s ! j]"
proof -
  have "Suc j - i = Suc (j - i)" using assms(1) by simp
  moreover have "j - i < length (drop i s)" using assms by simp
  then have "take (Suc (j - i)) (drop i s) = take (j - i) (drop i s) @ [drop i s ! (j - i)]"
    by (rule take_Suc_conv_app_nth)
  moreover have "drop i s ! (j - i) = s ! j" using assms by simp
  ultimately show ?thesis by simp
qed

lemma rstrip_idx_eq:
  "i \<le> j \<Longrightarrow> j \<le> length s \<Longrightarrow>
     rstrip_idx s i j = j - length (takeWhile py_isspace (rev (take (j - i) (drop i s))))"
proof (induction j)
  case 0
  then show ?case by simp
next
  case (Suc j)
  show ?case
  proof (cases "i < Suc j")
    case True
    then have ij: "i \<le> j" by simp
    have tk: "rev (take (Suc j - i) (drop i s)) = s ! j # rev (take (j - i) (drop i s))"
      using take_Suc_drop [OF ij, of s] Suc.prems by simp
    have len: "length (takeWhile py_isspace (rev (take (j - i) (drop i s)))) \<le> j - i"
      using length_takeWhile_le [of py_isspace "rev (take (j - i) (drop i s))"] Suc.prems by simp
    show ?thesis
      using Suc.IH [OF ij] Suc.prems True tk len by auto
  next
    case False
    with Suc.prems show ?thesis by simp
  qed
qed

text \<open>The model of \<open>str.strip()\<close> by \<open>dropWhile\<close> agrees with the index loops of
  CPython's implementation (advance \<open>i\<close> over leading whitespace, then move \<open>j\<close> back over
  trailing whitespace while \<open>j > i\<close>, return \<open>s[i:j]\<close>) on every string.\<close>

lemma cpython_strip_eq: "cpython_strip s = py_strip s"
proof -
  let ?i = "length (takeWhile py_isspace s)"
  let ?t = "dropWhile py_isspace s"
  have i: "lstrip_idx s 0 = ?i" using lstrip_idx_eq [of 0 s] by simp
  have t: "drop ?i s = ?t" by (simp add: dropWhile_eq_drop)
  have il: "?i \<le> length s" by (rule length_takeWhile_le)
  have lt: "length ?t = length s - ?i" by (simp add: t [symmetric])
  have j: "rstrip_idx s ?i (length s) = length s - length (takeWhile py_isspace (rev ?t))"
    using rstrip_idx_eq [OF il order_refl] t lt by simp
  have "cpython_strip s = take (length ?t - length (takeWhile py_isspace (rev ?t))) ?t"
    using i j t lt by (simp add: cpython_strip_def Let_def add.commute)
  also have "\<dots> = rev (drop (length (takeWhile py_isspace (rev ?t))) (rev ?t))"
    by (simp add: rev_drop)
  also have "\<dots> = py_strip s"
    by (simp add: py_strip_def dropWhile_eq_drop)
  finally show ?thesis .
qed

lemma all_dropWhile: "(\<forall>x \<in> set (dropWhile P xs). P x) \<longleftrightarrow> (\<forall>x \<in> set xs. P x)"
  by (induction xs) auto

lemma py_strip_Nil_iff: "py_strip s = [] \<longleftrightarrow> list_all py_isspace s"
  by (simp add: py_strip_def dropWhile_eq_Nil_conv list_all_iff all_dropWhile)

end
