(* ===== verification/App.thy ===== *)
theory App
  imports Complaints Python
begin

text \<open>
  The Streamlit front end, \<open>main\<close> (lines 127--207 of \<open>src/app.py\<close>).  Streamlit runs
  the whole script once per user interaction.  One run is modelled as the sequence of
  the script's blocks in source order: \<open>init_db\<close>, the session initialisation, the
  login tab, the register tab, the logout button, and the three main tabs.  Each block
  takes the application state (the server and \<open>st.session_state\<close>) and the page
  rendered so far, and either continues or stops the run: an exception that escapes a
  data-access call ends the run with the exception shown, and \<open>st.rerun()\<close> ends it
  and discards the page, so that Streamlit starts a fresh run at once.  Which button
  the user pressed, and the values of the text widgets, are the run's \<open>action\<close>.
  Each block renders its widgets and messages into the page, each placed in its sidebar
  or tab container.
\<close>

section \<open>State, interactions and outcomes\<close>

text \<open>\<open>st.session_state.user_id\<close>: \<open>None\<close> while the key is absent (before the first run),
  \<open>Some None\<close> when nobody is logged in, \<open>Some (Some u)\<close> for user \<open>u\<close>.\<close>

record app =
  srv :: server
  session :: "int option option"

datatype action =
    NoAction
  | ClickLogin string string
  | ClickRegister string string
  | ClickLogout
  | ClickSubmit string
  | ClickUpdate int string

datatype outcome = Finished "placed list" | Crashed db_error "placed list" | Rerun "placed list"

datatype flow = Go app "placed list" | Stop app outcome

definition cur :: "app \<Rightarrow> int option" where
  "cur a = (case session a of None \<Rightarrow> None | Some u \<Rightarrow> u)"

definition seq :: "(app \<Rightarrow> placed list \<Rightarrow> flow) \<Rightarrow> flow \<Rightarrow> flow" where
  "seq f fl = (case fl of Go a pg \<Rightarrow> f a pg | Stop a out \<Rightarrow> Stop a out)"

section \<open>The widgets of the page\<close>

text \<open>Lines 137--142: the title, and the sidebar's header and its two tabs.\<close>

definition page_head :: "placed list" where
  "page_head = [([], StTitle ''Grievance Management System''), ([Sidebar], StHeader ''Authentication''),
                ([Sidebar], StTabs [''Login'', ''Register''])]"

text \<open>Lines 146--148 and 159--161: the two forms of the sidebar's tabs.\<close>

definition login_form :: "placed list" where
  "login_form = st_in [Sidebar, Tab ''Login'']
                  [StTextInput ''Username'' False, StTextInput ''Password'' True, StButton ''Login'']"

definition register_form :: "placed list" where
  "register_form = st_in [Sidebar, Tab ''Register'']
                     [StTextInput ''Username'' False, StTextInput ''Password'' True, StButton ''Register'']"

text \<open>Line 174: the three tabs of the main area, and lines 177--179: the submission form.\<close>

definition main_tabs :: "placed list" where
  "main_tabs = [([], StTabs [''Submit Complaint'', ''View Complaints'', ''Update Complaint''])]"

definition submit_form :: "placed list" where
  "submit_form = st_in [Tab ''Submit Complaint'']
                   [StHeader ''Submit a New Complaint'', StTextArea ''Describe your complaint'', StButton ''Submit'']"

text \<open>Line 195: the header of the update tab, and lines 198--200: the update form, whose
  select box offers the given ids.\<close>

definition update_head :: "placed list" where
  "update_head = [([Tab ''Update Complaint''], StHeader ''Update Complaint Status'')]"

definition update_form :: "cell list \<Rightarrow> placed list" where
  "update_form opts = st_in [Tab ''Update Complaint'']
                        [StSelectbox ''Select Complaint ID'' opts, StTextArea ''Resolution Description'',
                         StButton ''Update Status'']"

section \<open>The blocks of one run\<close>

text \<open>Lines 128--131: \<open>init_db()\<close> on every run, outside any \<open>try\<close>; \<open>set_page_config\<close>
  renders nothing.\<close>

definition blk_init_db :: "app \<Rightarrow> flow" where
  "blk_init_db a =
     (case init_db (srv a) of
        (Inl e, s) \<Rightarrow> Stop (a\<lparr>srv := s\<rparr>) (Crashed e [])
      | (Inr _, s) \<Rightarrow> Go (a\<lparr>srv := s\<rparr>) [])"

text \<open>Lines 134--142: the session key, then the title and the sidebar's tabs.\<close>

definition blk_session :: "app \<Rightarrow> placed list \<Rightarrow> flow" where
  "blk_session a pg = Go (if session a = None then a\<lparr>session := Some None\<rparr> else a) (pg @ page_head)"

text \<open>The login tab, lines 144--155.\<close>

definition blk_login :: "action \<Rightarrow> app \<Rightarrow> placed list \<Rightarrow> flow" where
  "blk_login act a pg =
     (if cur a \<noteq> None then Go a pg
      else case act of
        ClickLogin u p \<Rightarrow>
          (case login_user u p (srv a) of
             (Inl e, s) \<Rightarrow> Stop (a\<lparr>srv := s\<rparr>) (Crashed e (pg @ login_form))
           | (Inr r, s) \<Rightarrow>
               if truthy_id r
               then Stop (a\<lparr>srv := s, session := Some r\<rparr>)
                      (Rerun (pg @ login_form @ [([Sidebar, Tab ''Login''], StSuccess ''Successfully logged in!'')]))
               else Go (a\<lparr>srv := s\<rparr>) (pg @ login_form @ [([Sidebar, Tab ''Login''], StError ''Invalid credentials'')]))
      | _ \<Rightarrow> Go a (pg @ login_form))"

text \<open>The register tab, lines 157--165; the error \<open>register_user\<close> renders is placed in
  the tab too.\<close>

definition blk_register :: "action \<Rightarrow> app \<Rightarrow> placed list \<Rightarrow> flow" where
  "blk_register act a pg =
     (if cur a \<noteq> None then Go a pg
      else case act of
        ClickRegister u p \<Rightarrow>
          (case register_user u p (srv a) of
             (Inl e, s) \<Rightarrow> Stop (a\<lparr>srv := s\<rparr>) (Crashed e (pg @ register_form))
           | (Inr (ok, msgs), s) \<Rightarrow>
               Go (a\<lparr>srv := s\<rparr>)
                  (pg @ register_form @ st_in [Sidebar, Tab ''Register'']
                     (msgs @ [if ok then StSuccess ''Registration successful! Please login.''
                              else StError ''Registration failed''])))
      | _ \<Rightarrow> Go a (pg @ register_form))"

text \<open>The logout button, lines 167--170.\<close>

definition blk_logout :: "action \<Rightarrow> app \<Rightarrow> placed list \<Rightarrow> flow" where
  "blk_logout act a pg =
     (if cur a = None then Go a pg
      else case act of
        ClickLogout \<Rightarrow> Stop (a\<lparr>session := Some None\<rparr>) (Rerun (pg @ [([Sidebar], StButton ''Logout'')]))
      | _ \<Rightarrow> Go a (pg @ [([Sidebar], StButton ''Logout'')]))"

text \<open>The \<open>Submit Complaint\<close> tab, lines 176--184.\<close>

definition blk_submit :: "int \<Rightarrow> action \<Rightarrow> app \<Rightarrow> placed list \<Rightarrow> flow" where
  "blk_submit u act a pg =
     (case act of
        ClickSubmit txt \<Rightarrow>
          if py_strip txt \<noteq> [] then
            (case submit_complaint u txt (srv a) of
               (Inl e, s) \<Rightarrow> Stop (a\<lparr>srv := s\<rparr>) (Crashed e (pg @ submit_form))
             | (Inr i, s) \<Rightarrow>
                 Go (a\<lparr>srv := s\<rparr>) (pg @ submit_form @ [([Tab ''Submit Complaint''],
                                       StSuccess (''Complaint submitted successfully! Complaint ID: '' @ str_int i))]))
          else Go a (pg @ submit_form @ [([Tab ''Submit Complaint''], StWarning ''Please enter a complaint description'')])
      | _ \<Rightarrow> Go a (pg @ submit_form))"

text \<open>The \<open>View Complaints\<close> tab, lines 186--192.\<close>

definition blk_view :: "int \<Rightarrow> app \<Rightarrow> placed list \<Rightarrow> flow" where
  "blk_view u a pg =
     (case get_user_complaints u (srv a) of
        (Inl e, s) \<Rightarrow> Stop (a\<lparr>srv := s\<rparr>) (Crashed e (pg @ [([Tab ''View Complaints''], StHeader ''Your Complaints'')]))
      | (Inr df, s) \<Rightarrow>
          Go (a\<lparr>srv := s\<rparr>) (pg @ st_in [Tab ''View Complaints'']
                                 [StHeader ''Your Complaints'',
                                  if \<not> df_empty df then StDataframe df else StInfo ''No complaints found'']))"

text \<open>The \<open>Update Complaint\<close> tab, lines 194--205.  The select box offers the column
  \<open>ID\<close> of the frame; an id it does not offer cannot be selected, and a click with one
  is treated as no click.\<close>

definition blk_update :: "int \<Rightarrow> action \<Rightarrow> app \<Rightarrow> placed list \<Rightarrow> flow" where
  "blk_update u act a pg =
     (case get_user_complaints u (srv a) of
        (Inl e, s) \<Rightarrow> Stop (a\<lparr>srv := s\<rparr>) (Crashed e (pg @ update_head))
      | (Inr df, s) \<Rightarrow>
          (if df_empty df
           then Go (a\<lparr>srv := s\<rparr>) (pg @ update_head @ [([Tab ''Update Complaint''], StInfo ''No complaints to update'')])
           else case df_column ''ID'' df of
             Inl e \<Rightarrow> Stop (a\<lparr>srv := s\<rparr>) (Crashed e (pg @ update_head))
           | Inr opts \<Rightarrow>
             (case act of
               ClickUpdate c res \<Rightarrow>
                 if CInt c \<in> set opts then
                   (case update_complaint_status c res s of
                      (Inl e, s2) \<Rightarrow> Stop (a\<lparr>srv := s2\<rparr>)
                         (Crashed e (pg @ update_head @ update_form opts))
                    | (Inr ok, s2) \<Rightarrow>
                        if ok
                        then Stop (a\<lparr>srv := s2\<rparr>)
                               (Rerun (pg @ update_head @ update_form opts @
                                       [([Tab ''Update Complaint''], StSuccess ''Complaint status updated successfully!'')]))
                        else Go (a\<lparr>srv := s2\<rparr>) (pg @ update_head @ update_form opts))
                 else Go (a\<lparr>srv := s\<rparr>) (pg @ update_head @ update_form opts)
             | _ \<Rightarrow> Go (a\<lparr>srv := s\<rparr>) (pg @ update_head @ update_form opts))))"

text \<open>The main area, lines 173--207.\<close>

definition blk_main :: "action \<Rightarrow> app \<Rightarrow> placed list \<Rightarrow> flow" where
  "blk_main act a pg =
     (case cur a of
        None \<Rightarrow> Go a (pg @ [([], StInfo ''Please login or register to access the system'')])
      | Some u \<Rightarrow> seq (blk_update u act) (seq (blk_view u) (blk_submit u act a (pg @ main_tabs))))"

section \<open>A run and an interaction\<close>

text \<open>The blocks of one run, composed in the order of the script.\<close>

abbreviation run_flow :: "action \<Rightarrow> app \<Rightarrow> flow" where
  "run_flow act a \<equiv> seq (blk_main act) (seq (blk_logout act) (seq (blk_register act)
                        (seq (blk_login act) (seq blk_session (blk_init_db a)))))"

definition main_run :: "action \<Rightarrow> app \<Rightarrow> app \<times> outcome" where
  "main_run act a =
     (case run_flow act a of
        Go a' pg \<Rightarrow> (a', Finished pg)
      | Stop a' out \<Rightarrow> (a', out))"

text \<open>A user interaction: the run the action triggers, and the run \<open>st.rerun()\<close> starts
  when that run asked for one; the page of the first run is then replaced.\<close>

definition app_step :: "action \<Rightarrow> app \<Rightarrow> app \<times> outcome" where
  "app_step act a =
     (case main_run act a of
        (a', Rerun _) \<Rightarrow> main_run NoAction a'
      | r \<Rightarrow> r)"

section \<open>The invariant of the application state\<close>

text \<open>The state a flow leaves the application in, and the invariant every run keeps:
  the stored data is well-formed and the logged-in user, if any, exists.\<close>

fun flow_app :: "flow \<Rightarrow> app" where
  "flow_app (Go a _) = a"
| "flow_app (Stop a _) = a"

fun flow_outcome :: "flow \<Rightarrow> outcome" where
  "flow_outcome (Go _ pg) = Finished pg"
| "flow_outcome (Stop _ out) = out"

definition app_inv :: "app \<Rightarrow> bool" where
  "app_inv a \<longleftrightarrow> wf_server (srv a) \<and> (case cur a of None \<Rightarrow> True | Some u \<Rightarrow> user_exists u (srv a))"

text \<open>A flow that relates the server it leaves to the server of \<open>a\<close> by \<open>R\<close> and, while it
  goes on, keeps the session of \<open>a\<close>.\<close>

definition flow_within :: "(server \<Rightarrow> server \<Rightarrow> bool) \<Rightarrow> app \<Rightarrow> flow \<Rightarrow> bool" where
  "flow_within R a fl \<longleftrightarrow> R (srv a) (srv (flow_app fl)) \<and>
     (case fl of Go b _ \<Rightarrow> session b = session a | Stop _ _ \<Rightarrow> True)"

section \<open>Every run keeps the invariant\<close>


lemma seq_simps [simp]: "seq f (Go a pg) = f a pg" "seq f (Stop a out) = Stop a out"
  by (simp_all add: seq_def)

lemma main_run_flow: "main_run act a = (flow_app (run_flow act a), flow_outcome (run_flow act a))"
  by (cases "run_flow act a") (simp_all add: main_run_def)

lemma seq_pres:
  "P (flow_app fl) \<Longrightarrow> (\<And>a pg. P a \<Longrightarrow> P (flow_app (f a pg))) \<Longrightarrow> P (flow_app (seq f fl))"
  by (cases fl) auto

lemma seq_flow_pres: "P fl \<Longrightarrow> (\<And>a pg. P (Go a pg) \<Longrightarrow> P (f a pg)) \<Longrightarrow> P (seq f fl)"
  by (cases fl) auto

lemma init_db_user_exists: "user_exists u s \<Longrightarrow> user_exists u (snd (init_db s))"
  by (auto simp: user_exists_def dest: init_db_keeps_tables(1) split: sum.splits)

lemma login_user_state: "snd (login_user u p s) = s \<or> snd (login_user u p s) = s\<lparr>conns := Suc (conns s)\<rparr>"
  by (auto simp: login_user_def connect_def disconnect_def split: sum.split prod.split)

lemma login_user_frame [simp]:
  "users_of (snd (login_user u p s)) = users_of s" "complaints_of (snd (login_user u p s)) = complaints_of s"
  "wf_server (snd (login_user u p s)) = wf_server s" "clock (snd (login_user u p s)) = clock s"
  using login_user_state [of u p s] by auto

lemma fetchone_Some: "fetchone xs = (Some x, b) \<Longrightarrow> x \<in> set xs"
  by (cases xs rule: fetchone.cases) auto

lemma login_user_found:
  assumes "login_user u p s = (Inr (Some i), s')"
  shows "user_exists i s'"
proof -
  have on: "online s" using assms by (auto simp: login_user_def connect_def split: if_splits)
  obtain t where t: "users_of s = Inr t"
    using assms on by (auto simp: login_user_def connect_def select_user_ids_def split: sum.splits)
  let ?ids = "map uid (filter (user_matches (coll s) u p) (rows t))"
  obtain b where "fetchone ?ids = (Some i, b)"
    using assms on t
    by (auto simp: login_user_def connect_def select_user_ids_def split: prod.splits if_splits)
  then have "i \<in> set ?ids" by (rule fetchone_Some)
  then have "i \<in> set (map uid (rows t))" by auto
  moreover have "users_of s' = users_of s" using login_user_frame(1) [of u p s] assms by simp
  ultimately show ?thesis using t by (simp add: user_exists_def)
qed

lemma register_user_users:
  "users_of s = Inr t \<Longrightarrow> \<exists>t'. users_of (snd (register_user u p s)) = Inr t' \<and> set (rows t) \<subseteq> set (rows t')"
  by (auto simp: register_user_def connect_def insert_user_def new_user_row_def split: sum.split if_splits)

lemma submit_complaint_users [simp]: "users_of (snd (submit_complaint u d s)) = users_of s"
  by (auto simp: submit_complaint_def connect_def insert_complaint_def split: sum.split prod.split)

lemma update_complaint_status_users [simp]: "users_of (snd (update_complaint_status c r s)) = users_of s"
  by (auto simp: update_complaint_status_def connect_def update_resolution_def split: sum.split)

lemma cur_simps [simp]:
  "cur (a\<lparr>srv := s\<rparr>) = cur a" "cur (a\<lparr>session := Some r\<rparr>) = r"
  by (simp_all add: cur_def)

lemma app_inv_srv:
  assumes "app_inv a" "wf_server s'" "\<And>u. user_exists u (srv a) \<Longrightarrow> user_exists u s'"
  shows "app_inv (a\<lparr>srv := s'\<rparr>)"
  using assms by (auto simp: app_inv_def split: option.splits)

lemma blk_init_db_inv: "app_inv a \<Longrightarrow> app_inv (flow_app (blk_init_db a))"
  using init_db_wf [of "srv a"] init_db_user_exists [of _ "srv a"]
  by (auto simp: blk_init_db_def app_inv_def split: sum.split prod.split option.splits)

lemma blk_session_inv: "app_inv a \<Longrightarrow> app_inv (flow_app (blk_session a pg))"
  by (auto simp: blk_session_def app_inv_def cur_def)

lemma blk_login_inv:
  assumes inv: "app_inv a"
  shows "app_inv (flow_app (blk_login act a pg))"
proof (cases "cur a = None \<and> (\<exists>u p. act = ClickLogin u p)")
  case True
  then obtain u p where act: "act = ClickLogin u p" and none: "cur a = None" by auto
  obtain r s' where l: "login_user u p (srv a) = (r, s')" by fastforce
  have s': "users_of s' = users_of (srv a)" "wf_server s'"
    using login_user_frame [of u p "srv a"] l inv by (simp_all add: app_inv_def)
  have keep: "app_inv (a\<lparr>srv := s'\<rparr>)"
    using inv s' by (simp add: app_inv_def none)
  show ?thesis
  proof (cases r)
    case (Inl e)
    with act none l keep show ?thesis by (simp add: blk_login_def)
  next
    case (Inr v)
    show ?thesis
    proof (cases "truthy_id v")
      case True
      then obtain i where v: "v = Some i" by (cases v) auto
      with l Inr have "user_exists i s'" by (simp add: login_user_found)
      with s' act none l Inr True v show ?thesis
        by (simp add: blk_login_def app_inv_def)
    next
      case False
      with act none l Inr keep show ?thesis by (simp add: blk_login_def)
    qed
  qed
next
  case False
  then have "flow_app (blk_login act a pg) = a"
    by (cases act) (auto simp: blk_login_def)
  with inv show ?thesis by simp
qed

lemma app_inv_users_same:
  "app_inv a \<Longrightarrow> wf_server s' \<Longrightarrow> users_of s' = users_of (srv a) \<Longrightarrow> app_inv (a\<lparr>srv := s'\<rparr>)"
  by (auto simp: app_inv_def user_exists_def split: option.splits)

lemma blk_register_inv:
  assumes inv: "app_inv a"
  shows "app_inv (flow_app (blk_register act a pg))"
proof (cases "cur a = None \<and> (\<exists>u p. act = ClickRegister u p)")
  case True
  then obtain u p where act: "act = ClickRegister u p" and none: "cur a = None" by auto
  obtain r s' where l: "register_user u p (srv a) = (r, s')" by fastforce
  have "wf_server s'" using register_user_wf [of "srv a" u p] l inv by (simp add: app_inv_def)
  then have keep: "app_inv (a\<lparr>srv := s'\<rparr>)" using none by (simp add: app_inv_def)
  show ?thesis
    using act none l keep by (simp add: blk_register_def split: sum.split prod.split)
next
  case False
  then have "flow_app (blk_register act a pg) = a"
    by (cases act) (auto simp: blk_register_def)
  with inv show ?thesis by simp
qed

lemma blk_logout_inv: "app_inv a \<Longrightarrow> app_inv (flow_app (blk_logout act a pg))"
  by (cases act) (auto simp: blk_logout_def app_inv_def cur_def)

lemma blk_submit_inv:
  assumes inv: "app_inv a"
  shows "app_inv (flow_app (blk_submit u act a pg))"
proof (cases "\<exists>d. act = ClickSubmit d")
  case True
  then obtain d where act: "act = ClickSubmit d" by auto
  obtain r s' where l: "submit_complaint u d (srv a) = (r, s')" by fastforce
  have "wf_server s'" "users_of s' = users_of (srv a)"
    using submit_complaint_wf [of "srv a" u d] submit_complaint_users [of u d "srv a"] l inv
    by (simp_all add: app_inv_def)
  with inv have keep: "app_inv (a\<lparr>srv := s'\<rparr>)" by (rule app_inv_users_same)
  show ?thesis
    using act l keep inv by (simp add: blk_submit_def split: sum.split)
next
  case False
  then have "flow_app (blk_submit u act a pg) = a"
    by (cases act) (auto simp: blk_submit_def)
  with inv show ?thesis by simp
qed

lemma blk_view_inv: "app_inv a \<Longrightarrow> app_inv (flow_app (blk_view u a pg))"
  using get_user_complaints_state [of u "srv a"]
  by (auto simp: blk_view_def split: sum.split prod.split)

lemma blk_update_inv:
  assumes inv: "app_inv a"
  shows "app_inv (flow_app (blk_update u act a pg))"
proof -
  obtain L s where g: "get_user_complaints u (srv a) = (L, s)" by fastforce
  have s: "s = srv a" using get_user_complaints_state [of u "srv a"] g by simp
  have upd: "\<And>c res r s2. update_complaint_status c res s = (r, s2) \<Longrightarrow> app_inv (a\<lparr>srv := s2\<rparr>)"
  proof -
    fix c res r s2
    assume "update_complaint_status c res s = (r, s2)"
    then have "wf_server s2" "users_of s2 = users_of (srv a)"
      using update_complaint_status_wf [of s c res] update_complaint_status_users [of c res s] inv s
      by (auto simp: app_inv_def)
    with inv show "app_inv (a\<lparr>srv := s2\<rparr>)" by (rule app_inv_users_same)
  qed
  show ?thesis
    using g s inv upd
    by (auto simp: blk_update_def split: sum.split prod.split action.split if_splits)
qed

lemma blk_main_inv: "app_inv a \<Longrightarrow> app_inv (flow_app (blk_main act a pg))"
  by (auto simp: blk_main_def split: option.split
           intro!: seq_pres [where P = app_inv] blk_update_inv blk_view_inv blk_submit_inv)

lemma main_run_inv: "app_inv a \<Longrightarrow> app_inv (fst (main_run act a))"
proof -
  assume inv: "app_inv a"
  let ?fl = "run_flow act a"
  have "app_inv (flow_app ?fl)"
    using inv
    by (intro seq_pres [where P = app_inv] blk_init_db_inv blk_session_inv blk_login_inv
              blk_register_inv blk_logout_inv blk_main_inv)
  then show ?thesis by (simp add: main_run_flow)
qed

lemma app_step_inv: "app_inv a \<Longrightarrow> app_inv (fst (app_step act a))"
  using main_run_inv [of a act] main_run_inv [of "fst (main_run act a)" NoAction]
  by (auto simp: app_step_def split: prod.split outcome.split)

section \<open>What a run does to the server\<close>

text \<open>Each block leaves the server as it found it or as one data-access function leaves it;
  an update is only ever issued for an id of the user's own listing.\<close>

lemma blk_effects:
  "srv (flow_app (blk_init_db a)) = snd (init_db (srv a))"
  "srv (flow_app (blk_session a pg)) = srv a"
  "srv (flow_app (blk_logout act a pg)) = srv a"
  "srv (flow_app (blk_view u a pg)) = srv a"
  using get_user_complaints_state [of u "srv a"]
  by (auto simp: blk_init_db_def blk_session_def blk_logout_def blk_view_def
           split: prod.split sum.split action.split)

lemma blk_login_effect:
  "srv (flow_app (blk_login act a pg)) = srv a \<or>
   (\<exists>u p. act = ClickLogin u p \<and> cur a = None \<and> srv (flow_app (blk_login act a pg)) = snd (login_user u p (srv a)))"
  by (cases act) (auto simp: blk_login_def split: prod.split sum.split)

lemma blk_register_effect:
  "srv (flow_app (blk_register act a pg)) = srv a \<or>
   (\<exists>u p. act = ClickRegister u p \<and> cur a = None \<and>
      srv (flow_app (blk_register act a pg)) = snd (register_user u p (srv a)))"
  by (cases act) (auto simp: blk_register_def split: prod.split sum.split)

lemma blk_submit_effect:
  "srv (flow_app (blk_submit u act a pg)) = srv a \<or>
   (\<exists>d. act = ClickSubmit d \<and> py_strip d \<noteq> [] \<and>
      srv (flow_app (blk_submit u act a pg)) = snd (submit_complaint u d (srv a)))"
  by (cases act) (auto simp: blk_submit_def split: prod.split sum.split)

lemma blk_update_effect:
  "srv (flow_app (blk_update u act a pg)) = srv a \<or>
   (\<exists>c res df. act = ClickUpdate c res \<and> fst (get_user_complaints u (srv a)) = Inr df \<and> c \<in> set (map fst (df_rows df)) \<and>
      srv (flow_app (blk_update u act a pg)) = snd (update_complaint_status c res (srv a)))"
proof -
  obtain r s where g: "get_user_complaints u (srv a) = (r, s)" by fastforce
  have s: "s = srv a" using get_user_complaints_state [of u "srv a"] g by simp
  have ids: "df_column ''ID'' df = Inr (map (CInt \<circ> fst) (df_rows df))" if "r = Inr df" for df
    using get_user_complaints_ids [of u "srv a" df] g that by simp
  show ?thesis
    using g s ids by (cases act) (auto simp: blk_update_def split: prod.split sum.split)
qed

text \<open>A relation on server states that every data-access function establishes between the
  state it starts from and the state it leaves holds across a whole run.\<close>

lemma main_run_mono:
  assumes refl: "\<And>s. R s s" and trans: "\<And>s1 s2 s3. R s1 s2 \<Longrightarrow> R s2 s3 \<Longrightarrow> R s1 s3"
    and init: "\<And>s. R s (snd (init_db s))"
    and login: "\<And>u p s. R s (snd (login_user u p s))"
    and reg: "\<And>u p s. R s (snd (register_user u p s))"
    and sub: "\<And>u d s. R s (snd (submit_complaint u d s))"
    and upd: "\<And>u c res s df. fst (get_user_complaints u s) = Inr df \<Longrightarrow> c \<in> set (map fst (df_rows df)) \<Longrightarrow>
                R s (snd (update_complaint_status c res s))"
  shows "R (srv a) (srv (fst (main_run act a)))"
proof -
  let ?P = "\<lambda>b :: app. R (srv a) (srv b)"
  have step: "?P (flow_app (f b pg))" if b: "?P b" and f: "R (srv b) (srv (flow_app (f b pg)))"
    for f b pg using trans [OF b f] .
  have main: "R (srv b) (srv (flow_app (blk_main act b pg)))" for b pg
  proof (cases "cur b")
    case None
    then show ?thesis by (simp add: blk_main_def refl)
  next
    case (Some u)
    let ?Q = "\<lambda>c :: app. R (srv b) (srv c)"
    have "?Q (flow_app (blk_submit u act b (pg @ main_tabs)))"
      using blk_submit_effect [of u act b "pg @ main_tabs"] refl sub by auto
    then have "?Q (flow_app (seq (blk_view u) (blk_submit u act b (pg @ main_tabs))))"
      by (rule seq_pres) (simp add: blk_effects)
    then have "?Q (flow_app (seq (blk_update u act) (seq (blk_view u) (blk_submit u act b (pg @ main_tabs)))))"
    proof (rule seq_pres)
      fix c pg' assume c: "?Q c"
      have "R (srv c) (srv (flow_app (blk_update u act c pg')))"
        using blk_update_effect [of u act c pg'] refl upd by metis
      with c show "?Q (flow_app (blk_update u act c pg'))" by (rule trans)
    qed
    with Some show ?thesis by (simp add: blk_main_def)
  qed
  let ?fl = "run_flow act a"
  have "?P (flow_app ?fl)"
  proof (intro seq_pres [where P = ?P])
    show "?P (flow_app (blk_init_db a))" by (simp add: blk_effects init)
  next
    fix b pg assume "?P b"
    then show "?P (flow_app (blk_session b pg))" "?P (flow_app (blk_logout act b pg))"
      by (simp_all add: blk_effects)
  next
    fix b pg assume b: "?P b"
    show "?P (flow_app (blk_login act b pg))"
      using blk_login_effect [of act b pg] b login trans by metis
    show "?P (flow_app (blk_register act b pg))"
      using blk_register_effect [of act b pg] b reg trans by metis
    show "?P (flow_app (blk_main act b pg))" using b main by (rule trans)
  qed
  then show ?thesis by (simp add: main_run_flow)
qed

lemma app_step_mono:
  assumes refl: "\<And>s. R s s" and trans: "\<And>s1 s2 s3. R s1 s2 \<Longrightarrow> R s2 s3 \<Longrightarrow> R s1 s3"
    and init: "\<And>s. R s (snd (init_db s))"
    and login: "\<And>u p s. R s (snd (login_user u p s))"
    and reg: "\<And>u p s. R s (snd (register_user u p s))"
    and sub: "\<And>u d s. R s (snd (submit_complaint u d s))"
    and upd: "\<And>u c res s df. fst (get_user_complaints u s) = Inr df \<Longrightarrow> c \<in> set (map fst (df_rows df)) \<Longrightarrow>
                R s (snd (update_complaint_status c res s))"
  shows "R (srv a) (srv (fst (app_step act a)))"
proof -
  note run = main_run_mono [where R = R, OF refl trans init login reg sub upd]
  obtain a' out where m: "main_run act a = (a', out)" by fastforce
  have "R (srv a) (srv a')" using run [where a = a and act = act] m by simp
  moreover have "R (srv a') (srv (fst (main_run NoAction a')))" by (rule run)
  ultimately show ?thesis using m by (cases out) (auto simp: app_step_def intro: trans)
qed

section \<open>Runs of a logged-in session\<close>

text \<open>A run without a click changes the server only by \<open>init_db\<close>.  A run of a session
  logged in as \<open>u\<close> calls no data-access function but \<open>init_db\<close>, \<open>submit_complaint u\<close>,
  \<open>get_user_complaints u\<close> and \<open>update_complaint_status\<close> on an id of \<open>u\<close>'s listing.\<close>

lemma main_run_NoAction_srv: "srv (fst (main_run NoAction a)) = snd (init_db (srv a))"
proof -
  have main: "srv (flow_app (blk_main NoAction b pg)) = srv b" for b pg
  proof (cases "cur b")
    case (Some u)
    have "srv (flow_app (blk_submit u NoAction b (pg @ main_tabs))) = srv b" by (simp add: blk_submit_def)
    then have "srv (flow_app (seq (blk_view u) (blk_submit u NoAction b (pg @ main_tabs)))) = srv b"
      by (rule seq_pres [where P = "\<lambda>c :: app. srv c = srv b"]) (simp_all add: blk_effects)
    then have "srv (flow_app (seq (blk_update u NoAction) (seq (blk_view u) (blk_submit u NoAction b (pg @ main_tabs))))) = srv b"
    proof (rule seq_pres [where P = "\<lambda>c :: app. srv c = srv b"])
      fix c :: app and pg' assume "srv c = srv b"
      then show "srv (flow_app (blk_update u NoAction c pg')) = srv b"
        using blk_update_effect [of u NoAction c pg'] by auto
    qed
    with Some show ?thesis by (simp add: blk_main_def)
  qed (simp add: blk_main_def)
  let ?fl = "run_flow NoAction a"
  let ?P = "\<lambda>b :: app. srv b = snd (init_db (srv a))"
  have "?P (flow_app ?fl)"
  proof (intro seq_pres [where P = ?P])
    show "?P (flow_app (blk_init_db a))" by (simp add: blk_effects)
  next
    fix b pg assume b: "?P b"
    then show "?P (flow_app (blk_session b pg))" "?P (flow_app (blk_logout NoAction b pg))"
      "?P (flow_app (blk_login NoAction b pg))" "?P (flow_app (blk_register NoAction b pg))"
      "?P (flow_app (blk_main NoAction b pg))"
      by (simp_all add: blk_effects main blk_login_def blk_register_def)
  qed
  then show ?thesis by (simp add: main_run_flow)
qed

lemma blk_sessions:
  "session (flow_app (blk_init_db a)) = session a"
  "session (flow_app (blk_submit u act a pg)) = session a"
  "session (flow_app (blk_view u a pg)) = session a"
  "session (flow_app (blk_update u act a pg)) = session a"
  by (auto simp: blk_init_db_def blk_submit_def blk_view_def blk_update_def
           split: prod.split sum.split action.split)

lemma main_run_session_mono:
  assumes refl: "\<And>s. R s s" and trans: "\<And>s1 s2 s3. R s1 s2 \<Longrightarrow> R s2 s3 \<Longrightarrow> R s1 s3"
    and init: "\<And>s. R s (snd (init_db s))"
    and sub: "\<And>d s. act = ClickSubmit d \<Longrightarrow> py_strip d \<noteq> [] \<Longrightarrow> R s (snd (submit_complaint u d s))"
    and upd: "\<And>c res s df. act = ClickUpdate c res \<Longrightarrow> fst (get_user_complaints u s) = Inr df \<Longrightarrow>
                c \<in> set (map fst (df_rows df)) \<Longrightarrow> R s (snd (update_complaint_status c res s))"
    and cur: "cur a = Some u"
  shows "R (srv a) (srv (fst (main_run act a)))"
proof -
  have step: "flow_within R a fl"
    if b: "flow_within R a (Go b pg)" and eff: "R (srv b) (srv (flow_app fl))"
      and ses: "session (flow_app fl) = session b" for b pg fl
    using b trans [OF _ eff] ses by (cases fl) (auto simp: flow_within_def)
  have logged: "session b = session a \<Longrightarrow> cur b = Some u" for b using cur by (simp add: cur_def)
  have main: "flow_within R a (blk_main act b pg)" if b: "flow_within R a (Go b pg)" for b pg
  proof -
    have u: "cur b = Some u" using b logged by (simp add: flow_within_def)
    have "flow_within R a (blk_submit u act b (pg @ main_tabs))"
      using blk_submit_effect [of u act b "pg @ main_tabs"] refl sub by (intro step [OF b]) (auto simp: blk_sessions)
    then have "flow_within R a (seq (blk_view u) (blk_submit u act b (pg @ main_tabs)))"
      by (rule seq_flow_pres) (rule step, assumption, simp_all add: blk_effects blk_sessions refl)
    then have "flow_within R a (seq (blk_update u act) (seq (blk_view u) (blk_submit u act b (pg @ main_tabs))))"
    proof (rule seq_flow_pres)
      fix c pg' assume c: "flow_within R a (Go c pg')"
      show "flow_within R a (blk_update u act c pg')"
      proof (rule step [OF c])
        show "R (srv c) (srv (flow_app (blk_update u act c pg')))"
          using blk_update_effect [of u act c pg'] refl upd by metis
      qed (simp add: blk_sessions)
    qed
    with u show ?thesis by (simp add: blk_main_def)
  qed
  have session_go: "flow_within R a (blk_session b pg)" if b: "flow_within R a (Go b pg)" for b pg
    using b cur by (auto simp: flow_within_def blk_session_def cur_def split: option.splits)
  have login_go: "flow_within R a (blk_login act b pg)" if b: "flow_within R a (Go b pg)" for b pg
    using b logged by (simp add: flow_within_def blk_login_def)
  have register_go: "flow_within R a (blk_register act b pg)" if b: "flow_within R a (Go b pg)" for b pg
    using b logged by (simp add: flow_within_def blk_register_def)
  have logout_go: "flow_within R a (blk_logout act b pg)" if b: "flow_within R a (Go b pg)" for b pg
    using b by (cases act) (auto simp: flow_within_def blk_logout_def)
  have init_go: "flow_within R a (blk_init_db a)"
    using init [of "srv a"] blk_effects(1) [of a] blk_sessions(1) [of a]
    by (cases "blk_init_db a") (simp_all add: flow_within_def)
  let ?fl = "run_flow act a"
  have "flow_within R a ?fl"
    by (intro seq_flow_pres [where P = "flow_within R a"] init_go)
       (simp_all only: session_go login_go register_go logout_go main)
  then show ?thesis by (cases ?fl) (simp_all add: main_run_def flow_within_def)
qed

lemma app_step_session_mono:
  assumes refl: "\<And>s. R s s" and trans: "\<And>s1 s2 s3. R s1 s2 \<Longrightarrow> R s2 s3 \<Longrightarrow> R s1 s3"
    and init: "\<And>s. R s (snd (init_db s))"
    and sub: "\<And>d s. act = ClickSubmit d \<Longrightarrow> py_strip d \<noteq> [] \<Longrightarrow> R s (snd (submit_complaint u d s))"
    and upd: "\<And>c res s df. act = ClickUpdate c res \<Longrightarrow> fst (get_user_complaints u s) = Inr df \<Longrightarrow>
                c \<in> set (map fst (df_rows df)) \<Longrightarrow> R s (snd (update_complaint_status c res s))"
    and cur: "cur a = Some u"
  shows "R (srv a) (srv (fst (app_step act a)))"
proof -
  obtain a' out where m: "main_run act a = (a', out)" by fastforce
  have "R (srv a) (srv a')"
    using main_run_session_mono [where R = R, OF refl trans init sub upd cur, where act = act] m by simp
  moreover have "R (srv a') (srv (fst (main_run NoAction a')))"
    by (simp add: main_run_NoAction_srv init)
  ultimately show ?thesis using m by (cases out) (auto simp: app_step_def intro: trans)
qed

section \<open>The complaints an interaction leaves\<close>

lemma app_step_history: "history_kept (srv a) (srv (fst (app_step act a)))"
  by (rule app_step_mono [where R = history_kept])
     (auto intro: history_kept_trans init_db_history history_kept_same submit_complaint_history
                  update_complaint_status_history)

lemma app_step_others_kept:
  assumes "app_inv a" "cur a = Some u"
  shows "others_kept u (srv a) (srv (fst (app_step act a)))"
proof -
  let ?R = "\<lambda>s s'. wf_server s \<longrightarrow> wf_server s' \<and> others_kept u s s'"
  have "?R (srv a) (srv (fst (app_step act a)))"
  proof (rule app_step_session_mono [where R = ?R, OF _ _ _ _ _ assms(2)])
    fix s s1 s2 s3 d c res df
    show "?R s s" by (simp add: others_kept_refl)
    show "?R s1 s2 \<Longrightarrow> ?R s2 s3 \<Longrightarrow> ?R s1 s3" by (blast intro: others_kept_trans)
    show "?R s (snd (init_db s))" by (simp add: init_db_wf init_db_others_kept)
    show "?R s (snd (submit_complaint u d s))" by (simp add: submit_complaint_wf submit_complaint_others_kept)
    show "fst (get_user_complaints u s) = Inr df \<Longrightarrow> c \<in> set (map fst (df_rows df)) \<Longrightarrow>
          ?R s (snd (update_complaint_status c res s))"
      by (simp add: update_complaint_status_wf update_own_others_kept)
  qed
  with assms(1) show ?thesis by (simp add: app_inv_def)
qed

section \<open>A run never removes a user\<close>

lemma register_user_user_exists:
  assumes "user_exists v s"
  shows "user_exists v (snd (register_user u p s))"
proof -
  obtain t where t: "users_of s = Inr t" "v \<in> uid ` set (rows t)"
    using assms by (auto simp: user_exists_def split: sum.splits)
  obtain t' where "users_of (snd (register_user u p s)) = Inr t'" "set (rows t) \<subseteq> set (rows t')"
    using register_user_users [OF t(1)] by blast
  then show ?thesis using t(2) by (auto simp: user_exists_def)
qed

lemma app_step_keeps_user: "user_exists v (srv a) \<Longrightarrow> user_exists v (srv (fst (app_step act a)))"
proof -
  assume v: "user_exists v (srv a)"
  have "user_exists v (srv a) \<longrightarrow> user_exists v (srv (fst (app_step act a)))"
  proof (rule app_step_mono [where R = "\<lambda>s s'. user_exists v s \<longrightarrow> user_exists v s'"])
    fix s u p w d c res
    show "user_exists v s \<longrightarrow> user_exists v (snd (init_db s))" by (simp add: init_db_user_exists)
    show "user_exists v s \<longrightarrow> user_exists v (snd (login_user u p s))"
      using login_user_frame(1) [of u p s] by (simp add: user_exists_def)
    show "user_exists v s \<longrightarrow> user_exists v (snd (register_user u p s))"
      by (simp add: register_user_user_exists)
    show "user_exists v s \<longrightarrow> user_exists v (snd (submit_complaint w d s))"
      by (simp add: user_exists_def)
    show "user_exists v s \<longrightarrow> user_exists v (snd (update_complaint_status c res s))"
      by (simp add: user_exists_def)
  qed auto
  with v show ?thesis by simp
qed

end
