(* ===== verification/Interaction.thy ===== *)
theory Interaction
  imports App
begin

text \<open>
  Properties of whole interactions of one browser session: an interaction ends after at
  most the one rerun it asks for, the messages shown right before \<open>st.rerun()\<close> are lost,
  a logged-in user's submission passes the foreign key, registering and logging in on a
  server with its schema, and the boundary inputs of the page (a falsy id, a blank
  complaint, a server that is down).
\<close>

section \<open>Outcomes and pages\<close>

text \<open>Whether an outcome or a flow asks for a rerun, the page an outcome shows, and the
  two messages the script renders right before \<open>st.rerun()\<close>.\<close>

fun is_rerun :: "outcome \<Rightarrow> bool" where
  "is_rerun (Rerun _) = True"
| "is_rerun _ = False"

fun flow_rerun :: "flow \<Rightarrow> bool" where
  "flow_rerun (Stop _ out) = is_rerun out"
| "flow_rerun (Go _ _) = False"

fun page :: "outcome \<Rightarrow> placed list" where
  "page (Finished pg) = pg"
| "page (Crashed _ pg) = pg"
| "page (Rerun pg) = pg"

definition rerun_msg :: "placed \<Rightarrow> bool" where
  "rerun_msg e \<longleftrightarrow> snd e = StSuccess ''Successfully logged in!'' \<or> snd e = StSuccess ''Complaint status updated successfully!''"

fun flow_clean :: "flow \<Rightarrow> bool" where
  "flow_clean (Go _ pg) = (\<not> list_ex rerun_msg pg)"
| "flow_clean (Stop _ (Rerun _)) = True"
| "flow_clean (Stop _ out) = (\<not> list_ex rerun_msg (page out))"

text \<open>A flow that keeps the invariant and has not stopped on a rerun or on a foreign-key
  failure.\<close>

definition fk_safe :: "flow \<Rightarrow> bool" where
  "fk_safe fl \<longleftrightarrow> app_inv (flow_app fl) \<and>
     (case fl of Go _ _ \<Rightarrow> True | Stop _ out \<Rightarrow> \<not> is_rerun out \<and> (\<forall>pg. out \<noteq> Crashed FkViolation pg))"

section \<open>Reruns\<close>


lemma seq_no_rerun:
  "\<not> flow_rerun fl \<Longrightarrow> (\<And>a pg. \<not> flow_rerun (f a pg)) \<Longrightarrow> \<not> flow_rerun (seq f fl)"
  by (cases fl) auto

lemma blocks_no_rerun_NoAction:
  "\<not> flow_rerun (blk_init_db a)" "\<not> flow_rerun (blk_session a pg)"
  "\<not> flow_rerun (blk_login NoAction a pg)" "\<not> flow_rerun (blk_register NoAction a pg)"
  "\<not> flow_rerun (blk_logout NoAction a pg)" "\<not> flow_rerun (blk_submit u NoAction a pg)"
  "\<not> flow_rerun (blk_view u a pg)" "\<not> flow_rerun (blk_update u NoAction a pg)"
  by (auto simp: blk_init_db_def blk_session_def blk_login_def blk_register_def blk_logout_def
                 blk_submit_def blk_view_def blk_update_def split: sum.split prod.split)

lemma blk_main_no_rerun_NoAction: "\<not> flow_rerun (blk_main NoAction a pg)"
proof (cases "cur a")
  case (Some u)
  have "\<not> flow_rerun (seq (blk_update u NoAction) (seq (blk_view u) (blk_submit u NoAction a (pg @ main_tabs))))"
    by (intro seq_no_rerun blocks_no_rerun_NoAction)
  with Some show ?thesis by (simp add: blk_main_def)
qed (simp add: blk_main_def)

lemma main_run_NoAction: "\<not> is_rerun (snd (main_run NoAction a))"
proof -
  let ?fl = "run_flow NoAction a"
  have "\<not> flow_rerun ?fl"
    by (intro seq_no_rerun blocks_no_rerun_NoAction blk_main_no_rerun_NoAction)
  then show ?thesis by (cases ?fl) (auto simp: main_run_def)
qed

text \<open>Claim C10: every user interaction ends: the run \<open>st.rerun()\<close> starts after a login,
  a logout or an update never asks for another rerun, so an interaction is at most two
  runs and finishes with a page or a shown exception.\<close>

theorem interaction_finishes: "\<not> is_rerun (snd (app_step act a))"
  using main_run_NoAction
  by (auto simp: app_step_def split: prod.split outcome.split)

lemma seq_clean:
  "flow_clean fl \<Longrightarrow> (\<And>a pg. \<not> list_ex rerun_msg pg \<Longrightarrow> flow_clean (f a pg)) \<Longrightarrow> flow_clean (seq f fl)"
  by (cases fl) auto

lemma submit_msg_not_rerun_msg: "\<not> rerun_msg (q, StSuccess (''Complaint submitted successfully! Complaint ID: '' @ x))"
  by (simp add: rerun_msg_def)

lemma register_user_msgs:
  "register_user u p s = (Inr (ok, msgs), s') \<Longrightarrow> msgs = [] \<or> (\<exists>m. msgs = [StError m])"
  by (auto simp: register_user_def connect_def split: if_splits sum.splits)

lemma register_user_clean:
  "register_user u p s = (Inr (ok, msgs), s') \<Longrightarrow> \<not> list_ex rerun_msg (st_in q msgs)"
  by (auto simp: rerun_msg_def dest!: register_user_msgs)

lemma blocks_clean:
  "flow_clean (blk_init_db a)"
  "\<not> list_ex rerun_msg pg \<Longrightarrow> flow_clean (blk_session a pg)"
  "\<not> list_ex rerun_msg pg \<Longrightarrow> flow_clean (blk_login act a pg)"
  "\<not> list_ex rerun_msg pg \<Longrightarrow> flow_clean (blk_register act a pg)"
  "\<not> list_ex rerun_msg pg \<Longrightarrow> flow_clean (blk_logout act a pg)"
  "\<not> list_ex rerun_msg pg \<Longrightarrow> flow_clean (blk_submit u act a pg)"
  "\<not> list_ex rerun_msg pg \<Longrightarrow> flow_clean (blk_view u a pg)"
  "\<not> list_ex rerun_msg pg \<Longrightarrow> flow_clean (blk_update u act a pg)"
  by (auto simp: blk_init_db_def blk_session_def blk_login_def blk_register_def blk_logout_def
                 blk_submit_def blk_view_def blk_update_def rerun_msg_def page_head_def login_form_def
                 register_form_def submit_form_def update_head_def update_form_def
           dest: register_user_clean split: sum.split prod.split action.split)

lemma blk_main_clean: "\<not> list_ex rerun_msg pg \<Longrightarrow> flow_clean (blk_main act a pg)"
proof (cases "cur a")
  case (Some u)
  assume pg: "\<not> list_ex rerun_msg pg"
  have "\<not> list_ex rerun_msg (pg @ main_tabs)" using pg by (simp add: main_tabs_def rerun_msg_def)
  then have "flow_clean (seq (blk_update u act) (seq (blk_view u) (blk_submit u act a (pg @ main_tabs))))"
    by (intro seq_clean blocks_clean)
  with Some show ?thesis by (simp add: blk_main_def)
qed (simp add: blk_main_def rerun_msg_def)

lemma main_run_clean: "\<not> is_rerun (snd (main_run act a)) \<Longrightarrow> \<not> list_ex rerun_msg (page (snd (main_run act a)))"
proof -
  assume nr: "\<not> is_rerun (snd (main_run act a))"
  let ?fl = "run_flow act a"
  have "flow_clean ?fl"
    by (intro seq_clean blocks_clean blk_main_clean)
  with nr show ?thesis
    by (cases ?fl rule: flow_clean.cases) (auto simp: main_run_def)
qed

lemma rerun_hides_success:
  "\<not> list_ex rerun_msg (page (snd (app_step act a)))"
  using main_run_clean [of act a] main_run_clean [of NoAction] main_run_NoAction
  by (auto simp: app_step_def split: prod.split outcome.split)

text \<open>Claim C16: the messages \<open>Successfully logged in!\<close> (line 152) and \<open>Complaint status
  updated successfully!\<close> (line 202) are never on the page the user sees: each is
  rendered right before \<open>st.rerun()\<close>, which discards the page.\<close>

theorem success_messages_never_shown:
  "StSuccess ''Successfully logged in!'' \<notin> snd ` set (page (snd (app_step act a))) \<and>
   StSuccess ''Complaint status updated successfully!'' \<notin> snd ` set (page (snd (app_step act a)))"
  using rerun_hides_success [of act a] by (auto simp: list_ex_iff rerun_msg_def)

section \<open>A logged-in user's submission passes the foreign key\<close>

text \<open>The only error a foreign key raises is the one of \<open>submit_complaint\<close> for an id that
  is no user; the session holds only ids of users, so the \<open>Submit\<close> button never meets it.\<close>

lemma init_db_not_fk: "fst (init_db s) \<noteq> Inl FkViolation"
  by (auto simp: init_db_def connect_def create_users_table_def create_complaints_table_def
                 users_of_def Let_def split: sum.split prod.split option.split table.split)

lemma get_user_complaints_not_fk: "fst (get_user_complaints u s) \<noteq> Inl FkViolation"
  by (auto simp: get_user_complaints_def connect_def select_user_complaints_def complaints_of_def
           split: sum.split prod.split option.split table.split)

lemma submit_complaint_not_fk: "user_exists u s \<Longrightarrow> fst (submit_complaint u d s) \<noteq> Inl FkViolation"
  by (auto simp: submit_complaint_def connect_def insert_complaint_def complaints_of_def
           split: sum.split prod.split option.split table.split)

lemma fk_safe_Go [simp]: "fk_safe (Go a pg) = app_inv a"
  by (simp add: fk_safe_def)

lemma fk_safe_init_db: "app_inv a \<Longrightarrow> fk_safe (blk_init_db a)"
  using blk_init_db_inv [of a] init_db_not_fk [of "srv a"]
  by (auto simp: fk_safe_def blk_init_db_def split: sum.split prod.split)

lemma fk_safe_main_submit:
  assumes inv: "app_inv a"
  shows "fk_safe (blk_main (ClickSubmit d) a pg)"
proof (cases "cur a")
  case None
  then show ?thesis using inv by (simp add: blk_main_def)
next
  case (Some u)
  have ex: "user_exists u (srv a)" using inv Some by (simp add: app_inv_def)
  have sub: "fk_safe (blk_submit u (ClickSubmit d) a (pg @ main_tabs))"
    using blk_submit_inv [OF inv, of u "ClickSubmit d" "pg @ main_tabs"] submit_complaint_not_fk [OF ex, of d]
    by (auto simp: fk_safe_def blk_submit_def split: sum.split prod.split)
  have view: "fk_safe (blk_view u b pg')" if b: "app_inv b" for b pg'
  proof -
    obtain r s' where g: "get_user_complaints u (srv b) = (r, s')" by fastforce
    then have "r \<noteq> Inl FkViolation" using get_user_complaints_not_fk [of u "srv b"] by simp
    with g b blk_view_inv [OF b, of u pg'] show ?thesis
      by (auto simp: fk_safe_def blk_view_def split: sum.split)
  qed
  have upd: "fk_safe (blk_update u (ClickSubmit d) b pg')" if b: "app_inv b" for b pg'
  proof -
    obtain r s' where g: "get_user_complaints u (srv b) = (r, s')" by fastforce
    then have "r \<noteq> Inl FkViolation" using get_user_complaints_not_fk [of u "srv b"] by simp
    moreover have "df_column ''ID'' df \<noteq> Inl FkViolation" if "r = Inr df" for df
      using get_user_complaints_ids [of u "srv b" df] g that by simp
    ultimately show ?thesis using g b blk_update_inv [OF b, of u "ClickSubmit d" pg']
      by (auto simp: fk_safe_def blk_update_def split: sum.split)
  qed
  show ?thesis
    using Some by (simp add: blk_main_def)
       (intro seq_flow_pres [where P = fk_safe] sub, simp_all add: view upd)
qed

lemma main_run_submit_not_fk:
  assumes "app_inv a"
  shows "\<not> is_rerun (snd (main_run (ClickSubmit d) a)) \<and> snd (main_run (ClickSubmit d) a) \<noteq> Crashed FkViolation pg"
proof -
  let ?act = "ClickSubmit d"
  let ?fl = "run_flow ?act a"
  have "fk_safe ?fl"
    using assms
    by (intro seq_flow_pres [where P = fk_safe] fk_safe_init_db fk_safe_main_submit)
       (auto simp: blk_session_inv [simplified] blk_login_def blk_register_def blk_logout_def
                   blk_session_def app_inv_def cur_def)
  then show ?thesis by (cases ?fl) (auto simp: main_run_def fk_safe_def)
qed

lemma app_step_submit_not_fk:
  "app_inv a \<Longrightarrow> snd (app_step (ClickSubmit d) a) \<noteq> Crashed FkViolation pg"
  using main_run_submit_not_fk [of a d pg]
  by (auto simp: app_step_def split: prod.split outcome.split)

section \<open>Registering and logging in on a ready server\<close>

text \<open>In a logged-out session on a server with its schema, a registration click adds the
  row and nothing else; a login click whose credentials match exactly one row puts that
  row's id into the session, and the rerun it asks for keeps it there.\<close>

lemma main_run_NoAction_session:
  assumes "session a \<noteq> None"
  shows "session (fst (main_run NoAction a)) = session a"
proof -
  let ?P = "\<lambda>b :: app. session b = session a"
  have main: "?P (flow_app (blk_main NoAction b pg))" if b: "?P b" for b pg
  proof (cases "cur b")
    case (Some u)
    have "?P (flow_app (seq (blk_update u NoAction) (seq (blk_view u) (blk_submit u NoAction b (pg @ main_tabs)))))"
      using b by (intro seq_pres [where P = ?P]) (simp_all add: blk_sessions)
    with Some show ?thesis by (simp add: blk_main_def)
  qed (use b in \<open>simp add: blk_main_def\<close>)
  let ?fl = "run_flow NoAction a"
  have "?P (flow_app ?fl)"
  proof (intro seq_pres [where P = ?P])
    show "?P (flow_app (blk_init_db a))" by (simp add: blk_sessions)
  next
    fix b pg assume b: "?P b"
    then show "?P (flow_app (blk_session b pg))" "?P (flow_app (blk_logout NoAction b pg))"
      "?P (flow_app (blk_login NoAction b pg))" "?P (flow_app (blk_register NoAction b pg))"
      "?P (flow_app (blk_main NoAction b pg))"
      using assms by (simp_all add: main blk_session_def blk_logout_def blk_login_def blk_register_def)
  qed
  then show ?thesis by (simp add: main_run_flow)
qed

lemma app_step_register_fresh:
  assumes "schema_ready (srv a)" "cur a = None" "users_of (srv a) = Inr t" "auto_inc t \<le> INT_MAX"
    "fits 25 u" "fits 25 p"
  shows "fst (app_step (ClickRegister u p) a) = \<lparr>srv = put_users (new_user_row t u p) (srv a), session = Some None\<rparr>"
proof -
  have on: "online (srv a)" using assms(1) by (simp add: schema_ready_def)
  have reg: "register_user u p (srv a) = (Inr (True, []), put_users (new_user_row t u p) (srv a))"
    using register_user_ok [OF on assms(3,5,6,4)] .
  show ?thesis
    using assms(2) reg init_db_ready [OF assms(1)]
    by (cases a) (simp add: app_step_def main_run_def blk_init_db_def blk_session_def blk_login_def
                           blk_register_def blk_logout_def blk_main_def cur_def split: option.splits)
qed

lemma app_step_login_one:
  assumes "schema_ready (srv a)" "cur a = None" "users_of (srv a) = Inr t"
    "filter (user_matches (coll (srv a)) u p) (rows t) = [r]" "uid r \<noteq> 0"
  shows "fst (app_step (ClickLogin u p) a) = \<lparr>srv = srv a, session = Some (Some (uid r))\<rparr>"
proof -
  have on: "online (srv a)" using assms(1) by (simp add: schema_ready_def)
  have l: "login_user u p (srv a) = (Inr (Some (uid r)), srv a)"
    using login_user_result [OF on assms(3), of u p] assms(4) by simp
  let ?a' = "\<lparr>srv = srv a, session = Some (Some (uid r))\<rparr>"
  have m: "fst (main_run (ClickLogin u p) a) = ?a' \<and> is_rerun (snd (main_run (ClickLogin u p) a))"
    using assms(2,5) l init_db_ready [OF assms(1)]
    by (cases a) (simp add: main_run_def blk_init_db_def blk_session_def blk_login_def cur_def split: option.splits)
  have "session (fst (main_run NoAction ?a')) = session ?a'" by (rule main_run_NoAction_session) simp
  moreover have "srv (fst (main_run NoAction ?a')) = srv ?a'"
    using main_run_NoAction_srv [of ?a'] init_db_ready [OF assms(1)] by simp
  ultimately have "fst (main_run NoAction ?a') = ?a'" by simp
  with m show ?thesis
    by (cases "main_run (ClickLogin u p) a" rule: prod.exhaust) (auto simp: app_step_def elim: is_rerun.elims)
qed

section \<open>Boundary inputs of the page\<close>

text \<open>Claim C25: \<open>if user_id:\<close> (line 150) tests the truth value of the id, and \<open>0\<close> would be
  false; on a consistent database every id login returns is at least 1, so a successful
  login is never taken for a failed one.\<close>

theorem login_id_truthy:
  assumes "wf_server s" "login_user u p s = (Inr (Some i), s')"
  shows "truthy_id (Some i)"
proof -
  have "user_exists i s'" using assms(2) by (rule login_user_found)
  moreover have "users_of s' = users_of s" using login_user_frame(1) [of u p s] assms(2) by simp
  ultimately obtain t where "users_of s = Inr t" "i \<in> uid ` set (rows t)"
    by (auto simp: user_exists_def split: sum.splits)
  with assms(1) have "1 \<le> i" by (auto simp: wf_server_def users_wf_def)
  then show ?thesis by simp
qed

text \<open>Claim C27: a complaint text that is empty or only whitespace never reaches the database:
  in a logged-in session, pressing \<open>Submit\<close> with such a text leaves the complaints table
  exactly as it was (the page shows the warning of line 184 instead).\<close>

theorem blank_submit_stores_nothing:
  assumes "cur a = Some u" "list_all py_isspace d" "complaints_of (srv a) = Inr t"
  shows "complaints_of (srv (fst (app_step (ClickSubmit d) a))) = Inr t"
proof -
  let ?R = "\<lambda>s s'. \<forall>t. complaints_of s = Inr t \<longrightarrow> complaints_of s' = Inr t"
  have "?R (srv a) (srv (fst (app_step (ClickSubmit d) a)))"
  proof (rule app_step_session_mono [where R = ?R, OF _ _ _ _ _ assms(1)])
    fix s d' c res df
    show "?R s (snd (init_db s))" by (simp add: init_db_keeps_tables(2))
    show "ClickSubmit d = ClickSubmit d' \<Longrightarrow> py_strip d' \<noteq> [] \<Longrightarrow> ?R s (snd (submit_complaint u d' s))"
      using assms(2) by (simp add: py_strip_Nil_iff)
  qed auto
  with assms(3) show ?thesis by blast
qed

text \<open>Claim C32: when the server refuses the connection of lines 9--14 (it is down, it
  rejects the password of \<open>root\<close>, or it has no database \<open>Grievances\<close>, which no part
  of the program creates), \<open>init_db()\<close> (line 131) raises before anything is shown: every
  interaction ends in that connection error (2003, 1045 or 1049), with an empty page and the
  session and server unchanged.\<close>

theorem server_down_crashes: "\<not> online (srv a) \<Longrightarrow> app_step act a = (a, Crashed (conn_error (srv a)) [])"
  by (simp add: app_step_def main_run_def blk_init_db_def init_db_offline)

section \<open>The page after a submission\<close>

text \<open>For a logged-in session on a server with its schema, a run is the main area alone:
  \<open>init_db\<close> has nothing to do and the sidebar blocks do not fire (unless the click is
  \<open>Logout\<close>).\<close>

lemma main_run_logged_in:
  assumes "schema_ready (srv a)" "cur a = Some u" "act \<noteq> ClickLogout"
  shows "main_run act a = (case blk_main act a (page_head @ [([Sidebar], StButton ''Logout'')]) of Go a' pg \<Rightarrow> (a', Finished pg) | Stop a' out \<Rightarrow> (a', out))"
proof -
  have s: "session a = Some (Some u)" using assms(2) by (simp add: cur_def split: option.splits)
  have "seq (blk_logout act) (seq (blk_register act) (seq (blk_login act) (seq blk_session (blk_init_db a)))) =
          Go a (page_head @ [([Sidebar], StButton ''Logout'')])"
    using assms s init_db_ready [OF assms(1)]
    by (cases act) (simp_all add: blk_init_db_def blk_session_def blk_login_def blk_register_def blk_logout_def)
  then show ?thesis by (simp add: main_run_def)
qed

text \<open>A successful submission on a server with its schema, as one interaction: the
  complaint is inserted under the next key and the run finishes with the whole page,
  whose \<open>View Complaints\<close> tab already lists it.\<close>

lemma submit_interaction:
  assumes "schema_ready (srv a)" "cur a = Some u" "user_exists u (srv a)" "complaints_of (srv a) = Inr t"
    "py_strip d \<noteq> []" "fits 65535 d" "ts_ok (clock (srv a))" "auto_inc t \<le> INT_MAX"
  defines "L \<equiv> map listing_of (filter (\<lambda>r. cuser r = u) (rows t)) @
                 [(auto_inc t, d, ''Pending'', clock (srv a), ''Not Available'', None)]"
  shows "app_step (ClickSubmit d) a =
           (a\<lparr>srv := put_complaints (new_complaint_row t u d (clock (srv a))) (srv a)\<rparr>,
            Finished (page_head @ [([Sidebar], StButton ''Logout'')] @ main_tabs @ submit_form @
              [([Tab ''Submit Complaint''], StSuccess (''Complaint submitted successfully! Complaint ID: '' @ str_int (auto_inc t)))] @
              st_in [Tab ''View Complaints''] [StHeader ''Your Complaints'', StDataframe \<lparr>df_columns = complaint_columns, df_rows = L\<rparr>] @
              update_head @ update_form (map (CInt \<circ> fst) L)))"
proof -
  let ?s = "srv a" let ?s2 = "put_complaints (new_complaint_row t u d (clock ?s)) ?s"
  have on: "online ?s" using assms(1) by (simp add: schema_ready_def)
  have sub: "submit_complaint u d ?s = (Inr (auto_inc t), ?s2)"
    using submit_complaint_online [OF on] insert_complaint_ok [OF assms(4,6,7,8,3)] by simp
  have on2: "online ?s2" using on by simp
  have get: "get_user_complaints u ?s2 = (Inr \<lparr>df_columns = complaint_columns, df_rows = L\<rparr>, ?s2)"
    using get_user_complaints_online [OF on2]
    by (simp add: select_user_complaints_def filter_new_complaint_row L_def)
  show ?thesis
    using assms(2,5) sub get
    by (simp add: app_step_def main_run_logged_in [OF assms(1,2)] blk_main_def blk_submit_def blk_view_def
                  blk_update_def df_empty_def df_column_ID complaint_columns_def L_def)
qed

text \<open>Claim C26: the complaint id the success message of line 182 shows is the key the
  complaint was stored under: after a successful \<open>Submit\<close>, the \<open>Submit Complaint\<close> tab
  shows the message whose text after \<open>Complaint ID: \<close> reads back, as a decimal integer, as
  the id of a stored complaint of that user with that description, \<open>Pending\<close>.\<close>

theorem submit_message_names_stored_id:
  assumes "schema_ready (srv a)" "cur a = Some u" "user_exists u (srv a)" "complaints_of (srv a) = Inr t"
    "py_strip d \<noteq> []" "fits 65535 d" "ts_ok (clock (srv a))" "auto_inc t \<le> INT_MAX"
  shows "\<exists>m i t'. StSuccess (''Complaint submitted successfully! Complaint ID: '' @ m)
                     \<in> set (tab_content [Tab ''Submit Complaint''] (page (snd (app_step (ClickSubmit d) a)))) \<and>
                  parse_int m = Some i \<and>
                  complaints_of (srv (fst (app_step (ClickSubmit d) a))) = Inr t' \<and>
                  list_ex (\<lambda>r. cid r = i \<and> cuser r = u \<and> cdesc r = d \<and> cstatus r = ''Pending'') (rows t')"
proof -
  have "StSuccess (''Complaint submitted successfully! Complaint ID: '' @ str_int (auto_inc t))
          \<in> set (tab_content [Tab ''Submit Complaint''] (page (snd (app_step (ClickSubmit d) a))))"
    using submit_interaction [OF assms] by (simp add: submit_form_def)
  moreover have "complaints_of (srv (fst (app_step (ClickSubmit d) a))) = Inr (new_complaint_row t u d (clock (srv a)))"
    using submit_interaction [OF assms] by simp
  moreover have "list_ex (\<lambda>r. cid r = auto_inc t \<and> cuser r = u \<and> cdesc r = d \<and> cstatus r = ''Pending'')
                   (rows (new_complaint_row t u d (clock (srv a))))"
    by (simp add: new_complaint_row_def list_ex_iff)
  ultimately show ?thesis using str_int_roundtrip [of "auto_inc t"] by blast
qed

text \<open>Claim C34: the tabs run in source order, so the \<open>View Complaints\<close> tab of the very run
  that submitted a complaint already lists it: a successful submission finishes with the
  success message and the new id in the \<open>Submit Complaint\<close> tab, and a data frame in the
  \<open>View Complaints\<close> tab holding the user's earlier complaints followed by the new one,
  \<open>Pending\<close> with the defaults.\<close>

theorem submit_shows_in_same_page:
  assumes "schema_ready (srv a)" "cur a = Some u" "user_exists u (srv a)" "complaints_of (srv a) = Inr t"
    "py_strip d \<noteq> []" "fits 65535 d" "ts_ok (clock (srv a))" "auto_inc t \<le> INT_MAX"
  shows "(\<exists>pg. snd (app_step (ClickSubmit d) a) = Finished pg) \<and>
         tab_content [Tab ''Submit Complaint''] (page (snd (app_step (ClickSubmit d) a))) =
           [StHeader ''Submit a New Complaint'', StTextArea ''Describe your complaint'', StButton ''Submit'',
            StSuccess (''Complaint submitted successfully! Complaint ID: '' @ str_int (auto_inc t))] \<and>
         tab_content [Tab ''View Complaints''] (page (snd (app_step (ClickSubmit d) a))) =
           [StHeader ''Your Complaints'',
            StDataframe \<lparr>df_columns = complaint_columns,
                         df_rows = map listing_of (filter (\<lambda>r. cuser r = u) (rows t)) @
                                   [(auto_inc t, d, ''Pending'', clock (srv a), ''Not Available'', None)]\<rparr>]"
  using submit_interaction [OF assms]
  by (simp add: page_head_def main_tabs_def submit_form_def update_head_def update_form_def)

end
