(* ===== verification/System.thy ===== *)
theory System
  imports Interaction
begin

text \<open>
  The deployment around \<open>src/app.py\<close>: every browser session runs the script of
  \<open>App\<close> against the one shared MySQL server.  The system is a state machine, an
  inductive step relation with its reachable states, and an executable step function
  that agrees with it; its invariant, proved by rule induction over the reachable
  states, is what every interaction can rely on.
\<close>

section \<open>States and steps\<close>


text \<open>The deployed system: one MySQL server shared by any number of browser sessions,
  each with its own \<open>st.session_state\<close>.  A step is one whole interaction of one
  session (Streamlit serves the runs of one session one at a time; runs of different
  sessions are taken as interleaved whole), a new browser session, the server clock
  advancing, or the server going down or coming back.\<close>

record system =
  server_of :: server
  sessions :: "int option option list"

datatype event = User nat action | NewSession | Tick timestamp | ServerDown | ServerUp

text \<open>The application state one session's run sees.\<close>

definition session_app :: "system \<Rightarrow> nat \<Rightarrow> app" where
  "session_app sys i = \<lparr>srv = server_of sys, session = sessions sys ! i\<rparr>"

inductive sys_step :: "system \<Rightarrow> event \<Rightarrow> system \<Rightarrow> bool" where
  user: "i < length (sessions sys) \<Longrightarrow> fst (app_step act (session_app sys i)) = a' \<Longrightarrow>
           sys_step sys (User i act) \<lparr>server_of = srv a', sessions = (sessions sys)[i := session a']\<rparr>"
| new_session: "sys_step sys NewSession (sys\<lparr>sessions := sessions sys @ [None]\<rparr>)"
| tick: "clock (server_of sys) \<le> t \<Longrightarrow> sys_step sys (Tick t) (sys\<lparr>server_of := (server_of sys)\<lparr>clock := t\<rparr>\<rparr>)"
| down: "sys_step sys ServerDown (sys\<lparr>server_of := (server_of sys)\<lparr>up := False\<rparr>\<rparr>)"
| up: "sys_step sys ServerUp (sys\<lparr>server_of := (server_of sys)\<lparr>up := True\<rparr>\<rparr>)"

text \<open>The same steps as a function: \<open>None\<close> where no step exists.\<close>

fun sys_exec :: "system \<Rightarrow> event \<Rightarrow> system option" where
  "sys_exec sys (User i act) =
     (if i < length (sessions sys)
      then (let a' = fst (app_step act (session_app sys i))
            in Some \<lparr>server_of = srv a', sessions = (sessions sys)[i := session a']\<rparr>)
      else None)"
| "sys_exec sys NewSession = Some (sys\<lparr>sessions := sessions sys @ [None]\<rparr>)"
| "sys_exec sys (Tick t) =
     (if clock (server_of sys) \<le> t then Some (sys\<lparr>server_of := (server_of sys)\<lparr>clock := t\<rparr>\<rparr>) else None)"
| "sys_exec sys ServerDown = Some (sys\<lparr>server_of := (server_of sys)\<lparr>up := False\<rparr>\<rparr>)"
| "sys_exec sys ServerUp = Some (sys\<lparr>server_of := (server_of sys)\<lparr>up := True\<rparr>\<rparr>)"

text \<open>A freshly installed server: up, with the account the program logs in with and
  the empty database \<open>Grievances\<close> created by \<open>CREATE DATABASE Grievances\<close> (stored in
  lower case when names are folded); and the states reachable from one.\<close>

definition empty_server :: "bool \<Rightarrow> collation \<Rightarrow> timestamp \<Rightarrow> server" where
  "empty_server lcn c clk = \<lparr>catalog = Map.empty, lower_case_names = lcn, coll = c,
                              clock = clk, up = True, accounts = [(conn_user, conn_password)],
                              databases = [if lcn then lower conn_database else conn_database], conns = 0\<rparr>"

inductive reachable :: "system \<Rightarrow> bool" where
  start: "reachable \<lparr>server_of = empty_server lcn c clk, sessions = []\<rparr>"
| step: "reachable sys \<Longrightarrow> sys_step sys e sys' \<Longrightarrow> reachable sys'"


text \<open>The invariant of the system: the data is well-formed and every logged-in session
  belongs to an existing user.\<close>

definition session_ok :: "server \<Rightarrow> int option option \<Rightarrow> bool" where
  "session_ok s so = (case so of Some (Some u) \<Rightarrow> user_exists u s | _ \<Rightarrow> True)"

definition sys_inv :: "system \<Rightarrow> bool" where
  "sys_inv sys \<longleftrightarrow> wf_server (server_of sys) \<and> list_all (session_ok (server_of sys)) (sessions sys)"

fun run_events :: "system \<Rightarrow> event list \<Rightarrow> system option" where
  "run_events sys [] = Some sys"
| "run_events sys (e # es) = (case sys_exec sys e of None \<Rightarrow> None | Some sys' \<Rightarrow> run_events sys' es)"

text \<open>Streamlit serves the sessions from concurrent threads, so the data-access calls of
  different runs interleave.  Each call opens its own connection and runs one statement
  (committed, or rolled back by the exception), so the server sees them one at a time:
  \<open>db_call\<close> is one call, by any session, with any arguments.\<close>

inductive db_call :: "server \<Rightarrow> server \<Rightarrow> bool" where
  init: "db_call s (snd (init_db s))"
| register: "db_call s (snd (register_user u p s))"
| login: "db_call s (snd (login_user u p s))"
| submit: "db_call s (snd (submit_complaint u d s))"
| listing: "db_call s (snd (get_user_complaints u s))"
| update: "db_call s (snd (update_complaint_status c res s))"

section \<open>The invariant of reachable states\<close>

inductive_cases sys_stepE: "sys_step sys e sys'"
inductive_simps sys_step_simps: "sys_step sys e sys'"

lemma sys_step_exec_iff: "sys_exec sys e = Some sys' \<Longrightarrow> sys_step sys e sys'"
  by (cases e) (auto simp: sys_step_simps Let_def split: if_splits)

lemma row_state_ok_later: "row_state_ok clk r \<Longrightarrow> clk \<le> clk' \<Longrightarrow> row_state_ok clk' r"
  by (auto simp: row_state_ok_def split: option.splits if_splits)

lemma wf_server_tick: "wf_server s \<Longrightarrow> clock s \<le> t \<Longrightarrow> wf_server (s\<lparr>clock := t\<rparr>)"
  by (auto simp: wf_server_def complaints_wf_def intro: row_state_ok_later split: sum.splits)

lemma sys_inv_session_app: "sys_inv sys \<Longrightarrow> i < length (sessions sys) \<Longrightarrow> app_inv (session_app sys i)"
  by (auto simp: sys_inv_def app_inv_def session_app_def cur_def list_all_length session_ok_def
           split: option.splits)

lemma sys_step_inv: "sys_step sys e sys' \<Longrightarrow> sys_inv sys \<Longrightarrow> sys_inv sys'"
proof (induction rule: sys_step.induct)
  case (user i sys act a')
  let ?a = "session_app sys i"
  have "app_inv ?a" using user by (simp add: sys_inv_session_app)
  then have inv': "app_inv a'" using app_step_inv [of ?a act] user by simp
  have others: "\<And>so. session_ok (server_of sys) so \<Longrightarrow> session_ok (srv a') so"
    using app_step_keeps_user [of _ ?a act] user by (auto simp: session_ok_def session_app_def split: option.splits)
  have mine: "session_ok (srv a') (session a')"
    using inv' by (auto simp: app_inv_def cur_def session_ok_def split: option.splits)
  show ?case
    using user inv' others mine
    by (auto simp: sys_inv_def app_inv_def list_all_length nth_list_update)
next
  case (tick sys t)
  then show ?case
    by (auto simp: sys_inv_def wf_server_tick session_ok_def user_exists_def list_all_iff split: option.splits)
qed (auto simp: sys_inv_def session_ok_def user_exists_def list_all_iff split: option.splits)

text \<open>The executable step function and the step relation agree: a step exists
  exactly where the function returns one, and it is the one it returns.\<close>

lemma sys_step_iff_exec: "sys_step sys e sys' \<longleftrightarrow> sys_exec sys e = Some sys'"
  by (cases e) (auto simp: sys_step_simps Let_def)

lemma reachable_inv: "reachable sys \<Longrightarrow> sys_inv sys"
proof (induction rule: reachable.induct)
  case (start lcn c clk)
  show ?case by (simp add: sys_inv_def wf_server_def empty_server_def users_of_def complaints_of_def)
next
  case (step sys e sys')
  then show ?case by (blast intro: sys_step_inv)
qed

lemma run_events_reachable: "reachable sys \<Longrightarrow> run_events sys es = Some sys' \<Longrightarrow> reachable sys'"
proof (induction es arbitrary: sys)
  case Nil
  then show ?case by simp
next
  case (Cons e es)
  then obtain sys1 where "sys_exec sys e = Some sys1" "run_events sys1 es = Some sys'"
    by (auto split: option.splits)
  with Cons show ?case
    using reachable.step sys_step_exec_iff by blast
qed

section \<open>History and ownership across the deployment\<close>

lemma sys_step_history: "sys_step sys e sys' \<Longrightarrow> history_kept (server_of sys) (server_of sys')"
proof (induction rule: sys_step.induct)
  case (user i sys act a')
  then show ?case using app_step_history [of "session_app sys i" act] by (simp add: session_app_def)
qed (simp_all add: history_kept_same)

lemma run_events_history: "run_events sys es = Some sys' \<Longrightarrow> history_kept (server_of sys) (server_of sys')"
proof (induction es arbitrary: sys)
  case (Cons e es)
  then obtain sys1 where "sys_exec sys e = Some sys1" "run_events sys1 es = Some sys'"
    by (auto split: option.splits)
  with Cons show ?case
    using sys_step_exec_iff sys_step_history history_kept_trans by blast
qed simp

text \<open>Claim C23: the lifecycle of a complaint (section 3 of the specification): over any
  sequence of events of the deployment no complaint is deleted, its id, owner, description
  and creation time never change, and a \<open>Resolved\<close> complaint never becomes \<open>Pending\<close> again.\<close>

theorem complaint_lifecycle:
  assumes "run_events sys es = Some sys'" "complaints_of (server_of sys) = Inr t" "r \<in> set (rows t)"
  shows "\<exists>t'. complaints_of (server_of sys') = Inr t' \<and>
           (\<exists>r' \<in> set (rows t'). cid r' = cid r \<and> cuser r' = cuser r \<and> cdesc r' = cdesc r \<and>
              ccreated r' = ccreated r \<and> (cstatus r = ''Resolved'' \<longrightarrow> cstatus r' = ''Resolved''))"
proof -
  have h: "history_kept (server_of sys) (server_of sys')" using assms(1) by (rule run_events_history)
  then obtain t' where t': "complaints_of (server_of sys') = Inr t'"
    using assms(2) by (auto simp: history_kept_def split: sum.splits)
  with h assms(2,3) show ?thesis by (auto simp: history_kept_tables row_evolves_def)
qed

text \<open>Claim C24: \<open>update_complaint_status\<close> checks no ownership, but the page only offers
  the ids of the user's own listing: in a reachable state, any interaction of a session
  logged in as \<open>u\<close> leaves the complaints of every other user exactly as they were.\<close>

theorem ui_changes_only_own_complaints:
  assumes "reachable sys" "i < length (sessions sys)" "sessions sys ! i = Some (Some u)"
    "complaints_of (server_of sys) = Inr t"
  shows "\<exists>t'. complaints_of (srv (fst (app_step act (session_app sys i)))) = Inr t' \<and>
           filter (\<lambda>r. cuser r \<noteq> u) (rows t') = filter (\<lambda>r. cuser r \<noteq> u) (rows t)"
proof -
  have inv: "app_inv (session_app sys i)" using reachable_inv [OF assms(1)] assms(2) by (rule sys_inv_session_app)
  have "cur (session_app sys i) = Some u" using assms(3) by (simp add: session_app_def cur_def)
  with inv have "others_kept u (srv (session_app sys i)) (srv (fst (app_step act (session_app sys i))))"
    by (rule app_step_others_kept)
  with assms(4) show ?thesis by (auto simp: others_kept_def session_app_def split: sum.splits)
qed

section \<open>Column types and bounds of reachable states\<close>

text \<open>Claim C28: the \<open>INT AUTO_INCREMENT\<close> keys bound the tables: in every reachable state
  neither table holds more than 2147483647 rows.\<close>

theorem reachable_table_sizes:
  assumes "reachable sys"
  shows "(case users_of (server_of sys) of Inr t \<Rightarrow> length (rows t) \<le> 2147483647 | Inl _ \<Rightarrow> True) \<and>
         (case complaints_of (server_of sys) of Inr c \<Rightarrow> length (rows c) \<le> 2147483647 | Inl _ \<Rightarrow> True)"
  using reachable_inv [OF assms] users_wf_length complaints_wf_length
  by (fastforce simp: sys_inv_def wf_server_def INT_MAX_def split: sum.splits)

section \<open>A new user can always get in\<close>

text \<open>Claim C30: from every reachable state where the schema is in place and the users
  table has a key left, a new browser session with credentials that fit their columns and
  match no row can register and then log in: the three events run, the state they reach
  is reachable, and the new session holds the id of the new row.\<close>

theorem fresh_user_can_log_in:
  assumes "reachable sys" "schema_ready (server_of sys)" "users_of (server_of sys) = Inr t"
    "auto_inc t \<le> INT_MAX" "fits 25 u" "fits 25 p" "select_user_ids u p (server_of sys) = Inr []"
  shows "\<exists>sys'. run_events sys [NewSession, User (length (sessions sys)) (ClickRegister u p),
                                User (length (sessions sys)) (ClickLogin u p)] = Some sys' \<and>
                reachable sys' \<and> sessions sys' ! length (sessions sys) = Some (Some (auto_inc t))"
proof -
  let ?n = "length (sessions sys)" and ?s = "server_of sys"
  let ?s1 = "put_users (new_user_row t u p) ?s"
  have wf: "wf_server ?s" using reachable_inv [OF assms(1)] by (simp add: sys_inv_def)
  have pos: "1 \<le> auto_inc t" using wf assms(3) by (simp add: wf_server_def users_wf_def)
  let ?a0 = "\<lparr>srv = ?s, session = None\<rparr>"
  have reg: "fst (app_step (ClickRegister u p) ?a0) = \<lparr>srv = ?s1, session = Some None\<rparr>"
    using app_step_register_fresh [of ?a0 t u p] assms(2-6) by (simp add: cur_def)
  have none: "filter (user_matches (coll ?s) u p) (rows t) = []"
    using assms(3,7) by (simp add: select_user_ids_def)
  have one: "filter (user_matches (coll ?s1) u p) (rows (new_user_row t u p)) = [\<lparr>uid = auto_inc t, uname = u, upass = p\<rparr>]"
    using none by (simp add: filter_new_user_row str_eq_refl)
  let ?a1 = "\<lparr>srv = ?s1, session = Some None\<rparr>"
  have log: "fst (app_step (ClickLogin u p) ?a1) = \<lparr>srv = ?s1, session = Some (Some (auto_inc t))\<rparr>"
    using app_step_login_one [of ?a1 "new_user_row t u p" u p] one pos assms(2)
    by (simp add: cur_def schema_ready_put_users)
  define sys' where "sys' = \<lparr>server_of = ?s1, sessions = (sessions sys @ [None])[?n := Some (Some (auto_inc t))]\<rparr>"
  have run: "run_events sys [NewSession, User ?n (ClickRegister u p), User ?n (ClickLogin u p)] = Some sys'"
    using reg log by (simp add: session_app_def sys'_def)
  moreover have "reachable sys'" using run_events_reachable [OF assms(1) run] .
  moreover have "sessions sys' ! ?n = Some (Some (auto_inc t))" by (simp add: sys'_def)
  ultimately show ?thesis by blast
qed

section \<open>Interleaved data-access calls\<close>

lemma db_call_wf: "db_call s s' \<Longrightarrow> wf_server s \<Longrightarrow> wf_server s'"
  by (induction rule: db_call.induct)
     (simp_all add: init_db_wf register_user_wf submit_complaint_wf update_complaint_status_wf
                    get_user_complaints_state)

lemma db_call_history: "db_call s s' \<Longrightarrow> history_kept s s'"
  by (induction rule: db_call.induct)
     (simp_all add: init_db_history history_kept_same submit_complaint_history
                    update_complaint_status_history get_user_complaints_state)

text \<open>Claim C31: the schema invariant and the history of the complaints do not depend on
  how the calls of concurrent sessions interleave: after any sequence of data-access
  calls, by any sessions and with any arguments, a consistent database is still consistent
  and every complaint is kept with its owner, text and creation time, \<open>Resolved\<close> ones
  still \<open>Resolved\<close>.\<close>

theorem interleaved_calls_keep_invariant:
  assumes "db_call\<^sup>*\<^sup>* s s'" "wf_server s"
  shows "wf_server s' \<and> history_kept s s'"
  using assms
proof (induction rule: rtranclp_induct)
  case base
  then show ?case by simp
next
  case (step s1 s2)
  then show ?case using db_call_wf db_call_history history_kept_trans by blast
qed

end
