(* ===== verification/Refinement.thy ===== *)
theory Refinement
  imports Complaints
begin

text \<open>
  What the complaint operations promise, stated without tables, keys or columns: a
  complaint store maps complaint ids to the complaint's owner, description, creation
  time and state, and the state is either pending (status \<open>Pending\<close>, the resolution
  sentinel \<open>Not Available\<close>, no resolution time) or resolved (status \<open>Resolved\<close>, a
  resolution text and time).  Every column the code writes is read by the abstraction: a
  row whose columns fit neither state is mapped to a state that records them as they are.  An abstraction function maps a well-formed \<open>COMPLAINTS\<close> table to such a
  store, and the lemmas below show that \<open>submit_complaint\<close> and
  \<open>update_complaint_status\<close> implement the abstract operations on it; likewise the
  \<open>USERS\<close> table and \<open>register_user\<close>.
\<close>

section \<open>The abstract store\<close>

datatype astate = APending | AResolved string timestamp | AUnrecognised string string "timestamp option"

record acomplaint =
  a_owner :: int
  a_desc :: string
  a_created :: timestamp
  a_state :: astate

type_synonym astore = "int \<rightharpoonup> acomplaint"

definition a_submit :: "int \<Rightarrow> int \<Rightarrow> string \<Rightarrow> timestamp \<Rightarrow> astore \<Rightarrow> astore" where
  "a_submit k u d now st = st(k \<mapsto> \<lparr>a_owner = u, a_desc = d, a_created = now, a_state = APending\<rparr>)"

definition a_resolve :: "int \<Rightarrow> string \<Rightarrow> timestamp \<Rightarrow> astore \<Rightarrow> astore" where
  "a_resolve k res now st =
     (case st k of None \<Rightarrow> st | Some x \<Rightarrow> st(k \<mapsto> x\<lparr>a_state := AResolved res now\<rparr>))"

text \<open>The users of section 3 of the specification: an id, assigned once, with a username
  and a password; registration adds one under a fresh id.\<close>

type_synonym auser_store = "int \<rightharpoonup> string \<times> string"

definition a_register :: "int \<Rightarrow> string \<Rightarrow> string \<Rightarrow> auser_store \<Rightarrow> auser_store" where
  "a_register k u p st = st(k \<mapsto> (u, p))"

section \<open>Abstraction\<close>

text \<open>The state of a row, read from its status, resolution and resolution time.\<close>

definition abs_state :: "complaint_row \<Rightarrow> astate" where
  "abs_state r =
     (if cstatus r = ''Pending'' \<and> cresolution r = ''Not Available'' \<and> cresolved r = None then APending
      else case cresolved r of
        Some t \<Rightarrow> if cstatus r = ''Resolved'' then AResolved (cresolution r) t
                  else AUnrecognised (cstatus r) (cresolution r) (cresolved r)
      | None \<Rightarrow> AUnrecognised (cstatus r) (cresolution r) (cresolved r))"

definition abs_row :: "complaint_row \<Rightarrow> acomplaint" where
  "abs_row r = \<lparr>a_owner = cuser r, a_desc = cdesc r, a_created = ccreated r, a_state = abs_state r\<rparr>"

definition abs_store :: "complaint_row tbl \<Rightarrow> astore" where
  "abs_store t = map_of (map (\<lambda>r. (cid r, abs_row r)) (rows t))"

definition abs_users :: "user_row tbl \<Rightarrow> auser_store" where
  "abs_users t = map_of (map (\<lambda>r. (uid r, (uname r, upass r))) (rows t))"

section \<open>Refinement lemmas\<close>

lemma abs_store_new_row:
  assumes "auto_inc t \<notin> cid ` set (rows t)"
  shows "abs_store (new_complaint_row t u d now) = a_submit (auto_inc t) u d now (abs_store t)"
proof -
  let ?new = "\<lparr>cid = auto_inc t, cuser = u, cdesc = d, cstatus = ''Pending'', ccreated = now,
               cresolution = ''Not Available'', cresolved = None\<rparr>"
  have fresh: "auto_inc t \<notin> fst ` set (map (\<lambda>r. (cid r, abs_row r)) (rows t))"
    using assms by (auto simp: image_iff)
  have "abs_store (new_complaint_row t u d now) =
          map_of (map (\<lambda>r. (cid r, abs_row r)) (rows t) @ [(auto_inc t, abs_row ?new)])"
    by (simp add: abs_store_def new_complaint_row_def del: map_of_append)
  also have "\<dots> = (abs_store t)(auto_inc t \<mapsto> abs_row ?new)"
    using fresh by (simp add: map_of_snoc_fresh abs_store_def del: map_of_append)
  finally show ?thesis by (simp add: a_submit_def abs_row_def abs_state_def)
qed

lemma map_of_upd_where:
  assumes "distinct (map key rs)" "\<And>r. key (f r) = key r"
  shows "map_of (map (\<lambda>r. (key r, g r)) (upd_where key k f rs)) =
    (case map_of (map (\<lambda>r. (key r, r)) rs) k of
       None \<Rightarrow> map_of (map (\<lambda>r. (key r, g r)) rs)
     | Some r \<Rightarrow> (map_of (map (\<lambda>r. (key r, g r)) rs))(k \<mapsto> g (f r)))"
  using assms
  by (induction rs) (auto simp: upd_where_def fun_eq_iff split: option.splits)

lemma map_of_map_pair:
  "map_of (map (\<lambda>r. (key r, g r)) rs) k = map_option g (map_of (map (\<lambda>r. (key r, r)) rs) k)"
  by (induction rs) auto

lemma abs_row_resolve: "abs_row (resolve_row res now r) = (abs_row r)\<lparr>a_state := AResolved res now\<rparr>"
  by (simp add: abs_row_def abs_state_def resolve_row_def)

lemma abs_store_resolve:
  assumes "distinct (map cid (rows t))"
  shows "abs_store (t\<lparr>rows := upd_where cid c (resolve_row res now) (rows t)\<rparr>) = a_resolve c res now (abs_store t)"
proof -
  have keys: "\<And>r. cid (resolve_row res now r) = cid r" by (simp add: resolve_row_def)
  show ?thesis
    using map_of_upd_where [OF assms keys, of abs_row c] map_of_map_pair [of cid abs_row "rows t" c]
    by (auto simp: abs_store_def a_resolve_def abs_row_resolve split: option.splits)
qed

lemma update_complaint_status_TrueE:
  assumes "update_complaint_status c res s = (Inr True, s')"
  obtains "online s" "update_resolution c res s = Inr s'"
proof (cases "online s")
  case True
  with assms that show ?thesis by (auto simp: update_complaint_status_online split: sum.splits)
next
  case False
  with assms show ?thesis by (simp add: update_complaint_status_def connect_def)
qed

text \<open>Claim C5: submitting a complaint refines the abstract store: on a consistent database,
  a successful \<open>submit_complaint\<close> changes the complaints table exactly as adding a fresh
  \<open>Pending\<close> complaint, filed now, under the returned id changes the abstract store.\<close>

theorem submit_refines:
  assumes "wf_server s" "complaints_of s = Inr t" "submit_complaint u d s = (Inr i, s')"
  shows "\<exists>t'. complaints_of s' = Inr t' \<and> abs_store t' = a_submit i u d (clock s) (abs_store t)"
proof -
  from assms(3) obtain t0 where t0: "complaints_of s = Inr t0" "i = auto_inc t0"
    and s': "s' = put_complaints (new_complaint_row t0 u d (clock s)) s"
    by (rule submit_complaint_InrE)
  with assms(2) have "t0 = t" by simp
  moreover have "auto_inc t \<notin> cid ` set (rows t)" using wf_fresh_key [OF assms(1,2)] by simp
  ultimately show ?thesis using t0 s' by (simp add: abs_store_new_row)
qed

text \<open>Claim C6: resolving refines the abstract store: on a consistent database, a successful
  \<open>update_complaint_status\<close> changes the complaints table exactly as marking the complaint
  with that id resolved, with the given resolution and the current time, changes the
  abstract store (and changes nothing if no complaint has that id).\<close>

theorem update_refines:
  assumes "wf_server s" "complaints_of s = Inr t" "update_complaint_status c res s = (Inr True, s')"
  shows "\<exists>t'. complaints_of s' = Inr t' \<and> abs_store t' = a_resolve c res (clock s) (abs_store t)"
proof -
  from assms(3) have upd: "update_resolution c res s = Inr s'" by (rule update_complaint_status_TrueE)
  have dist: "distinct (map cid (rows t))" using wf_fresh_key [OF assms(1,2)] by simp
  show ?thesis
  proof (cases "c \<in> set (map cid (rows t))")
    case True
    with upd assms(2) have "s' = put_complaints (t\<lparr>rows := upd_where cid c (resolve_row res (clock s)) (rows t)\<rparr>) s"
      by (simp add: update_resolution_def split: if_splits)
    then show ?thesis using abs_store_resolve [OF dist] by simp
  next
    case False
    with upd assms(2) have "s' = s" by (simp add: update_resolution_def)
    moreover have "abs_store t c = None"
      using False by (simp add: abs_store_def map_of_eq_None_iff image_iff)
    ultimately show ?thesis using assms(2) by (simp add: a_resolve_def)
  qed
qed

lemma abs_users_new_row:
  assumes "auto_inc t \<notin> uid ` set (rows t)"
  shows "abs_users (new_user_row t u p) = a_register (auto_inc t) u p (abs_users t)"
proof -
  have fresh: "auto_inc t \<notin> fst ` set (map (\<lambda>r. (uid r, (uname r, upass r))) (rows t))"
    using assms by (auto simp: image_iff)
  then show ?thesis
    by (simp add: abs_users_def new_user_row_def a_register_def map_of_snoc_fresh del: map_of_append)
qed

lemma users_wf_fresh: "users_wf t \<Longrightarrow> auto_inc t \<notin> uid ` set (rows t)"
  by (auto simp: users_wf_def)

text \<open>Claim C33: registration refines the abstract user store: on a consistent database,
  a registration that returns \<open>True\<close> adds the credentials under an id no user had (the
  table's next key), and one that returns \<open>False\<close> leaves the users unchanged.\<close>

theorem register_refines:
  assumes "wf_server s" "users_of s = Inr t" "register_user u p s = (Inr (ok, ms), s')"
  shows "\<exists>t'. users_of s' = Inr t' \<and> auto_inc t \<notin> dom (abs_users t) \<and>
           abs_users t' = (if ok then a_register (auto_inc t) u p (abs_users t) else abs_users t)"
proof -
  have uw: "users_wf t" using assms(1,2) by (simp add: wf_server_def)
  have fresh: "auto_inc t \<notin> uid ` set (rows t)" using users_wf_fresh [OF uw] .
  then have nd: "auto_inc t \<notin> dom (abs_users t)"
    by (auto simp: abs_users_def dom_map_of_conv_image_fst image_iff)
  have on: "online s" using assms(3) by (auto simp: register_user_def connect_def split: if_splits)
  show ?thesis
  proof (cases ok)
    case True
    with assms(3) have "register_user u p s = (Inr (True, ms), s')" by simp
    then obtain t0 where "users_of s = Inr t0" "s' = put_users (new_user_row t0 u p) s"
      by (rule register_user_TrueE) auto
    with assms(2) fresh nd show ?thesis using True by (simp add: abs_users_new_row)
  next
    case False
    with assms(3) on have "s' = s"
      by (auto simp: register_user_online split: sum.splits)
    with assms(2) nd False show ?thesis by simp
  qed
qed

end
