(* ===== verification/Page.thy ===== *)
theory Page
  imports Interaction
begin

text \<open>
  What the rendered page of \<open>main\<close> shows of the database.  The complaint data reaches the
  page in two places only: the data frame of the \<open>View Complaints\<close> tab (line 190) and the
  options of the select box of the \<open>Update Complaint\<close> tab (line 198), both read from
  \<open>get_user_complaints\<close> of the session's user.  This theory shows what the select box
  offers, and that every complaint a page shows belongs to the user the session is logged in
  as when the page is shown.
\<close>

section \<open>The complaint ids a page shows\<close>

fun shown_ids :: "ui_elem \<Rightarrow> int list" where
  "shown_ids (StDataframe df) = map fst (df_rows df)"
| "shown_ids (StSelectbox _ opts) = concat (map (\<lambda>c. case c of CInt i \<Rightarrow> [i] | _ \<Rightarrow> []) opts)"
| "shown_ids _ = []"

definition page_ids :: "placed list \<Rightarrow> int list" where
  "page_ids pg = concat (map (shown_ids \<circ> snd) pg)"

text \<open>Complaint \<open>i\<close> is a row of user \<open>u\<close> on server \<open>s\<close>.\<close>

definition owns :: "int \<Rightarrow> server \<Rightarrow> int \<Rightarrow> bool" where
  "owns u s i \<longleftrightarrow>
     (case complaints_of s of Inl _ \<Rightarrow> False | Inr t \<Rightarrow> list_ex (\<lambda>r. cid r = i \<and> cuser r = u) (rows t))"

fun flow_page :: "flow \<Rightarrow> placed list" where
  "flow_page (Go _ pg) = pg"
| "flow_page (Stop _ out) = page out"

text \<open>A page all of whose complaints belong to the user \<open>a\<close> is logged in as.\<close>

definition own_page :: "app \<Rightarrow> placed list \<Rightarrow> bool" where
  "own_page a pg \<longleftrightarrow> list_all (\<lambda>i. \<exists>u. cur a = Some u \<and> owns u (srv a) i) (page_ids pg)"

section \<open>Lemmas\<close>

lemma page_ids_simps [simp]:
  "page_ids [] = []" "page_ids (pg @ pg') = page_ids pg @ page_ids pg'"
  "page_ids ((q, e) # pg) = shown_ids e @ page_ids pg"
  "page_ids (st_in q es) = concat (map shown_ids es)"
  by (simp_all add: page_ids_def st_in_def comp_def)

lemma forms_no_ids [simp]:
  "page_ids page_head = []" "page_ids login_form = []" "page_ids register_form = []"
  "page_ids main_tabs = []" "page_ids submit_form = []" "page_ids update_head = []"
  by (simp_all add: page_head_def login_form_def register_form_def main_tabs_def submit_form_def
                    update_head_def)

lemma update_form_ids: "page_ids (update_form (map (CInt \<circ> fst) rs)) = map fst rs"
  by (induction rs) (simp_all add: update_form_def)

lemma owns_history: "history_kept s s' \<Longrightarrow> owns u s i \<Longrightarrow> owns u s' i"
  by (auto simp: owns_def history_kept_def list_all_iff list_ex_iff row_evolves_def split: sum.splits)

lemma get_user_complaints_owns:
  assumes "fst (get_user_complaints u s) = Inr df"
  shows "list_all (owns u s) (map fst (df_rows df))"
proof -
  obtain t where "complaints_of s = Inr t" "df_rows df = map listing_of (filter (\<lambda>r. cuser r = u) (rows t))"
    using get_user_complaints_frame [OF assms] by (auto simp: select_user_complaints_def split: sum.splits)
  then show ?thesis by (auto simp: owns_def list_all_iff list_ex_iff listing_of_def)
qed

lemma own_page_step:
  assumes "own_page a pg" "history_kept (srv a) (srv a')" "cur a' = cur a"
    "\<And>i. i \<in> set (page_ids extra) \<Longrightarrow> \<exists>u. cur a = Some u \<and> owns u (srv a') i"
  shows "own_page a' (pg @ extra)"
  using assms unfolding own_page_def list_all_iff by (metis UnE owns_history page_ids_simps(2) set_append)

lemma own_page_Nil: "page_ids pg = [] \<Longrightarrow> own_page a pg"
  by (simp add: own_page_def)

lemma own_page_noids:
  "own_page a pg \<Longrightarrow> history_kept (srv a) (srv a') \<Longrightarrow> cur a' = cur a \<Longrightarrow> page_ids extra = [] \<Longrightarrow>
   own_page a' (pg @ extra)"
  by (rule own_page_step) simp_all

lemma own_page_append [simp]: "page_ids extra = [] \<Longrightarrow> own_page a (pg @ extra) = own_page a pg"
  by (simp add: own_page_def)

section \<open>The sidebar shows no complaint\<close>

lemma register_user_no_ids:
  "register_user u p s = (Inr (ok, msgs), s') \<Longrightarrow> concat (map shown_ids msgs) = []"
  by (auto dest!: register_user_msgs)

lemma pre_main_no_ids:
  "page_ids (flow_page (blk_init_db a)) = []"
  "page_ids pg = [] \<Longrightarrow> page_ids (flow_page (blk_session a pg)) = []"
  "page_ids pg = [] \<Longrightarrow> page_ids (flow_page (blk_login act a pg)) = []"
  "page_ids pg = [] \<Longrightarrow> page_ids (flow_page (blk_register act a pg)) = []"
  "page_ids pg = [] \<Longrightarrow> page_ids (flow_page (blk_logout act a pg)) = []"
  by (auto simp: blk_init_db_def blk_session_def blk_login_def blk_register_def blk_logout_def
           dest: register_user_no_ids split: sum.split prod.split action.split)

section \<open>The tabs of the main area show the user's own complaints\<close>

lemma blk_submit_own:
  assumes "own_page a pg"
  shows "own_page (flow_app (blk_submit u act a pg)) (flow_page (blk_submit u act a pg))"
proof (cases act)
  case (ClickSubmit d)
  obtain r s where g: "submit_complaint u d (srv a) = (r, s)" by fastforce
  have h: "history_kept (srv a) s" using submit_complaint_history [of "srv a" u d] g by simp
  have "own_page (a\<lparr>srv := s\<rparr>) pg"
    using own_page_noids [OF assms, of "a\<lparr>srv := s\<rparr>" "[]"] h by simp
  then show ?thesis using ClickSubmit g assms by (auto simp: blk_submit_def split: sum.split)
qed (use assms in \<open>simp_all add: blk_submit_def\<close>)

lemma blk_view_own:
  assumes "own_page a pg" "cur a = Some u"
  shows "own_page (flow_app (blk_view u a pg)) (flow_page (blk_view u a pg))"
proof -
  obtain r s where g: "get_user_complaints u (srv a) = (r, s)" by fastforce
  have s: "s = srv a" using get_user_complaints_state [of u "srv a"] g by simp
  have "own_page a (pg @ [([Tab ''View Complaints''], StHeader ''Your Complaints''),
                          ([Tab ''View Complaints''], StDataframe df)])" if "r = Inr df" for df
  proof (rule own_page_step [OF assms(1) history_kept_refl refl])
    fix i assume "i \<in> set (page_ids [([Tab ''View Complaints''], StHeader ''Your Complaints''),
                                        ([Tab ''View Complaints''], StDataframe df)])"
    with get_user_complaints_owns [of u "srv a" df] g that assms(2)
    show "\<exists>u. cur a = Some u \<and> owns u (srv a) i" by (auto simp: list_all_iff)
  qed
  then show ?thesis using g s assms(1) by (auto simp: blk_view_def split: sum.split)
qed

lemma blk_update_own:
  assumes "own_page a pg" "cur a = Some u"
  shows "own_page (flow_app (blk_update u act a pg)) (flow_page (blk_update u act a pg))"
proof -
  obtain r s where g: "get_user_complaints u (srv a) = (r, s)" by fastforce
  have s: "s = srv a" using get_user_complaints_state [of u "srv a"] g by simp
  have ids: "df_column ''ID'' df = Inr (map (CInt \<circ> fst) (df_rows df))" if "r = Inr df" for df
    using get_user_complaints_ids [of u "srv a" df] g that by simp
  have form: "own_page a (pg @ update_head @ update_form (map (CInt \<circ> fst) (df_rows df)))" if r: "r = Inr df" for df
  proof (rule own_page_step [OF assms(1) history_kept_refl refl])
    fix i assume "i \<in> set (page_ids (update_head @ update_form (map (CInt \<circ> fst) (df_rows df))))"
    with get_user_complaints_owns [of u "srv a" df] g r assms(2)
    show "\<exists>u. cur a = Some u \<and> owns u (srv a) i" by (auto simp: list_all_iff update_form_ids)
  qed
  have upd: "own_page (a\<lparr>srv := s2\<rparr>) (pg @ update_head @ update_form (map (CInt \<circ> fst) (df_rows df)) @ extra)"
    if "r = Inr df" "history_kept (srv a) s2" "page_ids extra = []" for df s2 extra
    using own_page_noids [OF form [OF that(1)], of "a\<lparr>srv := s2\<rparr>" extra] that(2,3) by simp
  show ?thesis
  proof (cases "\<exists>df c res. r = Inr df \<and> act = ClickUpdate c res")
    case True
    then obtain df c res where r: "r = Inr df" and act: "act = ClickUpdate c res" by blast
    obtain x s2 where u: "update_complaint_status c res (srv a) = (x, s2)" by fastforce
    have h: "history_kept (srv a) s2" using update_complaint_status_history [of "srv a" c res] u by simp
    show ?thesis
      using g s r act u ids [OF r] form [OF r] upd [OF r h] upd [OF r h, where extra = "[]"] assms(1)
      by (auto simp: blk_update_def split: sum.split)
  next
    case False
    then show ?thesis
      using g s ids form assms(1) by (cases act) (auto simp: blk_update_def split: sum.split)
  qed
qed

lemma blk_main_own:
  assumes "page_ids pg = []"
  shows "own_page (flow_app (blk_main act a pg)) (flow_page (blk_main act a pg))"
proof (cases "cur a")
  case None
  then show ?thesis using assms by (simp add: blk_main_def own_page_Nil)
next
  case (Some u)
  let ?Q = "\<lambda>fl. own_page (flow_app fl) (flow_page fl) \<and> cur (flow_app fl) = Some u"
  have cur_keep: "cur b' = Some u" if "session b' = session b" "cur b = Some u" for b b' :: app
    using that by (simp add: cur_def)
  have "?Q (seq (blk_update u act) (seq (blk_view u) (blk_submit u act a (pg @ main_tabs))))"
  proof (intro seq_flow_pres [where P = ?Q])
    show "?Q (blk_submit u act a (pg @ main_tabs))"
      using blk_submit_own [of a "pg @ main_tabs" u act] assms Some blk_sessions(2) [of u act a "pg @ main_tabs"]
      by (simp add: own_page_Nil cur_keep)
  next
    fix b pg' assume "?Q (Go b pg')"
    then have b: "own_page b pg'" "cur b = Some u" by simp_all
    show "?Q (blk_view u b pg')"
      using blk_view_own [OF b] blk_sessions(3) [of u b pg'] b(2) by (simp add: cur_keep)
    show "?Q (blk_update u act b pg')"
      using blk_update_own [OF b] blk_sessions(4) [of u act b pg'] b(2) by (simp add: cur_keep)
  qed
  with Some show ?thesis by (simp add: blk_main_def)
qed

lemma main_run_own_page: "own_page (fst (main_run act a)) (page (snd (main_run act a)))"
proof -
  let ?pre = "seq (blk_logout act) (seq (blk_register act) (seq (blk_login act) (seq blk_session (blk_init_db a))))"
  have pre: "page_ids (flow_page ?pre) = []"
    by (intro seq_flow_pres [where P = "\<lambda>fl. page_ids (flow_page fl) = []"]) (simp_all add: pre_main_no_ids)
  have "own_page (flow_app (seq (blk_main act) ?pre)) (flow_page (seq (blk_main act) ?pre))"
    using pre by (cases ?pre) (simp_all add: blk_main_own own_page_Nil)
  then show ?thesis by (cases "seq (blk_main act) ?pre") (simp_all add: main_run_def)
qed

section \<open>The sidebar's tabs\<close>

text \<open>Every block appends to the page it is given; so the sidebar's tabs \<open>Login\<close> and
  \<open>Register\<close> (line 142), rendered before any block looks at the session, are on the page
  of every run that gets past \<open>init_db\<close>, for a logged-in user too (only their contents
  are guarded by \<open>user_id is None\<close>).\<close>

lemma blocks_keep_page:
  "e \<in> set pg \<Longrightarrow> e \<in> set (flow_page (blk_session a pg))"
  "e \<in> set pg \<Longrightarrow> e \<in> set (flow_page (blk_login act a pg))"
  "e \<in> set pg \<Longrightarrow> e \<in> set (flow_page (blk_register act a pg))"
  "e \<in> set pg \<Longrightarrow> e \<in> set (flow_page (blk_logout act a pg))"
  "e \<in> set pg \<Longrightarrow> e \<in> set (flow_page (blk_submit u act a pg))"
  "e \<in> set pg \<Longrightarrow> e \<in> set (flow_page (blk_view u a pg))"
  "e \<in> set pg \<Longrightarrow> e \<in> set (flow_page (blk_update u act a pg))"
  by (auto simp: blk_session_def blk_login_def blk_register_def blk_logout_def blk_submit_def blk_view_def
                 blk_update_def split: sum.split prod.split action.split)

lemma blk_main_keeps_page: "e \<in> set pg \<Longrightarrow> e \<in> set (flow_page (blk_main act a pg))"
proof (cases "cur a")
  case (Some u)
  assume "e \<in> set pg"
  then have "e \<in> set (flow_page (seq (blk_update u act) (seq (blk_view u) (blk_submit u act a (pg @ main_tabs)))))"
    by (intro seq_flow_pres [where P = "\<lambda>fl. e \<in> set (flow_page fl)"]) (simp_all add: blocks_keep_page)
  with Some show ?thesis by (simp add: blk_main_def)
qed (simp add: blk_main_def)

lemma login_tabs_always_rendered:
  assumes "fst (init_db (srv a)) = Inr ()"
  shows "([Sidebar], StTabs [''Login'', ''Register'']) \<in> set (page (snd (main_run act a)))"
proof -
  let ?e = "([Sidebar], StTabs [''Login'', ''Register''])"
  obtain s where "init_db (srv a) = (Inr (), s)" using assms by (cases "init_db (srv a)") simp
  then have "?e \<in> set (flow_page (seq blk_session (blk_init_db a)))"
    by (simp add: blk_init_db_def blk_session_def page_head_def)
  moreover have "?e \<in> set (flow_page fl) \<Longrightarrow>
      ?e \<in> set (flow_page (seq (blk_main act) (seq (blk_logout act) (seq (blk_register act) (seq (blk_login act) fl)))))"
    for fl by (intro seq_flow_pres [where P = "\<lambda>fl. ?e \<in> set (flow_page fl)"])
              (simp_all add: blocks_keep_page blk_main_keeps_page)
  ultimately have "?e \<in> set (flow_page (run_flow act a))" by blast
  then show ?thesis
    by (cases "run_flow act a") (simp_all add: main_run_def)
qed

section \<open>Properties of the page\<close>

text \<open>Claim C35: the select box of the \<open>Update Complaint\<close> tab (line 198) offers exactly the
  ids of the user's complaints, in the order of the listing: \<open>df['ID'].tolist()\<close> reads back
  the first of the labels of line 101 from the frame of line 103.  On a page load of a
  logged-in user who has complaints, the tab shows its header, the select box with those
  ids, the resolution text area and the button.\<close>

theorem update_box_offers_own_ids:
  assumes "schema_ready (srv a)" "cur a = Some u" "complaints_of (srv a) = Inr t"
    "filter (\<lambda>r. cuser r = u) (rows t) \<noteq> []"
  shows "tab_content [Tab ''Update Complaint''] (page (snd (app_step NoAction a))) =
           [StHeader ''Update Complaint Status'',
            StSelectbox ''Select Complaint ID'' (map (CInt \<circ> cid) (filter (\<lambda>r. cuser r = u) (rows t))),
            StTextArea ''Resolution Description'', StButton ''Update Status'']"
proof -
  let ?L = "map listing_of (filter (\<lambda>r. cuser r = u) (rows t))"
  let ?df = "\<lparr>df_columns = complaint_columns, df_rows = ?L\<rparr>"
  have on: "online (srv a)" using assms(1) by (simp add: schema_ready_def)
  have get: "get_user_complaints u (srv a) = (Inr ?df, srv a)"
    using get_user_complaints_online [OF on] assms(3) by (simp add: select_user_complaints_def)
  have m: "main_run NoAction a =
             (a, Finished (page_head @ [([Sidebar], StButton ''Logout'')] @ main_tabs @ submit_form @
                st_in [Tab ''View Complaints''] [StHeader ''Your Complaints'', StDataframe ?df] @
                update_head @ update_form (map (CInt \<circ> fst) ?L)))"
    using assms(2,4) get
    by (simp add: main_run_logged_in [OF assms(1,2)] blk_main_def blk_submit_def blk_view_def blk_update_def
                  df_empty_def df_column_ID complaint_columns_def)
  then show ?thesis
    by (simp add: app_step_def page_head_def main_tabs_def submit_form_def update_head_def update_form_def
                  listing_of_def comp_def)
qed

text \<open>Claim C36: a page shows no complaint of another user.  Every complaint id on the page
  an interaction ends with, in the data frame of \<open>View Complaints\<close> or among the options of
  the select box of \<open>Update Complaint\<close>, is the id of a complaint of the user the session is
  then logged in as; a logged-out page shows none.  This holds for every state and every
  click: the sidebar renders no complaint, the two tabs read only \<open>get_user_complaints\<close> of
  the session's user, and no operation changes a complaint's id or owner.\<close>

theorem page_shows_only_own_complaints:
  "list_all (\<lambda>i. \<exists>u. cur (fst (app_step act a)) = Some u \<and> owns u (srv (fst (app_step act a))) i)
            (page_ids (page (snd (app_step act a))))"
proof -
  have "own_page (fst (app_step act a)) (page (snd (app_step act a)))"
    using main_run_own_page [of act a] main_run_own_page [of NoAction]
    by (auto simp: app_step_def split: prod.split outcome.split)
  then show ?thesis by (simp add: own_page_def)
qed

end
