(* ===== verification/Spec2Isabelle.thy ===== *)
theory Spec2Isabelle
  imports System Refinement Page
begin

text \<open>
  \<^bold>\<open>Grievance Management System: a verification model of \<open>src/app.py\<close>.\<close>

  \<^medskip>\<^bold>\<open>The program.\<close> \<open>src/app.py\<close> is a Streamlit application over a MySQL database
  reached through the pure-Python \<open>mysql.connector\<close> driver.  It has three parts:
  \<^item> the schema initializer \<open>init_db\<close> (lines 17--48), which opens a connection and runs
    \<open>CREATE TABLE IF NOT EXISTS USERS\<close> and \<open>CREATE TABLE IF NOT EXISTS COMPLAINTS\<close>, the
    second with \<open>FOREIGN KEY (user_id) REFERENCES users(id)\<close>;
  \<^item> five data-access functions, each opening its own connection
    (\<open>get_database_connection\<close>, lines 8--14): \<open>register_user\<close> (51--64), \<open>login_user\<close>
    (66--76), \<open>submit_complaint\<close> (79--89), \<open>get_user_complaints\<close> (91--106) and
    \<open>update_complaint_status\<close> (108--124);
  \<^item> the page \<open>main\<close> (127--207), which Streamlit runs from the top on every interaction:
    it calls \<open>init_db\<close>, keeps the logged-in id in \<open>st.session_state.user_id\<close>, shows the
    login, registration and logout controls in the sidebar and, for a logged-in user, the
    tabs Submit, View and Update; \<open>st.rerun()\<close> discards the page and runs it again.

  \<^medskip>\<^bold>\<open>The model.\<close>  Theories, in import order:
  \<^item> \<open>Prelude\<close>: the column widths (\<open>fits\<close>), the \<open>INT\<close> and \<open>TIMESTAMP\<close> ranges
    (\<open>INT_MAX\<close> = 2147483647, \<open>ts_ok\<close>: 1 to 2147483647 seconds), the six-column
    \<open>listing_row\<close> of the complaint listing, and list lemmas shared by the components.
  \<^item> \<open>Schema\<close>: the server as a record \<open>server\<close> (the catalog of tables by name, the
    \<open>lower_case_table_names\<close> setting, the collation (binary or case-insensitive, \<open>NO PAD\<close>
    or \<open>PAD SPACE\<close>), the clock, whether it is up, its accounts and databases, and the number of
    open connections); the rows of \<open>USERS\<close> and
    \<open>COMPLAINTS\<close> as records \<open>user_row\<close>, \<open>complaint_row\<close>; a table as its rows in
    primary-key order with its \<open>AUTO_INCREMENT\<close> counter; the driver errors as the datatype
    \<open>db_error\<close>.  \<open>connect\<close>/\<open>disconnect\<close> model \<open>get_database_connection\<close> and
    \<open>db.close()\<close>: the server must be up, accept the hard-coded account (\<open>conn_user\<close>,
    \<open>conn_password\<close>) and hold the database \<open>conn_database\<close>, or the first failing check
    gives the error \<open>conn_error\<close> (2003, 1045, 1049); \<open>create_users_table\<close>, \<open>create_complaints_table\<close> and \<open>init_db\<close> the DDL
    statements and \<open>init_db\<close>.  Every operation is a function
    \<open>server \<Rightarrow> (db_error + 'a) \<times> server\<close>: an exception the code does not catch is an
    \<open>Inl\<close>, with the state the server is in when it is raised.  The invariant
    \<open>wf_server\<close> states what the schema promises of the stored rows.
  \<^item> \<open>Streamlit\<close>: the two libraries the page is built with.  pandas: a \<open>frame\<close> is a
    record of column labels and rows; \<open>pd_frame\<close> is \<open>pd.DataFrame(rows, columns=...)\<close>
    (line 103, with its \<open>ValueError\<close> for a wrong number of labels), \<open>df_empty\<close> is
    \<open>.empty\<close>, \<open>df_column\<close> is \<open>df[k].tolist()\<close> (line 198, with its \<open>KeyError\<close>), over
    the \<open>cell\<close>s of a row.  Streamlit: the elements \<open>ui_elem\<close> the page renders (title,
    header, tabs, text input, text area, button, select box, the four message boxes, data
    frame), each placed in a path of \<open>container\<close>s (the sidebar, a tab), so that a page is
    a list of placed elements in rendering order; \<open>tab_content\<close> reads one container.
  \<^item> \<open>Users\<close>: \<open>insert_user\<close> and \<open>register_user\<close>; \<open>select_user_ids\<close>, the look-ahead of
    the unbuffered cursor \<open>fetchone\<close>, and \<open>login_user\<close>, whose \<open>cursor.close()\<close> raises
    \<open>Unread result found\<close> when a second row is pending.  Login depends on the credentials only
    through the rows they match (\<open>login_user_cong\<close>), so under a \<open>PAD SPACE\<close> collation
    credentials typed with trailing spaces log in as the stored ones (\<open>login_pad_space\<close>).
  \<^item> \<open>Complaints\<close>: \<open>insert_complaint\<close>/\<open>submit_complaint\<close> (the key is allocated before the
    foreign key is checked), \<open>select_user_complaints\<close>/\<open>get_user_complaints\<close> (one
    \<open>listing_row\<close> per row, returned as the frame of line 103 with the labels
    \<open>complaint_columns\<close> of line 101), \<open>update_resolution\<close>/
    \<open>update_complaint_status\<close>.
  \<^item> \<open>Python\<close>: the built-ins the page uses: \<open>py_isspace\<close>/\<open>py_strip\<close> for
    \<open>str.strip()\<close> (line 180), \<open>str_nat\<close>/\<open>str_int\<close> for the f-string of line 182,
    \<open>truthy_id\<close> for \<open>if user_id:\<close> (line 150); and two reference definitions, CPython's
    index loops for \<open>strip\<close> (\<open>cpython_strip\<close>) and a decimal parser (\<open>parse_int\<close>).
  \<^item> \<open>App\<close>: one browser session, the record \<open>app\<close> (the server and
    \<open>st.session_state.user_id\<close>: \<open>None\<close> before line 135 ran, \<open>Some None\<close> logged out,
    \<open>Some (Some u)\<close> logged in); the click of a run as the datatype \<open>action\<close>; the page
    as blocks \<open>blk_init_db\<close>, \<open>blk_session\<close>, \<open>blk_login\<close>, \<open>blk_register\<close>,
    \<open>blk_logout\<close>, \<open>blk_main\<close> (with \<open>blk_submit\<close>, \<open>blk_view\<close>, \<open>blk_update\<close>) composed by
    \<open>seq\<close> in the order of the code, each rendering its widgets (\<open>page_head\<close>,
    \<open>login_form\<close>, \<open>register_form\<close>, \<open>main_tabs\<close>, \<open>submit_form\<close>, \<open>update_head\<close>,
    \<open>update_form\<close>, whose select box offers \<open>df['ID'].tolist()\<close>) and messages in their
    containers; a run \<open>main_run\<close> ends \<open>Finished\<close>, \<open>Crashed\<close> (an
    uncaught exception) or \<open>Rerun\<close>; an interaction \<open>app_step\<close> is the run the click
    triggers followed by the run \<open>st.rerun()\<close> starts.
  \<^item> \<open>Interaction\<close>: what a whole interaction of one session shows and does: the
    rerun and the messages it discards, the foreign key on \<open>Submit\<close>, registering and
    logging in on a server with its schema, a falsy id, a blank complaint, a server down.
  \<^item> \<open>Page\<close>: the complaint ids a page shows (\<open>page_ids\<close>: those of the data frame
    and of the select box) and whose they are (\<open>owns\<close>); the flow lemmas that the sidebar
    shows none and that the two tabs show only the session user's; and that the sidebar's
    \<open>Login\<close>/\<open>Register\<close> tabs are rendered on every run, logged in or not
    (\<open>login_tabs_always_rendered\<close>).
  \<^item> \<open>System\<close>: the deployment, one server and any number of browser sessions, with the
    step relation \<open>sys_step\<close> (an interaction of one session, a new session, the clock
    advancing, the server going down or up), its executable form \<open>sys_exec\<close>, and the
    states \<open>reachable\<close> from an empty database; and \<open>db_call\<close>, one data-access call of
    any session, for the interleaving of the calls of concurrent sessions.
  \<^item> \<open>Refinement\<close>: the store of complaints as the specification describes it
    (\<open>acomplaint\<close>, the map \<open>astore\<close>, the operations \<open>a_submit\<close> and \<open>a_resolve\<close>) and the
    abstraction \<open>abs_store\<close> of a table; the user store (\<open>a_register\<close>, \<open>abs_users\<close>).
  \<^item> this theory: demonstration states, the properties of the whole deployment, and a
    witness for every property with hypotheses.

  \<^medskip>\<^bold>\<open>What is proved.\<close>  The schema invariant holds in every reachable state and every
  logged-in session holds a user's id (C1); registration followed by login returns the new
  id (C2); a submitted complaint is listed as \<open>Pending\<close> with the defaults (C3); resolving
  sets the status, the resolution and the time (C4); submitting and resolving refine the
  abstract store of the specification, whose states read the status, resolution and
  resolution-time columns (C5, C6); the UI never submits for a missing user (C7);
  \<open>init_db\<close> is idempotent (C8); the data-access functions release their connection (C9);
  every interaction ends (C10).  The next claims pin down behaviour where code and
  specification part: duplicate credentials make login raise and leak a connection (C11);
  with case-sensitive table names every run crashes (C12); the default collation makes
  login case insensitive (C13); \<open>Resolved\<close> complaints with the default or an empty
  resolution are reachable (C14); updating an unknown id reports success (C15); the success
  messages before \<open>st.rerun()\<close> are never shown (C16); a connection failure escapes
  \<open>register_user\<close> (C17); a failing insert is reported on the page (C18); unknown
  credentials give no id (C19); a resolution may be overwritten (C20); a user without
  complaints gets the empty listing (C21); a complaint for a missing user fails on the
  foreign key and consumes a key (C22).  Over any sequence of events no complaint is
  deleted or changes owner, description or creation time, and \<open>Resolved\<close> is terminal
  (C23); although \<open>update_complaint_status\<close> checks no ownership, an interaction of a
  logged-in session leaves the complaints of all other users unchanged (C24).  A successful
  login always passes \<open>if user_id:\<close> (C25); the id the success message of a submission
  shows reads back as the key of the stored complaint (C26, a round trip through the
  f-string); a blank complaint never reaches the database (C27); neither table outgrows its
  \<open>INT\<close> key (C28); past 2038-01-19 filing and resolving fail (C29); from every reachable
  state with the schema in place, a new user can register and log in (C30, a liveness
  property); any interleaving of data-access calls keeps the invariant and the history
  (C31); when the server refuses the connection (down, wrong credentials, or no database
  \<open>Grievances\<close>, which the program never creates) every interaction crashes with that error
  and changes nothing (C32); registration refines the abstract user store (C33); and
  because the tabs run in source order, the page of a successful submission already lists
  the new complaint (C34).  The select box of the update tab offers exactly the ids of the
  user's complaints, read back from the \<open>ID\<close> column of the frame (C35, a round trip
  through pandas); and no page, for any state and click, shows a complaint of a user other
  than the one logged in (C36).  Beside the claims, \<open>sys_exec\<close> is shown to compute
  \<open>sys_step\<close>, the model of \<open>str.strip()\<close> to agree with CPython's index loops, and the
  scenario of the specification to run on the demonstration deployment.

  The proofs about whole runs go through two lemmas of \<open>App\<close>: \<open>app_step_mono\<close> (a
  preorder on servers that every data-access function respects holds across an
  interaction) and \<open>app_step_session_mono\<close> (the same for a logged-in session, where only
  \<open>init_db\<close>, the session user's \<open>submit_complaint\<close> and updates of ids of the user's own
  listing occur).  The history relation \<open>history_kept\<close>, the ownership relation
  \<open>others_kept\<close> and the preservation of users are instances.

  \<^medskip>\<^bold>\<open>Bounds.\<close>  The code has no loops: a run is a fixed sequence of blocks and an
  interaction at most two runs (the second run has no click, so it cannot ask for a third,
  C10); no fuel is needed and every definition is total.  \<open>INT AUTO_INCREMENT\<close> is bounded by
  \<open>INT_MAX\<close>; \<open>TIMESTAMP\<close> values by \<open>TS_MAX\<close> (2038-01-19); \<open>VARCHAR(25)\<close>,
  \<open>VARCHAR(255)\<close> and \<open>TEXT\<close> (65535) in characters, as a strict-mode server rejects longer
  values.  That a statement whose \<open>CURRENT_TIMESTAMP\<close> is past 2038 fails with an
  error is an assumption about a strict-mode server still running then (older servers
  stop running past that date); C29 rests on it.  These are bounds of the state, proved (C1, C28) and reached (C29); the
  \<open>AutoIncExhausted\<close> branches of \<open>insert_user\<close> and \<open>insert_complaint\<close> model the key
  range running out; the only recursive
  functions (\<open>str_nat\<close>, \<open>parse_digits\<close>, the strip loops) are total by their measures.

  \<^medskip>\<^bold>\<open>Not modelled.\<close>  \<open>st.set_page_config\<close> (it renders nothing) and the visual
  layout (\<open>layout="wide"\<close>, \<open>use_container_width\<close>), which change no element or its
  container; pandas dtype inference (a value is one \<open>cell\<close>, a \<open>NULL\<close> is \<open>CNone\<close>) and
  duplicate column labels, which the program never uses; the host of
  \<open>get_database_connection\<close> (\<open>localhost\<close>: the one server of the model, reached or not)
  and authentication plugins other than the password check; collations
  beyond ASCII case folding with or without space padding (accent-insensitivity, non-ASCII
  case folding), multibyte characters and byte limits; interleaving below the
  granularity of one data-access call (each call is one statement on its own connection,
  so the server serialises them; C31 covers any interleaving of whole calls, the
  deployment model \<open>sys_step\<close> interleaves whole interactions); the
  \<open>NOT NULL\<close> constraints, which the code's inserts never violate.
\<close>

section \<open>Demonstration states and sequences of interactions\<close>

text \<open>A fresh deployment (an empty database on an online server whose table names are folded
  to lower case), the database after the schema is created, after \<open>alice\<close> registered and
  after that user filed one complaint; and the browser session driving \<open>app_step\<close> repeatedly.\<close>

definition demo_system :: "bool \<Rightarrow> collation \<Rightarrow> system" where
  "demo_system lcn c = \<lparr>server_of = empty_server lcn c 1700000000, sessions = []\<rparr>"

definition alice_scenario :: "event list" where
  "alice_scenario =
     [NewSession, User 0 (ClickRegister ''alice'' ''pw1''), User 0 (ClickLogin ''alice'' ''pw1''),
      User 0 (ClickSubmit ''broken light''), Tick 1700000600, User 0 (ClickUpdate 1 ''fixed'')]"

definition demo_ready :: server where
  "demo_ready = (empty_server True Binary 1700000000)\<lparr>catalog :=
     [''users'' \<mapsto> UsersT \<lparr>rows = [], auto_inc = 1\<rparr>, ''complaints'' \<mapsto> ComplaintsT \<lparr>rows = [], auto_inc = 1\<rparr>]\<rparr>"

definition demo_alice :: server where
  "demo_alice = snd (register_user ''alice'' ''pw1'' demo_ready)"

definition demo_filed :: server where
  "demo_filed = snd (submit_complaint 1 ''broken light'' demo_alice)"

definition demo_row :: complaint_row where
  "demo_row = \<lparr>cid = 1, cuser = 1, cdesc = ''broken light'', cstatus = ''Pending'', ccreated = 1700000000,
               cresolution = ''Not Available'', cresolved = None\<rparr>"

fun app_run :: "action list \<Rightarrow> app \<Rightarrow> app \<times> outcome list" where
  "app_run [] a = (a, [])"
| "app_run (act # acts) a =
     (case app_step act a of (a', out) \<Rightarrow> (case app_run acts a' of (a'', outs) \<Rightarrow> (a'', out # outs)))"

definition broken_schema :: "server \<Rightarrow> bool" where
  "broken_schema s \<longleftrightarrow> \<not> lower_case_names s \<and> online s \<and> catalog s ''users'' = None \<and> catalog s ''COMPLAINTS'' = None"

text \<open>The facts that evaluate the model on concrete states.\<close>

lemmas run_simps = db_defs users_of_def complaints_of_def tkey_def fits_def INT_MAX_def TS_MAX_def ts_ok_def
  put_users_def put_complaints_def new_user_row_def new_complaint_row_def user_exists_def
  user_matches_def listing_of_def resolve_row_def upd_where_def py_strip_def py_isspace_def
  main_run_def app_step_def blk_init_db_def blk_session_def blk_login_def blk_register_def blk_logout_def
  blk_main_def blk_submit_def blk_view_def blk_update_def cur_def session_app_def empty_server_def
  demo_system_def demo_ready_def demo_alice_def demo_filed_def demo_row_def
  df_empty_def df_column_def complaint_columns_def
  online_def conn_error_def conn_user_def conn_password_def conn_database_def

section \<open>A deployment whose table names are case sensitive\<close>

lemma main_run_broken_schema:
  assumes "broken_schema (srv a)"
  shows "snd (main_run act a) = Crashed (FkParentMissing ''users'') [] \<and>
         broken_schema (srv (fst (main_run act a))) \<and> conns (srv (fst (main_run act a))) = Suc (conns (srv a))"
proof -
  obtain s' where i: "init_db (srv a) = (Inl (FkParentMissing ''users''), s')" "conns s' = Suc (conns (srv a))"
    "broken_schema s'"
    using init_db_case_sensitive [of "srv a"] assms by (auto simp: broken_schema_def)
  then show ?thesis by (simp add: main_run_def blk_init_db_def)
qed

lemma app_step_broken_schema:
  "broken_schema (srv a) \<Longrightarrow> snd (app_step act a) = Crashed (FkParentMissing ''users'') [] \<and>
     broken_schema (srv (fst (app_step act a))) \<and> conns (srv (fst (app_step act a))) = Suc (conns (srv a))"
proof -
  assume b: "broken_schema (srv a)"
  obtain a' out where m: "main_run act a = (a', out)" by fastforce
  with main_run_broken_schema [OF b, of act] show ?thesis by (simp add: app_step_def)
qed

lemma app_run_broken_schema:
  "broken_schema (srv a) \<Longrightarrow> snd (app_run acts a) = replicate (length acts) (Crashed (FkParentMissing ''users'') []) \<and>
     conns (srv (fst (app_run acts a))) = conns (srv a) + length acts"
proof (induction acts arbitrary: a)
  case Nil
  then show ?case by simp
next
  case (Cons act acts)
  obtain a' out where st: "app_step act a = (a', out)" by fastforce
  with app_step_broken_schema [OF Cons.prems, of act]
  have "out = Crashed (FkParentMissing ''users'') []" "broken_schema (srv a')" "conns (srv a') = Suc (conns (srv a))"
    by simp_all
  moreover obtain a'' outs where "app_run acts a' = (a'', outs)" by fastforce
  ultimately show ?case using Cons.IH [of a'] st by simp
qed

lemma demo_alice_eq: "register_user ''alice'' ''pw1'' demo_ready = (Inr (True, []), demo_alice)"
  by (simp add: run_simps)

lemma demo_filed_eq: "submit_complaint 1 ''broken light'' demo_alice = (Inr 1, demo_filed)"
  by (simp add: run_simps)

lemma demo_filed_table: "complaints_of demo_filed = Inr \<lparr>rows = [demo_row], auto_inc = 2\<rparr>"
  by (simp add: run_simps)

lemma demo_filed_wf: "wf_server demo_filed"
  by (simp add: run_simps wf_server_def users_wf_def complaints_wf_def row_state_ok_def)

lemma demo_alice_wf: "wf_server demo_alice"
  by (simp add: run_simps wf_server_def users_wf_def complaints_wf_def row_state_ok_def)

section \<open>Properties of the whole application\<close>

text \<open>Claim C1: every reachable state of the deployment is consistent: the database satisfies
  the schema invariant (primary keys increasing and below the counter, the foreign key of every
  complaint to a user, column widths, timestamps in range, \<open>Pending\<close> rows carrying the
  default resolution and no resolution time, \<open>Resolved\<close> rows a resolution time between
  creation and now), and every browser session that is logged in holds the id of a user.\<close>

theorem reachable_consistent:
  assumes "reachable sys"
  shows "wf_server (server_of sys) \<and>
         (\<forall>i < length (sessions sys). \<forall>u. sessions sys ! i = Some (Some u) \<longrightarrow> user_exists u (server_of sys))"
  using reachable_inv [OF assms] by (auto simp: sys_inv_def list_all_length session_ok_def)

text \<open>A test of the demonstration deployment: the scenario of the specification runs as it describes: on a fresh
  deployment, a session registers \<open>alice\<close>, logs in (its session holds id 1), files a
  complaint, and after ten minutes resolves it; the user's listing then shows the complaint as
  \<open>Resolved\<close> with its resolution, creation time and the later resolution time.\<close>

lemma spec_scenario:
  "map_option (\<lambda>sys. (sessions sys, fst (get_user_complaints 1 (server_of sys))))
     (run_events (demo_system True Binary) alice_scenario) =
   Some ([Some (Some 1)], Inr \<lparr>df_columns = complaint_columns,
                               df_rows = [(1, ''broken light'', ''Resolved'', 1700000000, ''fixed'', Some 1700000600)]\<rparr>)"
  by (simp add: alice_scenario_def run_simps)

text \<open>Claim C7: in a reachable state, pressing \<open>Submit\<close> in any browser session never
  fails on the foreign key of \<open>complaints.user_id\<close>: the session only ever holds ids of
  users, and no operation deletes a user.\<close>

theorem ui_submit_never_dangling:
  assumes "reachable sys" "i < length (sessions sys)"
  shows "snd (app_step (ClickSubmit d) (session_app sys i)) \<noteq> Crashed FkViolation pg"
  using app_step_submit_not_fk sys_inv_session_app reachable_inv assms by blast

text \<open>Claim C12: on a server with case-sensitive table names and an empty database, every
  page run crashes: \<open>init_db\<close> creates \<open>USERS\<close> and then fails on \<open>REFERENCES users(id)\<close>,
  whatever the user does; and each run leaks the connection \<open>init_db\<close> opened.\<close>

theorem case_sensitive_server_unusable:
  "snd (app_run acts \<lparr>srv = empty_server False c clk, session = so\<rparr>) =
     replicate (length acts) (Crashed (FkParentMissing ''users'') []) \<and>
   conns (srv (fst (app_run acts \<lparr>srv = empty_server False c clk, session = so\<rparr>))) = length acts"
  using app_run_broken_schema [of "\<lparr>srv = empty_server False c clk, session = so\<rparr>" acts]
  by (simp add: broken_schema_def empty_server_def online_def tkey_def)

text \<open>Claim C14: the specification's invariant that a complaint is \<open>Resolved\<close> exactly when
  its resolution differs from the default is not kept: resolving with the text
  \<open>Not Available\<close>, or with an empty text, is accepted and leaves a \<open>Resolved\<close> complaint whose
  resolution is the default or empty.\<close>

theorem resolved_with_sentinel_reachable:
  "\<exists>sys. reachable sys \<and>
     fst (get_user_complaints 1 (server_of sys)) =
       Inr \<lparr>df_columns = complaint_columns,
            df_rows = [(1, ''broken light'', ''Resolved'', 1700000000, ''Not Available'', Some 1700000000),
                       (2, ''noisy fan'', ''Resolved'', 1700000000, [], Some 1700000000)]\<rparr>"
proof -
  let ?es = "[NewSession, User 0 (ClickRegister ''alice'' ''pw1''), User 0 (ClickLogin ''alice'' ''pw1''),
              User 0 (ClickSubmit ''broken light''), User 0 (ClickSubmit ''noisy fan''),
              User 0 (ClickUpdate 1 ''Not Available''), User 0 (ClickUpdate 2 [])]"
  have "map_option (\<lambda>sys. fst (get_user_complaints 1 (server_of sys))) (run_events (demo_system True Binary) ?es) =
        Some (Inr \<lparr>df_columns = complaint_columns,
                   df_rows = [(1, ''broken light'', ''Resolved'', 1700000000, ''Not Available'', Some 1700000000),
                              (2, ''noisy fan'', ''Resolved'', 1700000000, [], Some 1700000000)]\<rparr>)"
    by (simp add: run_simps)
  then obtain sys where run: "run_events (demo_system True Binary) ?es = Some sys"
    and l: "fst (get_user_complaints 1 (server_of sys)) =
       Inr \<lparr>df_columns = complaint_columns,
            df_rows = [(1, ''broken light'', ''Resolved'', 1700000000, ''Not Available'', Some 1700000000),
                       (2, ''noisy fan'', ''Resolved'', 1700000000, [], Some 1700000000)]\<rparr>" by auto
  have "reachable sys"
    using run_events_reachable [OF _ run] reachable.start by (simp add: demo_system_def)
  with l show ?thesis by blast
qed

section \<open>Witnesses\<close>

text \<open>Each property with hypotheses, applied to the demonstration states where its hypotheses
  are computed to hold.\<close>

theorem reachable_consistent_witness:
  "\<exists>sys. reachable sys \<and> sessions sys = [Some (Some 1)] \<and> wf_server (server_of sys) \<and> user_exists 1 (server_of sys)"
proof -
  have "map_option sessions (run_events (demo_system True Binary) (take 3 alice_scenario)) = Some [Some (Some 1)]"
    by (simp add: alice_scenario_def run_simps)
  then obtain sys where run: "run_events (demo_system True Binary) (take 3 alice_scenario) = Some sys"
    and ses: "sessions sys = [Some (Some 1)]" by auto
  have "reachable sys"
    using run_events_reachable [OF _ run] reachable.start by (simp add: demo_system_def)
  with ses show ?thesis using reachable_consistent [of sys] by fastforce
qed


theorem ui_submit_never_dangling_witness:
  "\<exists>sys. reachable sys \<and> sessions sys = [Some (Some 1)] \<and>
     snd (app_step (ClickSubmit ''x'') (session_app sys 0)) \<noteq> Crashed FkViolation []"
proof -
  have "map_option sessions (run_events (demo_system True Binary) (take 3 alice_scenario)) = Some [Some (Some 1)]"
    by (simp add: alice_scenario_def run_simps)
  then obtain sys where run: "run_events (demo_system True Binary) (take 3 alice_scenario) = Some sys"
    and ses: "sessions sys = [Some (Some 1)]" by auto
  have r: "reachable sys"
    using run_events_reachable [OF _ run] reachable.start by (simp add: demo_system_def)
  show ?thesis using ui_submit_never_dangling [OF r, of 0 "''x''" "[]"] r ses by auto
qed

theorem register_then_login_witness:
  "register_user ''alice'' ''pw1'' demo_ready = (Inr (True, []), demo_alice) \<and>
   select_user_ids ''alice'' ''pw1'' demo_ready = Inr [] \<and>
   (\<exists>t. users_of demo_ready = Inr t \<and> login_user ''alice'' ''pw1'' demo_alice = (Inr (Some (auto_inc t)), demo_alice))"
proof -
  have h2: "select_user_ids ''alice'' ''pw1'' demo_ready = Inr []" by (simp add: run_simps)
  show ?thesis using demo_alice_eq h2 Users.register_then_login [OF demo_alice_eq h2] by blast
qed
theorem submit_then_list_witness:
  "submit_complaint 1 ''broken light'' demo_alice = (Inr 1, demo_filed) \<and>
   select_user_complaints 1 demo_alice = Inr [] \<and>
   get_user_complaints 1 demo_filed =
     (Inr \<lparr>df_columns = complaint_columns,
           df_rows = [] @ [(1, ''broken light'', ''Pending'', clock demo_alice, ''Not Available'', None)]\<rparr>, demo_filed)"
proof -
  have h2: "select_user_complaints 1 demo_alice = Inr []" by (simp add: run_simps select_user_complaints_def)
  show ?thesis using demo_filed_eq h2 Complaints.submit_then_list [OF demo_filed_eq h2] by blast
qed

theorem update_resolves_witness:
  "wf_server demo_filed \<and> update_complaint_status 1 ''fixed'' demo_filed = (Inr True, snd (update_complaint_status 1 ''fixed'' demo_filed)) \<and>
   complaints_of demo_filed = Inr \<lparr>rows = [demo_row], auto_inc = 2\<rparr> \<and> demo_row \<in> set [demo_row] \<and> cid demo_row = 1 \<and>
   (\<exists>L. select_user_complaints (cuser demo_row) (snd (update_complaint_status 1 ''fixed'' demo_filed)) = Inr L \<and>
        (1, cdesc demo_row, ''Resolved'', ccreated demo_row, ''fixed'', Some (clock demo_filed)) \<in> set L \<and>
        ccreated demo_row \<le> clock demo_filed)"
proof -
  have h2: "update_complaint_status 1 ''fixed'' demo_filed = (Inr True, snd (update_complaint_status 1 ''fixed'' demo_filed))"
    by (simp add: run_simps)
  have h4: "demo_row \<in> set (rows \<lparr>rows = [demo_row], auto_inc = 2\<rparr>)" by simp
  have h5: "cid demo_row = 1" by (simp add: demo_row_def)
  show ?thesis
    using demo_filed_wf h2 demo_filed_table h5 Complaints.update_resolves [OF demo_filed_wf h2 demo_filed_table h4 h5]
    by simp
qed

theorem submit_refines_witness:
  "wf_server demo_alice \<and> complaints_of demo_alice = Inr \<lparr>rows = [], auto_inc = 1\<rparr> \<and>
   submit_complaint 1 ''broken light'' demo_alice = (Inr 1, demo_filed) \<and>
   (\<exists>t'. complaints_of demo_filed = Inr t' \<and>
      abs_store t' = a_submit 1 1 ''broken light'' (clock demo_alice) (abs_store \<lparr>rows = [], auto_inc = 1\<rparr>))"
proof -
  have h2: "complaints_of demo_alice = Inr \<lparr>rows = [], auto_inc = 1\<rparr>" by (simp add: run_simps)
  show ?thesis using demo_alice_wf h2 demo_filed_eq Refinement.submit_refines [OF demo_alice_wf h2 demo_filed_eq] by blast
qed

theorem update_refines_witness:
  "wf_server demo_filed \<and> complaints_of demo_filed = Inr \<lparr>rows = [demo_row], auto_inc = 2\<rparr> \<and>
   update_complaint_status 1 ''fixed'' demo_filed = (Inr True, snd (update_complaint_status 1 ''fixed'' demo_filed)) \<and>
   (\<exists>t'. complaints_of (snd (update_complaint_status 1 ''fixed'' demo_filed)) = Inr t' \<and>
      abs_store t' = a_resolve 1 ''fixed'' (clock demo_filed) (abs_store \<lparr>rows = [demo_row], auto_inc = 2\<rparr>))"
proof -
  have h3: "update_complaint_status 1 ''fixed'' demo_filed = (Inr True, snd (update_complaint_status 1 ''fixed'' demo_filed))"
    by (simp add: run_simps)
  show ?thesis
    using demo_filed_wf demo_filed_table h3 Refinement.update_refines [OF demo_filed_wf demo_filed_table h3] by blast
qed

theorem init_db_idem_witness:
  "init_db (empty_server True Binary 1700000000) = (Inr (), snd (init_db (empty_server True Binary 1700000000))) \<and>
   init_db (snd (init_db (empty_server True Binary 1700000000))) = (Inr (), snd (init_db (empty_server True Binary 1700000000)))"
proof -
  have h: "init_db (empty_server True Binary 1700000000) = (Inr (), snd (init_db (empty_server True Binary 1700000000)))"
    by (simp add: run_simps)
  show ?thesis by (rule conjI [OF h Schema.init_db_idem [OF h]])
qed

theorem duplicate_credentials_witness:
  "register_user ''alice'' ''pw1'' demo_ready = (Inr (True, []), demo_alice) \<and>
   register_user ''alice'' ''pw1'' demo_alice = (Inr (True, []), snd (register_user ''alice'' ''pw1'' demo_alice)) \<and>
   login_user ''alice'' ''pw1'' (snd (register_user ''alice'' ''pw1'' demo_alice)) =
     (Inl UnreadResult, (snd (register_user ''alice'' ''pw1'' demo_alice))
        \<lparr>conns := Suc (conns (snd (register_user ''alice'' ''pw1'' demo_alice)))\<rparr>)"
proof -
  have h2: "register_user ''alice'' ''pw1'' demo_alice = (Inr (True, []), snd (register_user ''alice'' ''pw1'' demo_alice))"
    by (simp add: run_simps)
  show ?thesis using demo_alice_eq h2 Users.duplicate_credentials_break_login [OF demo_alice_eq h2] by blast
qed

theorem login_case_insensitive_witness:
  "coll (demo_alice\<lparr>coll := CaseInsensitive\<rparr>) = CaseInsensitive \<and> lower ''ALICE'' = lower ''alice'' \<and>
   lower ''PW1'' = lower ''pw1'' \<and>
   login_user ''ALICE'' ''PW1'' (demo_alice\<lparr>coll := CaseInsensitive\<rparr>) = login_user ''alice'' ''pw1'' (demo_alice\<lparr>coll := CaseInsensitive\<rparr>)"
proof -
  have h1: "coll (demo_alice\<lparr>coll := CaseInsensitive\<rparr>) = CaseInsensitive" by simp
  have h2: "lower ''ALICE'' = lower ''alice''" by code_simp
  have h3: "lower ''PW1'' = lower ''pw1''" by code_simp
  show ?thesis using h1 h2 h3 Users.login_case_insensitive [OF h1 h2 h3] by blast
qed

theorem update_unknown_id_witness:
  "online demo_filed \<and> complaints_of demo_filed = Inr \<lparr>rows = [demo_row], auto_inc = 2\<rparr> \<and>
   (7::int) \<notin> cid ` set (rows \<lparr>rows = [demo_row], auto_inc = 2\<rparr>) \<and>
   update_complaint_status 7 ''fixed'' demo_filed = (Inr True, demo_filed)"
proof -
  have h1: "online demo_filed" by (simp add: run_simps)
  have h3: "(7::int) \<notin> cid ` set (rows \<lparr>rows = [demo_row], auto_inc = 2\<rparr>)" by (simp add: demo_row_def)
  show ?thesis using h1 demo_filed_table h3 Complaints.update_unknown_id [OF h1 demo_filed_table h3] by blast
qed

theorem register_user_offline_witness:
  "\<not> online (demo_ready\<lparr>accounts := []\<rparr>) \<and>
   register_user ''alice'' ''pw1'' (demo_ready\<lparr>accounts := []\<rparr>) =
     (Inl (conn_error (demo_ready\<lparr>accounts := []\<rparr>)), demo_ready\<lparr>accounts := []\<rparr>) \<and>
   conn_error (demo_ready\<lparr>accounts := []\<rparr>) = AccessDenied ''root''"
proof -
  have h: "\<not> online (demo_ready\<lparr>accounts := []\<rparr>)" by (simp add: online_def)
  have e: "conn_error (demo_ready\<lparr>accounts := []\<rparr>) = AccessDenied ''root''" by (simp add: run_simps)
  show ?thesis using h e Users.register_user_offline [OF h] by blast
qed

theorem register_user_reports_errors_witness:
  "online demo_ready \<and> insert_user (replicate 26 CHR ''a'') ''pw1'' demo_ready = Inl (DataTooLong ''username'') \<and>
   register_user (replicate 26 CHR ''a'') ''pw1'' demo_ready =
     (Inr (False, [StError (''Registration failed: '' @ error_text (DataTooLong ''username''))]), demo_ready)"
proof -
  have h1: "online demo_ready" by (simp add: run_simps)
  have h2: "insert_user (replicate 26 CHR ''a'') ''pw1'' demo_ready = Inl (DataTooLong ''username'')"
    by (simp add: run_simps)
  show ?thesis using h1 h2 Users.register_user_reports_errors [OF h1 h2] by blast
qed

theorem login_unknown_credentials_witness:
  "online demo_alice \<and> select_user_ids ''bob'' ''pw1'' demo_alice = Inr [] \<and>
   login_user ''bob'' ''pw1'' demo_alice = (Inr None, demo_alice)"
proof -
  have h1: "online demo_alice" by (simp add: run_simps)
  have h2: "select_user_ids ''bob'' ''pw1'' demo_alice = Inr []" by (simp add: run_simps)
  show ?thesis using h1 h2 Users.login_unknown_credentials [OF h1 h2] by blast
qed

theorem update_overwrites_witness:
  "update_complaint_status 1 ''fixed'' demo_filed = (Inr True, snd (update_complaint_status 1 ''fixed'' demo_filed)) \<and>
   fits 255 ''not fixed after all'' \<and>
   update_complaint_status 1 ''not fixed after all'' (snd (update_complaint_status 1 ''fixed'' demo_filed)) =
     update_complaint_status 1 ''not fixed after all'' demo_filed"
proof -
  have h1: "update_complaint_status 1 ''fixed'' demo_filed = (Inr True, snd (update_complaint_status 1 ''fixed'' demo_filed))"
    by (simp add: run_simps)
  have h2: "fits 255 ''not fixed after all''" by (simp add: fits_def)
  show ?thesis using h1 h2 Complaints.update_overwrites [OF h1 h2] by blast
qed

theorem list_without_complaints_witness:
  "online demo_filed \<and> complaints_of demo_filed = Inr \<lparr>rows = [demo_row], auto_inc = 2\<rparr> \<and>
   (2::int) \<notin> cuser ` set (rows \<lparr>rows = [demo_row], auto_inc = 2\<rparr>) \<and>
   get_user_complaints 2 demo_filed = (Inr \<lparr>df_columns = complaint_columns, df_rows = []\<rparr>, demo_filed)"
proof -
  have h1: "online demo_filed" by (simp add: run_simps)
  have h3: "(2::int) \<notin> cuser ` set (rows \<lparr>rows = [demo_row], auto_inc = 2\<rparr>)" by (simp add: demo_row_def)
  show ?thesis using h1 demo_filed_table h3 Complaints.list_without_complaints [OF h1 demo_filed_table h3] by blast
qed

theorem submit_dangling_user_witness:
  "online demo_alice \<and> complaints_of demo_alice = Inr \<lparr>rows = [], auto_inc = 1\<rparr> \<and> fits 65535 ''ghost'' \<and>
   ts_ok (clock demo_alice) \<and> auto_inc \<lparr>rows = [] :: complaint_row list, auto_inc = 1\<rparr> \<le> INT_MAX \<and>
   \<not> user_exists 7 demo_alice \<and>
   submit_complaint 7 ''ghost'' demo_alice =
     (Inl FkViolation, put_complaints (\<lparr>rows = [], auto_inc = 1\<rparr>\<lparr>auto_inc := auto_inc \<lparr>rows = [] :: complaint_row list, auto_inc = 1\<rparr> + 1\<rparr>) demo_alice)"
proof -
  have h1: "online demo_alice" by (simp add: run_simps)
  have h2: "complaints_of demo_alice = Inr \<lparr>rows = [], auto_inc = 1\<rparr>" by (simp add: run_simps)
  have h3: "fits 65535 ''ghost''" by (simp add: fits_def)
  have h4: "ts_ok (clock demo_alice)" by (simp add: run_simps)
  have h5: "auto_inc \<lparr>rows = [] :: complaint_row list, auto_inc = 1\<rparr> \<le> INT_MAX" by (simp add: INT_MAX_def)
  have h6: "\<not> user_exists 7 demo_alice" by (simp add: run_simps)
  show ?thesis using h1 h2 h3 h4 h5 h6 Complaints.submit_dangling_user [OF h1 h2 h3 h4 h5 h6] by blast
qed

theorem complaint_lifecycle_witness:
  "run_events \<lparr>server_of = demo_filed, sessions = [Some (Some 1)]\<rparr>
      [User 0 (ClickUpdate 1 ''fixed''), User 0 (ClickSubmit ''again'')] =
     Some (the (run_events \<lparr>server_of = demo_filed, sessions = [Some (Some 1)]\<rparr>
      [User 0 (ClickUpdate 1 ''fixed''), User 0 (ClickSubmit ''again'')])) \<and>
   complaints_of (server_of \<lparr>server_of = demo_filed, sessions = [Some (Some 1)]\<rparr>) = Inr \<lparr>rows = [demo_row], auto_inc = 2\<rparr> \<and>
   demo_row \<in> set (rows \<lparr>rows = [demo_row], auto_inc = 2\<rparr>) \<and>
   (\<exists>t'. complaints_of (server_of (the (run_events \<lparr>server_of = demo_filed, sessions = [Some (Some 1)]\<rparr>
            [User 0 (ClickUpdate 1 ''fixed''), User 0 (ClickSubmit ''again'')]))) = Inr t' \<and>
      (\<exists>r' \<in> set (rows t'). cid r' = cid demo_row \<and> cuser r' = cuser demo_row \<and> cdesc r' = cdesc demo_row \<and>
         ccreated r' = ccreated demo_row \<and> (cstatus demo_row = ''Resolved'' \<longrightarrow> cstatus r' = ''Resolved'')))"
proof -
  let ?sys = "\<lparr>server_of = demo_filed, sessions = [Some (Some 1)]\<rparr>"
  let ?es = "[User 0 (ClickUpdate 1 ''fixed''), User 0 (ClickSubmit ''again'')]"
  have h1: "run_events ?sys ?es = Some (the (run_events ?sys ?es))" by (simp add: run_simps)
  have h2: "complaints_of (server_of ?sys) = Inr \<lparr>rows = [demo_row], auto_inc = 2\<rparr>" by (simp add: demo_filed_table)
  have h3: "demo_row \<in> set (rows \<lparr>rows = [demo_row], auto_inc = 2\<rparr>)" by simp
  show ?thesis using h1 h2 h3 System.complaint_lifecycle [OF h1 h2 h3] by blast
qed

theorem ui_changes_only_own_complaints_witness:
  "\<exists>sys t. reachable sys \<and> sessions sys = [Some (Some 1), Some (Some 2)] \<and>
     complaints_of (server_of sys) = Inr t \<and> map cuser (rows t) = [1, 2] \<and>
     (\<exists>t'. complaints_of (srv (fst (app_step (ClickUpdate 1 ''fixed'') (session_app sys 0)))) = Inr t' \<and>
        filter (\<lambda>r. cuser r \<noteq> 1) (rows t') = filter (\<lambda>r. cuser r \<noteq> 1) (rows t))"
proof -
  let ?es = "[NewSession, NewSession, User 0 (ClickRegister ''alice'' ''pw1''), User 0 (ClickLogin ''alice'' ''pw1''),
              User 0 (ClickSubmit ''broken light''), User 1 (ClickRegister ''bob'' ''pw2''),
              User 1 (ClickLogin ''bob'' ''pw2''), User 1 (ClickSubmit ''noisy fan'')]"
  have "map_option (\<lambda>sys. (sessions sys, map_sum id (map cuser \<circ> rows) (complaints_of (server_of sys))))
          (run_events (demo_system True Binary) ?es) = Some ([Some (Some 1), Some (Some 2)], Inr [1, 2])"
    by (simp add: run_simps)
  then obtain sys where run: "run_events (demo_system True Binary) ?es = Some sys"
    and p: "(sessions sys, map_sum id (map cuser \<circ> rows) (complaints_of (server_of sys))) =
            ([Some (Some 1), Some (Some 2)], Inr [1, 2])"
    unfolding map_option_eq_Some by blast
  from p obtain t where ses: "sessions sys = [Some (Some 1), Some (Some 2)]"
    and t: "complaints_of (server_of sys) = Inr t" "map cuser (rows t) = [1, 2]"
    by (cases "complaints_of (server_of sys)") auto
  have r: "reachable sys"
    using run_events_reachable [OF _ run] reachable.start by (simp add: demo_system_def)
  have i: "(0::nat) < length (sessions sys)" using ses by simp
  have u: "sessions sys ! 0 = Some (Some 1)" using ses by simp
  note own = System.ui_changes_only_own_complaints [OF r i u t(1), of "ClickUpdate 1 ''fixed''"]
  show ?thesis
    by (intro exI [where x = sys] exI [where x = t] conjI r ses t own)
qed

lemma alice_reachable:
  "\<exists>sys. reachable sys \<and> sessions sys = [Some (Some 1)] \<and> schema_ready (server_of sys) \<and>
     map_sum id auto_inc (users_of (server_of sys)) = Inr 2 \<and>
     select_user_ids ''bob'' ''pw2'' (server_of sys) = Inr [] \<and>
     map_sum id (map cuser \<circ> rows) (complaints_of (server_of sys)) = Inr [1]"
proof -
  have "map_option (\<lambda>sys. (sessions sys, schema_ready (server_of sys), map_sum id auto_inc (users_of (server_of sys)),
            select_user_ids ''bob'' ''pw2'' (server_of sys), map_sum id (map cuser \<circ> rows) (complaints_of (server_of sys))))
          (run_events (demo_system True Binary) alice_scenario) =
        Some ([Some (Some 1)], True, Inr 2, Inr [], Inr [1])"
    by (simp add: alice_scenario_def run_simps schema_ready_def select_user_ids_def)
  then obtain sys where run: "run_events (demo_system True Binary) alice_scenario = Some sys"
    and p: "(sessions sys, schema_ready (server_of sys), map_sum id auto_inc (users_of (server_of sys)),
            select_user_ids ''bob'' ''pw2'' (server_of sys), map_sum id (map cuser \<circ> rows) (complaints_of (server_of sys))) =
            ([Some (Some 1)], True, Inr 2, Inr [], Inr [1])"
    unfolding map_option_eq_Some by blast
  have "reachable sys" using run_events_reachable [OF _ run] reachable.start by (simp add: demo_system_def)
  with p show ?thesis by auto
qed

theorem login_id_truthy_witness:
  "wf_server demo_alice \<and> login_user ''alice'' ''pw1'' demo_alice = (Inr (Some 1), demo_alice) \<and> truthy_id (Some 1)"
proof -
  have h: "login_user ''alice'' ''pw1'' demo_alice = (Inr (Some 1), demo_alice)" by (simp add: run_simps)
  show ?thesis using demo_alice_wf h Interaction.login_id_truthy [OF demo_alice_wf h] by blast
qed

theorem blank_submit_witness:
  "cur \<lparr>srv = demo_filed, session = Some (Some 1)\<rparr> = Some 1 \<and> list_all py_isspace ''  '' \<and>
   complaints_of (srv \<lparr>srv = demo_filed, session = Some (Some 1)\<rparr>) = Inr \<lparr>rows = [demo_row], auto_inc = 2\<rparr> \<and>
   complaints_of (srv (fst (app_step (ClickSubmit ''  '') \<lparr>srv = demo_filed, session = Some (Some 1)\<rparr>))) =
     Inr \<lparr>rows = [demo_row], auto_inc = 2\<rparr>"
proof -
  have h1: "cur \<lparr>srv = demo_filed, session = Some (Some 1)\<rparr> = Some 1" by (simp add: cur_def)
  have h2: "list_all py_isspace ''  ''" by (simp add: py_isspace_def)
  have h3: "complaints_of (srv \<lparr>srv = demo_filed, session = Some (Some 1)\<rparr>) = Inr \<lparr>rows = [demo_row], auto_inc = 2\<rparr>"
    by (simp add: demo_filed_table)
  show ?thesis using h1 h2 h3 Interaction.blank_submit_stores_nothing [OF h1 h2 h3] by blast
qed

theorem timestamp_range_exhausted_witness:
  "online (demo_filed\<lparr>clock := 2147483648\<rparr>) \<and>
   complaints_of (demo_filed\<lparr>clock := 2147483648\<rparr>) = Inr \<lparr>rows = [demo_row], auto_inc = 2\<rparr> \<and>
   TS_MAX < clock (demo_filed\<lparr>clock := 2147483648\<rparr>) \<and> fits 65535 ''late'' \<and>
   submit_complaint 1 ''late'' (demo_filed\<lparr>clock := 2147483648\<rparr>) =
     (Inl (BadTimestamp ''created_At''), demo_filed\<lparr>clock := 2147483648\<rparr>) \<and>
   (1::int) \<in> cid ` set (rows \<lparr>rows = [demo_row], auto_inc = 2\<rparr>) \<and> fits 255 ''fixed'' \<and>
   update_complaint_status 1 ''fixed'' (demo_filed\<lparr>clock := 2147483648\<rparr>) =
     (Inl (BadTimestamp ''resolved_At''), demo_filed\<lparr>clock := 2147483648\<rparr>)"
proof -
  have h1: "online (demo_filed\<lparr>clock := 2147483648\<rparr>)" by (simp add: run_simps)
  have h2: "complaints_of (demo_filed\<lparr>clock := 2147483648\<rparr>) = Inr \<lparr>rows = [demo_row], auto_inc = 2\<rparr>"
    by (simp add: demo_filed_table)
  have h3: "TS_MAX < clock (demo_filed\<lparr>clock := 2147483648\<rparr>)" by (simp add: TS_MAX_def)
  have f1: "fits 65535 ''late''" and f2: "fits 255 ''fixed''" by (simp_all add: fits_def)
  have c: "(1::int) \<in> cid ` set (rows \<lparr>rows = [demo_row], auto_inc = 2\<rparr>)" by (simp add: demo_row_def)
  show ?thesis using h1 h2 h3 f1 f2 c Complaints.timestamp_range_exhausted [OF h1 h2 h3, of "''late''" 1 1 "''fixed''"]
    by blast
qed

theorem reachable_table_sizes_witness:
  "\<exists>sys. reachable sys \<and> map_sum id (map cuser \<circ> rows) (complaints_of (server_of sys)) = Inr [1] \<and>
     (case users_of (server_of sys) of Inr t \<Rightarrow> length (rows t) \<le> 2147483647 | Inl _ \<Rightarrow> True) \<and>
     (case complaints_of (server_of sys) of Inr c \<Rightarrow> length (rows c) \<le> 2147483647 | Inl _ \<Rightarrow> True)"
proof -
  obtain sys where r: "reachable sys" and c: "map_sum id (map cuser \<circ> rows) (complaints_of (server_of sys)) = Inr [1]"
    using alice_reachable by blast
  show ?thesis using r c System.reachable_table_sizes [OF r] by blast
qed

theorem fresh_user_can_log_in_witness:
  "\<exists>sys t. reachable sys \<and> schema_ready (server_of sys) \<and> users_of (server_of sys) = Inr t \<and>
     auto_inc t \<le> INT_MAX \<and> fits 25 ''bob'' \<and> fits 25 ''pw2'' \<and> select_user_ids ''bob'' ''pw2'' (server_of sys) = Inr [] \<and>
     (\<exists>sys'. run_events sys [NewSession, User (length (sessions sys)) (ClickRegister ''bob'' ''pw2''),
                              User (length (sessions sys)) (ClickLogin ''bob'' ''pw2'')] = Some sys' \<and>
              reachable sys' \<and> sessions sys' ! length (sessions sys) = Some (Some (auto_inc t)))"
proof -
  obtain sys where r: "reachable sys" and ready: "schema_ready (server_of sys)"
    and u: "map_sum id auto_inc (users_of (server_of sys)) = Inr 2"
    and sel: "select_user_ids ''bob'' ''pw2'' (server_of sys) = Inr []"
    using alice_reachable by blast
  from u obtain t where t: "users_of (server_of sys) = Inr t" "auto_inc t = 2"
    by (cases "users_of (server_of sys)") auto
  have b: "auto_inc t \<le> INT_MAX" using t by (simp add: INT_MAX_def)
  have f1: "fits 25 ''bob''" and f2: "fits 25 ''pw2''" by (simp_all add: fits_def)
  note live = System.fresh_user_can_log_in [OF r ready t(1) b f1 f2 sel]
  show ?thesis by (intro exI [where x = sys] exI [where x = t] conjI r ready t(1) b f1 f2 sel live)
qed

theorem interleaved_calls_witness:
  "db_call\<^sup>*\<^sup>* demo_alice (snd (submit_complaint 1 ''broken light'' (snd (register_user ''bob'' ''pw2'' demo_alice)))) \<and>
   wf_server demo_alice \<and>
   wf_server (snd (submit_complaint 1 ''broken light'' (snd (register_user ''bob'' ''pw2'' demo_alice)))) \<and>
   history_kept demo_alice (snd (submit_complaint 1 ''broken light'' (snd (register_user ''bob'' ''pw2'' demo_alice))))"
proof -
  have h: "db_call\<^sup>*\<^sup>* demo_alice (snd (submit_complaint 1 ''broken light'' (snd (register_user ''bob'' ''pw2'' demo_alice))))"
  proof (rule rtranclp.rtrancl_into_rtrancl)
    show "db_call\<^sup>*\<^sup>* demo_alice (snd (register_user ''bob'' ''pw2'' demo_alice))"
      by (rule r_into_rtranclp) (rule db_call.register)
  qed (rule db_call.submit)
  show ?thesis using h demo_alice_wf System.interleaved_calls_keep_invariant [OF h demo_alice_wf] by blast
qed

theorem server_down_crashes_witness:
  "\<not> online (srv \<lparr>srv = demo_ready\<lparr>up := False\<rparr>, session = None\<rparr>) \<and>
   app_step (ClickLogin ''alice'' ''pw1'') \<lparr>srv = demo_ready\<lparr>up := False\<rparr>, session = None\<rparr> =
     (\<lparr>srv = demo_ready\<lparr>up := False\<rparr>, session = None\<rparr>,
      Crashed (conn_error (srv \<lparr>srv = demo_ready\<lparr>up := False\<rparr>, session = None\<rparr>)) []) \<and>
   \<not> online (srv \<lparr>srv = demo_ready\<lparr>databases := []\<rparr>, session = None\<rparr>) \<and>
   app_step NoAction \<lparr>srv = demo_ready\<lparr>databases := []\<rparr>, session = None\<rparr> =
     (\<lparr>srv = demo_ready\<lparr>databases := []\<rparr>, session = None\<rparr>,
      Crashed (conn_error (srv \<lparr>srv = demo_ready\<lparr>databases := []\<rparr>, session = None\<rparr>)) []) \<and>
   conn_error (srv \<lparr>srv = demo_ready\<lparr>databases := []\<rparr>, session = None\<rparr>) = UnknownDatabase ''Grievances''"
proof -
  have h: "\<not> online (srv \<lparr>srv = demo_ready\<lparr>up := False\<rparr>, session = None\<rparr>)" by (simp add: online_def)
  have h2: "\<not> online (srv \<lparr>srv = demo_ready\<lparr>databases := []\<rparr>, session = None\<rparr>)" by (simp add: online_def)
  have e: "conn_error (srv \<lparr>srv = demo_ready\<lparr>databases := []\<rparr>, session = None\<rparr>) = UnknownDatabase ''Grievances''"
    by (simp add: run_simps)
  show ?thesis
    using h h2 e Interaction.server_down_crashes [OF h] Interaction.server_down_crashes [OF h2] by blast
qed

theorem register_refines_witness:
  "wf_server demo_alice \<and> users_of demo_alice = Inr \<lparr>rows = [\<lparr>uid = 1, uname = ''alice'', upass = ''pw1''\<rparr>], auto_inc = 2\<rparr> \<and>
   register_user ''bob'' ''pw2'' demo_alice = (Inr (True, []), snd (register_user ''bob'' ''pw2'' demo_alice)) \<and>
   (\<exists>t'. users_of (snd (register_user ''bob'' ''pw2'' demo_alice)) = Inr t' \<and>
      auto_inc \<lparr>rows = [\<lparr>uid = 1, uname = ''alice'', upass = ''pw1''\<rparr>], auto_inc = 2\<rparr>
        \<notin> dom (abs_users \<lparr>rows = [\<lparr>uid = 1, uname = ''alice'', upass = ''pw1''\<rparr>], auto_inc = 2\<rparr>) \<and>
      abs_users t' = (if True then a_register (auto_inc \<lparr>rows = [\<lparr>uid = 1, uname = ''alice'', upass = ''pw1''\<rparr>], auto_inc = 2\<rparr>)
                        ''bob'' ''pw2'' (abs_users \<lparr>rows = [\<lparr>uid = 1, uname = ''alice'', upass = ''pw1''\<rparr>], auto_inc = 2\<rparr>)
                      else abs_users \<lparr>rows = [\<lparr>uid = 1, uname = ''alice'', upass = ''pw1''\<rparr>], auto_inc = 2\<rparr>))"
proof -
  have h2: "users_of demo_alice = Inr \<lparr>rows = [\<lparr>uid = 1, uname = ''alice'', upass = ''pw1''\<rparr>], auto_inc = 2\<rparr>"
    by (simp add: run_simps)
  have h3: "register_user ''bob'' ''pw2'' demo_alice = (Inr (True, []), snd (register_user ''bob'' ''pw2'' demo_alice))"
    by (simp add: run_simps)
  show ?thesis using demo_alice_wf h2 h3 Refinement.register_refines [OF demo_alice_wf h2 h3] by blast
qed

theorem submit_shows_in_same_page_witness:
  "schema_ready (srv \<lparr>srv = demo_alice, session = Some (Some 1)\<rparr>) \<and>
   cur \<lparr>srv = demo_alice, session = Some (Some 1)\<rparr> = Some 1 \<and>
   user_exists 1 (srv \<lparr>srv = demo_alice, session = Some (Some 1)\<rparr>) \<and>
   complaints_of (srv \<lparr>srv = demo_alice, session = Some (Some 1)\<rparr>) = Inr \<lparr>rows = [], auto_inc = 1\<rparr> \<and>
   py_strip ''broken light'' \<noteq> [] \<and> fits 65535 ''broken light'' \<and>
   ts_ok (clock (srv \<lparr>srv = demo_alice, session = Some (Some 1)\<rparr>)) \<and>
   auto_inc \<lparr>rows = [] :: complaint_row list, auto_inc = 1\<rparr> \<le> INT_MAX \<and>
   (\<exists>pg. snd (app_step (ClickSubmit ''broken light'') \<lparr>srv = demo_alice, session = Some (Some 1)\<rparr>) = Finished pg) \<and>
   tab_content [Tab ''Submit Complaint''] (page (snd (app_step (ClickSubmit ''broken light'') \<lparr>srv = demo_alice, session = Some (Some 1)\<rparr>))) =
     [StHeader ''Submit a New Complaint'', StTextArea ''Describe your complaint'', StButton ''Submit'',
      StSuccess (''Complaint submitted successfully! Complaint ID: '' @ str_int (auto_inc \<lparr>rows = [] :: complaint_row list, auto_inc = 1\<rparr>))] \<and>
   tab_content [Tab ''View Complaints''] (page (snd (app_step (ClickSubmit ''broken light'') \<lparr>srv = demo_alice, session = Some (Some 1)\<rparr>))) =
     [StHeader ''Your Complaints'',
      StDataframe \<lparr>df_columns = complaint_columns,
                   df_rows = map listing_of (filter (\<lambda>r. cuser r = 1) (rows \<lparr>rows = [] :: complaint_row list, auto_inc = 1\<rparr>)) @
                     [(auto_inc \<lparr>rows = [] :: complaint_row list, auto_inc = 1\<rparr>, ''broken light'', ''Pending'',
                       clock (srv \<lparr>srv = demo_alice, session = Some (Some 1)\<rparr>), ''Not Available'', None)]\<rparr>]"
proof -
  let ?a = "\<lparr>srv = demo_alice, session = Some (Some 1)\<rparr>"
  have h1: "schema_ready (srv ?a)" by (simp add: run_simps schema_ready_def)
  have h2: "cur ?a = Some 1" by (simp add: cur_def)
  have h3: "user_exists 1 (srv ?a)" by (simp add: run_simps)
  have h4: "complaints_of (srv ?a) = Inr \<lparr>rows = [], auto_inc = 1\<rparr>" by (simp add: run_simps)
  have h5: "py_strip ''broken light'' \<noteq> []" by (simp add: py_strip_def py_isspace_def)
  have h6: "fits 65535 ''broken light''" by (simp add: fits_def)
  have h7: "ts_ok (clock (srv ?a))" by (simp add: run_simps)
  have h8: "auto_inc \<lparr>rows = [] :: complaint_row list, auto_inc = 1\<rparr> \<le> INT_MAX" by (simp add: INT_MAX_def)
  show ?thesis
    using h1 h2 h3 h4 h5 h6 h7 h8 Interaction.submit_shows_in_same_page [OF h1 h2 h3 h4 h5 h6 h7 h8] by blast
qed

theorem submit_message_names_stored_id_witness:
  "schema_ready (srv \<lparr>srv = demo_alice, session = Some (Some 1)\<rparr>) \<and>
   cur \<lparr>srv = demo_alice, session = Some (Some 1)\<rparr> = Some 1 \<and>
   user_exists 1 (srv \<lparr>srv = demo_alice, session = Some (Some 1)\<rparr>) \<and>
   complaints_of (srv \<lparr>srv = demo_alice, session = Some (Some 1)\<rparr>) = Inr \<lparr>rows = [], auto_inc = 1\<rparr> \<and>
   py_strip ''broken light'' \<noteq> [] \<and> fits 65535 ''broken light'' \<and>
   ts_ok (clock (srv \<lparr>srv = demo_alice, session = Some (Some 1)\<rparr>)) \<and>
   auto_inc \<lparr>rows = [] :: complaint_row list, auto_inc = 1\<rparr> \<le> INT_MAX \<and>
   (\<exists>m i t'. StSuccess (''Complaint submitted successfully! Complaint ID: '' @ m)
        \<in> set (tab_content [Tab ''Submit Complaint''] (page (snd (app_step (ClickSubmit ''broken light'') \<lparr>srv = demo_alice, session = Some (Some 1)\<rparr>)))) \<and>
      parse_int m = Some i \<and>
      complaints_of (srv (fst (app_step (ClickSubmit ''broken light'') \<lparr>srv = demo_alice, session = Some (Some 1)\<rparr>))) = Inr t' \<and>
      list_ex (\<lambda>r. cid r = i \<and> cuser r = 1 \<and> cdesc r = ''broken light'' \<and> cstatus r = ''Pending'') (rows t'))"
proof -
  let ?a = "\<lparr>srv = demo_alice, session = Some (Some 1)\<rparr>"
  have h1: "schema_ready (srv ?a)" by (simp add: run_simps schema_ready_def)
  have h2: "cur ?a = Some 1" by (simp add: cur_def)
  have h3: "user_exists 1 (srv ?a)" by (simp add: run_simps)
  have h4: "complaints_of (srv ?a) = Inr \<lparr>rows = [], auto_inc = 1\<rparr>" by (simp add: run_simps)
  have h5: "py_strip ''broken light'' \<noteq> []" by (simp add: py_strip_def py_isspace_def)
  have h6: "fits 65535 ''broken light''" by (simp add: fits_def)
  have h7: "ts_ok (clock (srv ?a))" by (simp add: run_simps)
  have h8: "auto_inc \<lparr>rows = [] :: complaint_row list, auto_inc = 1\<rparr> \<le> INT_MAX" by (simp add: INT_MAX_def)
  show ?thesis
    using h1 h2 h3 h4 h5 h6 h7 h8 Interaction.submit_message_names_stored_id [OF h1 h2 h3 h4 h5 h6 h7 h8] by blast
qed


theorem update_box_offers_own_ids_witness:
  "schema_ready (srv \<lparr>srv = demo_filed, session = Some (Some 1)\<rparr>) \<and>
   cur \<lparr>srv = demo_filed, session = Some (Some 1)\<rparr> = Some 1 \<and>
   complaints_of (srv \<lparr>srv = demo_filed, session = Some (Some 1)\<rparr>) = Inr \<lparr>rows = [demo_row], auto_inc = 2\<rparr> \<and>
   filter (\<lambda>r. cuser r = 1) (rows \<lparr>rows = [demo_row], auto_inc = 2\<rparr>) \<noteq> [] \<and>
   tab_content [Tab ''Update Complaint''] (page (snd (app_step NoAction \<lparr>srv = demo_filed, session = Some (Some 1)\<rparr>))) =
     [StHeader ''Update Complaint Status'',
      StSelectbox ''Select Complaint ID'' (map (CInt \<circ> cid) (filter (\<lambda>r. cuser r = 1) (rows \<lparr>rows = [demo_row], auto_inc = 2\<rparr>))),
      StTextArea ''Resolution Description'', StButton ''Update Status'']"
proof -
  let ?a = "\<lparr>srv = demo_filed, session = Some (Some 1)\<rparr>"
  have h1: "schema_ready (srv ?a)" by (simp add: run_simps schema_ready_def)
  have h2: "cur ?a = Some 1" by (simp add: cur_def)
  have h3: "complaints_of (srv ?a) = Inr \<lparr>rows = [demo_row], auto_inc = 2\<rparr>" by (simp add: demo_filed_table)
  have h4: "filter (\<lambda>r. cuser r = 1) (rows \<lparr>rows = [demo_row], auto_inc = 2\<rparr>) \<noteq> []" by (simp add: demo_row_def)
  show ?thesis using h1 h2 h3 h4 Page.update_box_offers_own_ids [OF h1 h2 h3 h4] by blast
qed

theorem page_shows_only_own_complaints_witness:
  "page_ids (page (snd (app_step NoAction \<lparr>srv = demo_filed, session = Some (Some 1)\<rparr>))) = [1, 1] \<and>
   list_all (\<lambda>i. \<exists>u. cur (fst (app_step NoAction \<lparr>srv = demo_filed, session = Some (Some 1)\<rparr>)) = Some u \<and>
                      owns u (srv (fst (app_step NoAction \<lparr>srv = demo_filed, session = Some (Some 1)\<rparr>))) i)
            (page_ids (page (snd (app_step NoAction \<lparr>srv = demo_filed, session = Some (Some 1)\<rparr>))))"
proof -
  have "page_ids (page (snd (app_step NoAction \<lparr>srv = demo_filed, session = Some (Some 1)\<rparr>))) = [1, 1]"
    by (simp add: run_simps page_head_def main_tabs_def submit_form_def update_head_def update_form_def)
  then show ?thesis using Page.page_shows_only_own_complaints [of NoAction "\<lparr>srv = demo_filed, session = Some (Some 1)\<rparr>"]
    by blast
qed

end
